(* ===== verification/Prelude.thy ===== *)
theory Prelude
  imports Complex_Main "HOL-Library.Sublist"
begin

text \<open>
  Shared vocabulary of the development: Python strings as \<open>char list\<close>, the
  whitespace class of \<^verbatim>\<open>str.strip\<close>, the Python values the backend passes
  around (JSON documents, metadata dictionaries, tool results) as one datatype
  \<open>pyval\<close> with Python truthiness and insertion-ordered dictionaries, the
  exceptions the code can raise, and the generic list lemmas the component
  theories share.
\<close>

named_theorems model_simps "evaluation rules of the model's helper functions"

subsection \<open>Characters and strings\<close>

type_synonym pystr = string

definition nl :: char where
  "nl = CHR 0x0A"

text \<open>\<^verbatim>\<open>str.isspace\<close> on the eight-bit characters of HOL: space,
  \<^verbatim>\<open>\t \n \v \f \r\<close>, the four separators \<^verbatim>\<open>\x1c\<close>..\<^verbatim>\<open>\x1f\<close>, the next-line
  character \<^verbatim>\<open>\x85\<close> and the no-break space \<^verbatim>\<open>\xa0\<close>.\<close>

definition py_isspace :: "char \<Rightarrow> bool" where
  "py_isspace ch =
     (let n = (of_char ch :: nat) in n = 32 \<or> (9 \<le> n \<and> n \<le> 13) \<or> (28 \<le> n \<and> n \<le> 31) \<or> n = 133 \<or> n = 160)"

text \<open>\<^verbatim>\<open>str.strip()\<close> with no argument.\<close>

definition py_strip :: "pystr \<Rightarrow> pystr" where
  "py_strip s = rev (dropWhile py_isspace (rev (dropWhile py_isspace s)))"

definition starts_with :: "pystr \<Rightarrow> pystr \<Rightarrow> bool" where
  "starts_with p s = (take (length p) s = p)"

text \<open>\<^verbatim>\<open>s.endswith(suf)\<close>.\<close>

definition py_endswith :: "pystr \<Rightarrow> pystr \<Rightarrow> bool" where
  "py_endswith s suf = (length suf \<le> length s \<and> drop (length s - length suf) s = suf)"

text \<open>\<^verbatim>\<open>sep.join(xs)\<close>.\<close>

fun join_sep :: "pystr \<Rightarrow> pystr list \<Rightarrow> pystr" where
  "join_sep sep [] = []"
| "join_sep sep [x] = x"
| "join_sep sep (x # y # zs) = x @ sep @ join_sep sep (y # zs)"

text \<open>\<^verbatim>\<open>str(n)\<close> for a natural number.\<close>

fun nat_str :: "nat \<Rightarrow> pystr" where
  "nat_str n = (if n < 10 then [char_of (48 + n)] else nat_str (n div 10) @ [char_of (48 + n mod 10)])"

declare nl_def [model_simps] py_isspace_def [model_simps] py_strip_def [model_simps]
  starts_with_def [model_simps]

subsection \<open>Python values, dictionaries, exceptions\<close>

text \<open>The values the backend handles: JSON documents (\<^verbatim>\<open>json.load\<close>), vector
  store metadata and tool results.  Floats are modelled as reals (no rounding);
  dictionaries as association lists in insertion order, as Python keeps them.\<close>

datatype pyval =
    PNone
  | PBool bool
  | PInt int
  | PFloat real
  | PStr pystr
  | PList "pyval list"
  | PDict "(pystr \<times> pyval) list"

type_synonym pydict = "(pystr \<times> pyval) list"

text \<open>Python truthiness (\<^verbatim>\<open>if x:\<close>, \<^verbatim>\<open>x or y\<close>).\<close>

fun py_truthy :: "pyval \<Rightarrow> bool" where
  "py_truthy PNone = False"
| "py_truthy (PBool b) = b"
| "py_truthy (PInt i) = (i \<noteq> 0)"
| "py_truthy (PFloat r) = (r \<noteq> 0)"
| "py_truthy (PStr s) = (s \<noteq> [])"
| "py_truthy (PList xs) = (xs \<noteq> [])"
| "py_truthy (PDict d) = (d \<noteq> [])"

text \<open>\<^verbatim>\<open>a or b\<close>: the first operand when it is truthy, else the second.\<close>

definition py_or :: "pyval \<Rightarrow> pyval \<Rightarrow> pyval" where
  "py_or a b = (if py_truthy a then a else b)"

definition dict_has :: "pydict \<Rightarrow> pystr \<Rightarrow> bool" where
  "dict_has d k = (k \<in> set (map fst d))"

text \<open>\<^verbatim>\<open>d.get(k, default)\<close>; \<^verbatim>\<open>d.get(k)\<close> is the default \<open>PNone\<close>.\<close>

definition dict_get :: "pydict \<Rightarrow> pystr \<Rightarrow> pyval \<Rightarrow> pyval" where
  "dict_get d k dflt = (case map_of d k of Some v \<Rightarrow> v | None \<Rightarrow> dflt)"

text \<open>\<^verbatim>\<open>d[k] = v\<close>: overwrite in place, or append a new key at the end.\<close>

definition dict_set :: "pydict \<Rightarrow> pystr \<Rightarrow> pyval \<Rightarrow> pydict" where
  "dict_set d k v =
     (if dict_has d k then map (\<lambda>(k', v'). if k' = k then (k', v) else (k', v')) d
      else d @ [(k, v)])"

definition dict_wf :: "pydict \<Rightarrow> bool" where
  "dict_wf d = distinct (map fst d)"

text \<open>The exceptions the code can raise, and results that may raise.\<close>

datatype exc =
    AttributeError
  | TypeError
  | KeyError
  | JSONDecodeError
  | UnicodeDecodeError pystr
  | FileNotFoundError
  | OSError pystr
  | DecodeError
  | ValueError
  | SyntaxError
  | ProviderError pystr

type_synonym 'a res = "exc + 'a"

text \<open>\<^verbatim>\<open>str(e)\<close> for the exceptions that carry the environment's message.\<close>

fun exc_str :: "exc \<Rightarrow> pystr" where
  "exc_str (UnicodeDecodeError m) = m"
| "exc_str (OSError m) = m"
| "exc_str (ProviderError m) = m"
| "exc_str AttributeError = ''AttributeError''"
| "exc_str TypeError = ''TypeError''"
| "exc_str KeyError = ''KeyError''"
| "exc_str JSONDecodeError = ''JSONDecodeError''"
| "exc_str FileNotFoundError = ''FileNotFoundError''"
| "exc_str DecodeError = ''Incorrect padding''"
| "exc_str ValueError = ''ValueError''"
| "exc_str SyntaxError = ''SyntaxError''"

text \<open>The outcome of a call to a generative model: a response whose
  \<^verbatim>\<open>.text\<close> (or \<^verbatim>\<open>.content\<close>) is available, a falsy response or one without
  that attribute, or an exception from the call or from reading the attribute.\<close>

datatype gen_response = GenText pystr | GenNoText | GenRaise pystr

subsection \<open>Files\<close>

text \<open>Python \<^verbatim>\<open>bytes\<close>: naturals below 256.\<close>

type_synonym bytes = "nat list"

text \<open>The file system as a map from paths to contents.  A JSON file is either a
  document \<^verbatim>\<open>json.load\<close> parses, text it rejects, bytes that are not UTF-8, or a
  file that cannot be opened (permissions, a directory); other files hold raw
  bytes.\<close>

datatype file_content =
    FJson pyval
  | FBadJson
  | FBadUtf8 pystr
  | FUnreadable pystr
  | FBytes bytes

type_synonym fsys = "pystr \<Rightarrow> file_content option"

text \<open>\<^verbatim>\<open>with open(path, "r", encoding="utf-8") as f: json.load(f)\<close>.\<close>

fun json_of_content :: "file_content \<Rightarrow> pyval res" where
  "json_of_content (FJson v) = Inr v"
| "json_of_content FBadJson = Inl JSONDecodeError"
| "json_of_content (FBadUtf8 m) = Inl (UnicodeDecodeError m)"
| "json_of_content (FUnreadable m) = Inl (OSError m)"
| "json_of_content (FBytes bs) = Inl JSONDecodeError"

definition read_json :: "fsys \<Rightarrow> pystr \<Rightarrow> pyval res" where
  "read_json fs path = (case fs path of None \<Rightarrow> Inl FileNotFoundError | Some c \<Rightarrow> json_of_content c)"

text \<open>\<^verbatim>\<open>os.path.join(a, b)\<close> (posixpath): an absolute \<open>b\<close> replaces \<open>a\<close>.\<close>

definition path_join :: "pystr \<Rightarrow> pystr \<Rightarrow> pystr" where
  "path_join a b =
     (if starts_with ''/'' b then b
      else if a = [] \<or> last a = CHR ''/'' then a @ b
      else a @ ''/'' @ b)"

declare dict_has_def [model_simps] dict_get_def [model_simps] dict_set_def [model_simps]
  py_or_def [model_simps] read_json_def [model_simps] path_join_def [model_simps]

lemma nl_not_space_chars [simp]:
  "nl \<noteq> CHR ''*''" "nl \<noteq> CHR ''_''" "nl \<noteq> CHR ''`''" "nl \<noteq> CHR ''<''" "nl \<noteq> CHR ''>''"
  "CHR ''*'' \<noteq> nl" "CHR ''_'' \<noteq> nl" "CHR ''`'' \<noteq> nl" "CHR ''<'' \<noteq> nl" "CHR ''>'' \<noteq> nl"
  by (simp_all add: nl_def)

lemma starts_with_append [simp]: "starts_with p (p @ s)"
  by (simp add: starts_with_def)

lemma starts_with_split: "starts_with p s \<Longrightarrow> s = p @ drop (length p) s"
  by (metis append_take_drop_id starts_with_def)

lemma dropWhile_idem: "dropWhile P (dropWhile P xs) = dropWhile P xs"
  by (induction xs) auto

lemma dropWhile_hd_not: "dropWhile P xs \<noteq> [] \<Longrightarrow> \<not> P (hd (dropWhile P xs))"
  by (induction xs) auto

lemma py_strip_idem [simp]: "py_strip (py_strip s) = py_strip s"
proof -
  let ?t = "dropWhile py_isspace s"
  let ?u = "dropWhile py_isspace (rev ?t)"
  have "dropWhile py_isspace (rev ?u) = rev ?u"
  proof (cases "rev ?u")
    case Nil
    then show ?thesis by (simp only: Nil dropWhile.simps(1))
  next
    case (Cons a w)
    have "?t \<noteq> []"
    proof
      assume "?t = []"
      then have "rev ?u = []" by (simp only: rev.simps(1) dropWhile.simps(1))
      with Cons show False by simp
    qed
    then have hd_t: "\<not> py_isspace (hd ?t)" by (rule dropWhile_hd_not)
    obtain p where "rev ?t = p @ ?u" by (metis takeWhile_dropWhile_id)
    then have "?t = rev ?u @ rev p" by (metis rev_append rev_rev_ident)
    with Cons have "hd ?t = a" by simp
    with hd_t Cons show ?thesis by simp
  qed
  then show ?thesis by (simp add: py_strip_def)
qed

lemma py_strip_sublist: "sublist (py_strip s) s"
proof -
  let ?t = "dropWhile py_isspace s"
  have t: "sublist ?t s"
    by (metis suffix_def suffix_imp_sublist takeWhile_dropWhile_id)
  have "suffix (dropWhile py_isspace (rev ?t)) (rev ?t)"
    by (metis suffix_def takeWhile_dropWhile_id)
  then have "sublist (py_strip s) ?t"
    by (simp add: py_strip_def sublist_rev_left)
  from this t show ?thesis by (rule sublist_order.order.trans)
qed

lemma map_of_overwrite:
  "map_of (map (\<lambda>(k', v'). if k' = k then (k', v) else (k', v')) d) k'' =
     (if k'' = k then (if k \<in> set (map fst d) then Some v else None) else map_of d k'')"
proof (induction d)
  case Nil
  then show ?case by simp
next
  case (Cons p d)
  obtain a b where "p = (a, b)" by fastforce
  with Cons show ?case by force
qed

lemma keys_overwrite: "map fst (map (\<lambda>(k', v'). if k' = k then (k', v) else (k', v')) d) = map fst d"
  by (induction d) auto

lemma map_of_dict_set: "map_of (dict_set d k v) k' = (if k' = k then Some v else map_of d k')"
proof (cases "dict_has d k")
  case True
  then show ?thesis by (simp add: dict_set_def dict_has_def map_of_overwrite)
next
  case False
  then have "map_of d k = None" by (simp add: dict_has_def map_of_eq_None_iff)
  with False show ?thesis by (auto simp: dict_set_def map_add_def split: option.splits)
qed

lemma keys_dict_set:
  "map fst (dict_set d k v) = (if dict_has d k then map fst d else map fst d @ [k])"
  by (simp add: dict_set_def keys_overwrite del: map_map)

lemma dict_wf_set: "dict_wf d \<Longrightarrow> dict_wf (dict_set d k v)"
  by (simp add: dict_wf_def keys_dict_set dict_has_def)

lemma dict_has_set: "dict_has (dict_set d k v) k' = (k' = k \<or> dict_has d k')"
  by (auto simp: dict_has_def keys_dict_set)

lemma dict_get_set: "dict_get (dict_set d k v) k' dflt = (if k' = k then v else dict_get d k' dflt)"
  by (simp add: dict_get_def map_of_dict_set)


lemma overwrite_twice:
  "map (\<lambda>(k', v'). if k' = k then (k', w) else (k', v')) (map (\<lambda>(k', v'). if k' = k then (k', v) else (k', v')) d) =
   map (\<lambda>(k', v'). if k' = k then (k', w) else (k', v')) d"
  by (induction d) auto

lemma overwrite_absent:
  "\<not> dict_has d k \<Longrightarrow> map (\<lambda>(k', v'). if k' = k then (k', w) else (k', v')) d = d"
  by (induction d) (auto simp: dict_has_def)

lemma dict_set_has:
  "dict_has d k \<Longrightarrow> dict_set d k v = map (\<lambda>(k', v'). if k' = k then (k', v) else (k', v')) d"
  "\<not> dict_has d k \<Longrightarrow> dict_set d k v = d @ [(k, v)]"
  by (simp_all add: dict_set_def)

lemma dict_set_twice [simp]: "dict_set (dict_set d k v) k w = dict_set d k w"
proof -
  have h: "dict_has (dict_set d k v) k" by (simp add: dict_has_set)
  show ?thesis
  proof (cases "dict_has d k")
    case True
    then have e: "dict_set d k v = map (\<lambda>(k', v'). if k' = k then (k', v) else (k', v')) d"
      by (rule dict_set_has(1))
    show ?thesis unfolding dict_set_has(1) [OF h] unfolding e
      by (simp only: overwrite_twice dict_set_has(1) [OF True])
  next
    case False
    then have e: "dict_set d k v = d @ [(k, v)]" by (rule dict_set_has(2))
    show ?thesis unfolding dict_set_has(1) [OF h] unfolding e
      using False by (simp add: overwrite_absent dict_set_has(2))
  qed
qed

lemma dict_has_map_of: "dict_has d k \<longleftrightarrow> map_of d k \<noteq> None"
  by (simp add: dict_has_def map_of_eq_None_iff)


lemma takeWhile_append_stop: "\<exists>x\<in>set s. \<not> P x \<Longrightarrow> takeWhile P (s @ b) = takeWhile P s"
  by (induction s) auto

lemma dropWhile_append_stop: "\<exists>x\<in>set s. \<not> P x \<Longrightarrow> dropWhile P (s @ b) = dropWhile P s @ b"
  by (induction s) auto

lemma length_dropWhile_eq: "length (dropWhile P xs) = length xs - length (takeWhile P xs)"
  by (induction xs) auto

end
