(* ===== verification/Matcher.thy ===== *)
theory Matcher
  imports Prelude
begin

text \<open>
  The similarity matcher, \<^verbatim>\<open>find_closest_match\<close> of
  \<^verbatim>\<open>agent_tools/search.py\<close>.  The vector store (Chroma over BGE embeddings) is
  external: its query \<^verbatim>\<open>similarity_search_with_score(query, k)\<close> is modelled from
  the spec as the \<open>k\<close> documents of least distance, for an arbitrary distance
  function standing for the embedding and metric.  The tool's own code, the empty
  check, the threshold test and the metadata update, is translated line by line.
  An abstract contract (\<open>match_spec\<close>) states what the matcher promises and
  \<open>find_closest_match_refines\<close> shows the code meets it.
\<close>

record document =
  page_content :: pystr
  doc_metadata :: pydict

definition score_threshold :: real where
  "score_threshold = 0.6"

definition no_matches_result :: pyval where
  "no_matches_result = PDict [(''error'', PStr ''No matches found in the vector database.'')]"

definition below_threshold_result :: pyval where
  "below_threshold_result = PStr ''No match passed the similarity score threshold.''"

text \<open>\<^verbatim>\<open>vector_db.similarity_search_with_score(query, k)\<close>: the stored documents
  paired with their distance to the query, closest first (a stable sort, so ties
  keep insertion order), cut to \<open>k\<close>.\<close>

definition similarity_search_with_score ::
    "(pystr \<Rightarrow> pystr \<Rightarrow> real) \<Rightarrow> document list \<Rightarrow> pystr \<Rightarrow> nat \<Rightarrow> (document \<times> real) list" where
  "similarity_search_with_score distance docs query k =
     take k (sort_key snd (map (\<lambda>d. (d, distance query (page_content d))) docs))"

text \<open>The body of \<^verbatim>\<open>find_closest_match\<close> after the store query.\<close>

definition closest_match_of :: "(document \<times> real) list \<Rightarrow> pyval" where
  "closest_match_of results =
     (case results of
        [] \<Rightarrow> no_matches_result
      | (doc, score) # _ \<Rightarrow>
          (if score > score_threshold then below_threshold_result
           else PDict (dict_set (doc_metadata doc) ''similarity_score'' (PFloat score))))"

definition find_closest_match :: "(pystr \<Rightarrow> pystr \<Rightarrow> real) \<Rightarrow> document list \<Rightarrow> pystr \<Rightarrow> pyval" where
  "find_closest_match distance docs query =
     closest_match_of (similarity_search_with_score distance docs query 1)"

subsection \<open>The matcher's contract\<close>

datatype match_outcome = NoMatches | Rejected | Matched document real

text \<open>Spec section 4.1: nearest neighbour, accepted only when its distance is at
  most the threshold; an empty index and a rejected candidate are distinct,
  non-fatal answers.\<close>

definition match_spec ::
    "(pystr \<Rightarrow> pystr \<Rightarrow> real) \<Rightarrow> document list \<Rightarrow> pystr \<Rightarrow> match_outcome \<Rightarrow> bool" where
  "match_spec distance docs q r =
     (case r of
        NoMatches \<Rightarrow> docs = []
      | Rejected \<Rightarrow> docs \<noteq> [] \<and> (\<forall>d \<in> set docs. score_threshold < distance q (page_content d))
      | Matched d s \<Rightarrow> d \<in> set docs \<and> s = distance q (page_content d) \<and> s \<le> score_threshold \<and>
                      (\<forall>d' \<in> set docs. s \<le> distance q (page_content d')))"

text \<open>How each outcome reaches the agent: the tool's return value.\<close>

fun outcome_value :: "match_outcome \<Rightarrow> pyval" where
  "outcome_value NoMatches = no_matches_result"
| "outcome_value Rejected = below_threshold_result"
| "outcome_value (Matched d s) = PDict (dict_set (doc_metadata d) ''similarity_score'' (PFloat s))"

lemma sort_key_head_min:
  assumes "sort_key f xs = y # ys"
  shows "y \<in> set xs \<and> (\<forall>z \<in> set xs. f y \<le> f z)"
proof -
  have "sorted (map f (y # ys))" using sorted_sort_key [of f xs] assms by simp
  then have "\<forall>z \<in> set ys. f y \<le> f z" by simp
  moreover have "set (y # ys) = set xs" using assms by (metis set_sort)
  ultimately show ?thesis by auto
qed

lemma search_head:
  assumes "similarity_search_with_score distance docs q 1 = (d, s) # rest"
  shows "d \<in> set docs \<and> s = distance q (page_content d) \<and> (\<forall>d' \<in> set docs. s \<le> distance q (page_content d'))"
proof -
  let ?xs = "map (\<lambda>d. (d, distance q (page_content d))) docs"
  obtain ys where srt: "sort_key snd ?xs = (d, s) # ys"
    using assms by (cases "sort_key snd ?xs") (auto simp: similarity_search_with_score_def)
  from sort_key_head_min [OF srt] show ?thesis by auto
qed

lemma sort_key_Nil_iff: "sort_key f xs = [] \<longleftrightarrow> xs = []"
  by (metis length_0_conv length_sort)

lemma search_empty_iff: "similarity_search_with_score distance docs q 1 = [] \<longleftrightarrow> docs = []"
  by (simp add: similarity_search_with_score_def sort_key_Nil_iff)

text \<open>C4. Refinement: on every index and query, the tool's answer is the encoding
  of an outcome the contract allows: the explicit no-matches dictionary exactly
  when the index is empty, the rejection string exactly when every document is
  farther than the threshold, and otherwise the metadata of a nearest document
  with its distance recorded under \<^verbatim>\<open>similarity_score\<close>.\<close>

theorem find_closest_match_refines:
  "\<exists>r. match_spec distance docs q r \<and> find_closest_match distance docs q = outcome_value r"
proof (cases "similarity_search_with_score distance docs q 1")
  case Nil
  then have "docs = []" using search_empty_iff by blast
  with Nil show ?thesis
    by (intro exI [of _ NoMatches]) (simp add: match_spec_def find_closest_match_def closest_match_of_def)
next
  case (Cons p rest)
  obtain d s where p: "p = (d, s)" by fastforce
  from Cons p have head: "d \<in> set docs \<and> s = distance q (page_content d) \<and>
      (\<forall>d' \<in> set docs. s \<le> distance q (page_content d'))" by (simp add: search_head)
  show ?thesis
  proof (cases "s > score_threshold")
    case True
    with head have "docs \<noteq> [] \<and> (\<forall>d' \<in> set docs. score_threshold < distance q (page_content d'))"
      by fastforce
    with True Cons p show ?thesis
      by (intro exI [of _ Rejected]) (simp add: match_spec_def find_closest_match_def closest_match_of_def)
  next
    case False
    with head Cons p show ?thesis
      by (intro exI [of _ "Matched d s"]) (auto simp: match_spec_def find_closest_match_def closest_match_of_def)
  qed
qed

theorem find_closest_match_refines_witness:
  "match_spec (\<lambda>q c. if c = ''LG WM3488HW OE drain filter'' then 0.2 else 0.75)
     [\<lparr>page_content = ''Canon MG2522 E03 paper jam'', doc_metadata = [(''filename'', PStr ''canon.json'')]\<rparr>,
      \<lparr>page_content = ''LG WM3488HW OE drain filter'', doc_metadata =
         [(''filename'', PStr ''lg_wm3488hw.json''), (''title'', PStr ''LG WM3488HW OE Error'')]\<rparr>]
     ''my LG washing machine shows error OE''
     (Matched \<lparr>page_content = ''LG WM3488HW OE drain filter'', doc_metadata =
         [(''filename'', PStr ''lg_wm3488hw.json''), (''title'', PStr ''LG WM3488HW OE Error'')]\<rparr> 0.2) \<and>
   find_closest_match (\<lambda>q c. if c = ''LG WM3488HW OE drain filter'' then 0.2 else 0.75)
     [\<lparr>page_content = ''Canon MG2522 E03 paper jam'', doc_metadata = [(''filename'', PStr ''canon.json'')]\<rparr>,
      \<lparr>page_content = ''LG WM3488HW OE drain filter'', doc_metadata =
         [(''filename'', PStr ''lg_wm3488hw.json''), (''title'', PStr ''LG WM3488HW OE Error'')]\<rparr>]
     ''my LG washing machine shows error OE'' =
   PDict [(''filename'', PStr ''lg_wm3488hw.json''), (''title'', PStr ''LG WM3488HW OE Error''),
          (''similarity_score'', PFloat 0.2)]"
  using find_closest_match_refines [of "\<lambda>q c. if c = ''LG WM3488HW OE drain filter'' then 0.2 else 0.75"]
  by (simp add: match_spec_def find_closest_match_def closest_match_of_def
      similarity_search_with_score_def score_threshold_def model_simps)

end
