(* ===== verification/Finalizer.thy ===== *)
theory Finalizer
  imports Prelude
begin

text \<open>
  The document detail expander, \<^verbatim>\<open>extract_final_data\<close> of
  \<^verbatim>\<open>app/utils/finalizer.py\<close>: given the metadata the agent returned, it joins the
  file name onto the clean-data directory, loads the JSON record and copies the
  title, tools, steps and embed fields that are truthy.  Reading errors are
  caught and returned as \<^verbatim>\<open>{"error": ...}\<close> dictionaries; the two exceptions
  raised outside the \<^verbatim>\<open>try\<close> (\<^verbatim>\<open>os.path.join\<close> on a non-string name,
  \<^verbatim>\<open>.get\<close> on a JSON value that is not an object) are \<open>Inl\<close> results.
\<close>

definition error_dict :: "pystr \<Rightarrow> pyval" where
  "error_dict m = PDict [(''error'', PStr m)]"

text \<open>\<^verbatim>\<open>if v: response[k] = v\<close>.\<close>

definition set_if_truthy :: "pydict \<Rightarrow> pystr \<Rightarrow> pyval \<Rightarrow> pydict" where
  "set_if_truthy r k v = (if py_truthy v then dict_set r k v else r)"

text \<open>Line 28: \<^verbatim>\<open>data.get("title") or data.get("metadata", {}).get("title")\<close>;
  the right operand runs only when the left is falsy, and its \<^verbatim>\<open>.get\<close> raises
  when the \<^verbatim>\<open>metadata\<close> entry is not a dictionary.\<close>

definition final_title :: "pydict \<Rightarrow> pyval res" where
  "final_title data =
     (let t = dict_get data ''title'' PNone in
      if py_truthy t then Inr t
      else (case dict_get data ''metadata'' (PDict []) of
              PDict m \<Rightarrow> Inr (dict_get m ''title'' PNone)
            | _ \<Rightarrow> Inl AttributeError))"

text \<open>Lines 25--52, once the record is loaded.\<close>

definition final_fields :: "pyval \<Rightarrow> pyval res" where
  "final_fields data =
     (case data of
        PDict d \<Rightarrow>
          (case final_title d of
             Inl e \<Rightarrow> Inl e
           | Inr title \<Rightarrow>
               (let response = set_if_truthy [] ''title'' title;
                    tools = py_or (dict_get d ''tools'' PNone)
                              (py_or (dict_get d ''tools_needed'' PNone) (dict_get d ''tools_and_materials'' PNone));
                    response = set_if_truthy response ''tools'' tools;
                    response = set_if_truthy response ''steps'' (dict_get d ''steps'' PNone);
                    response = set_if_truthy response ''embed_code'' (dict_get d ''embed_code'' PNone);
                    response = set_if_truthy response ''embed_guide'' (dict_get d ''embed_guide'' PNone)
                in Inr (PDict response)))
      | _ \<Rightarrow> Inl AttributeError)"

definition extract_final_data :: "pystr \<Rightarrow> fsys \<Rightarrow> pydict \<Rightarrow> pyval res" where
  "extract_final_data json_dir fs metadata =
     (let file_name = dict_get metadata ''filename'' PNone in
      if \<not> py_truthy file_name then Inr (error_dict ''Filename not provided in metadata'')
      else (case file_name of
              PStr f \<Rightarrow>
                (let file_path = path_join json_dir f in
                 case read_json fs file_path of
                   Inl FileNotFoundError \<Rightarrow> Inr (error_dict (''File not found: '' @ file_path))
                 | Inl JSONDecodeError \<Rightarrow> Inr (error_dict ''Invalid JSON format'')
                 | Inl e \<Rightarrow> Inr (error_dict (''Failed to read JSON file: '' @ exc_str e))
                 | Inr data \<Rightarrow> final_fields data)
            | _ \<Rightarrow> Inl TypeError))"

subsection \<open>Behaviour\<close>

lemma set_if_truthy_fresh:
  "\<not> dict_has r k \<Longrightarrow> set_if_truthy r k v = r @ (if py_truthy v then [(k, v)] else [])"
  by (simp add: set_if_truthy_def dict_set_def)

lemma final_fields_dict:
  assumes "final_title d = Inr t"
  shows "final_fields (PDict d) = Inr (PDict (filter (\<lambda>(k, v). py_truthy v)
     [(''title'', t),
      (''tools'', py_or (dict_get d ''tools'' PNone)
                   (py_or (dict_get d ''tools_needed'' PNone) (dict_get d ''tools_and_materials'' PNone))),
      (''steps'', dict_get d ''steps'' PNone),
      (''embed_code'', dict_get d ''embed_code'' PNone),
      (''embed_guide'', dict_get d ''embed_guide'' PNone)]))"
  using assms by (simp add: final_fields_def set_if_truthy_fresh dict_has_def Let_def)

lemma final_fields_raises:
  "final_fields data = Inl e \<longleftrightarrow> e = AttributeError \<and>
     (\<forall>d. data = PDict d \<longrightarrow> \<not> py_truthy (dict_get d ''title'' PNone) \<and>
                         (\<forall>m. dict_get d ''metadata'' (PDict []) \<noteq> PDict m))"
  by (auto simp: final_fields_def final_title_def Let_def split: pyval.splits sum.splits if_splits)

text \<open>C5. When the metadata names a record file that loads as a JSON object, the
  result is the dictionary of the fields \<^verbatim>\<open>title\<close> (root, else nested metadata),
  \<^verbatim>\<open>tools\<close> (first truthy of the three spellings), \<^verbatim>\<open>steps\<close>,
  \<^verbatim>\<open>embed_code\<close> and \<^verbatim>\<open>embed_guide\<close>, in that order, keeping exactly the
  truthy ones.\<close>
theorem extract_final_data_record:
  assumes "dict_get md ''filename'' PNone = PStr f" "f \<noteq> []"
    and "read_json fs (path_join dir f) = Inr (PDict d)" "final_title d = Inr t"
  shows "extract_final_data dir fs md = Inr (PDict (filter (\<lambda>(k, v). py_truthy v)
     [(''title'', t),
      (''tools'', py_or (dict_get d ''tools'' PNone)
                   (py_or (dict_get d ''tools_needed'' PNone) (dict_get d ''tools_and_materials'' PNone))),
      (''steps'', dict_get d ''steps'' PNone),
      (''embed_code'', dict_get d ''embed_code'' PNone),
      (''embed_guide'', dict_get d ''embed_guide'' PNone)]))"
  using assms final_fields_dict [OF assms(4)] by (simp add: extract_final_data_def Let_def)


theorem extract_final_data_record_witness:
  "dict_get [(''filename'', PStr ''lg_wm3488hw.json'')] ''filename'' PNone = PStr ''lg_wm3488hw.json'' \<and>
   ''lg_wm3488hw.json'' \<noteq> [] \<and>
   read_json (\<lambda>p. if p = ''/srv/clean_data/lg_wm3488hw.json''
                    then Some (FJson (PDict [(''title'', PStr ''LG WM3488HW OE Error''), (''tools'', PList []),
                                             (''steps'', PList [PStr ''Open the drain filter''])]))
                    else None)
     (path_join ''/srv/clean_data'' ''lg_wm3488hw.json'') =
     Inr (PDict [(''title'', PStr ''LG WM3488HW OE Error''), (''tools'', PList []),
                 (''steps'', PList [PStr ''Open the drain filter''])]) \<and>
   final_title [(''title'', PStr ''LG WM3488HW OE Error''), (''tools'', PList []),
                (''steps'', PList [PStr ''Open the drain filter''])] = Inr (PStr ''LG WM3488HW OE Error'') \<and>
   extract_final_data ''/srv/clean_data''
     (\<lambda>p. if p = ''/srv/clean_data/lg_wm3488hw.json''
           then Some (FJson (PDict [(''title'', PStr ''LG WM3488HW OE Error''), (''tools'', PList []),
                                    (''steps'', PList [PStr ''Open the drain filter''])]))
           else None)
     [(''filename'', PStr ''lg_wm3488hw.json'')] =
   Inr (PDict [(''title'', PStr ''LG WM3488HW OE Error''), (''steps'', PList [PStr ''Open the drain filter''])])"
proof -
  have f: "dict_get [(''filename'', PStr ''lg_wm3488hw.json'')] ''filename'' PNone = PStr ''lg_wm3488hw.json''"
    by (simp add: model_simps)
  have r: "read_json (\<lambda>p. if p = ''/srv/clean_data/lg_wm3488hw.json''
                    then Some (FJson (PDict [(''title'', PStr ''LG WM3488HW OE Error''), (''tools'', PList []),
                                             (''steps'', PList [PStr ''Open the drain filter''])]))
                    else None)
     (path_join ''/srv/clean_data'' ''lg_wm3488hw.json'') =
     Inr (PDict [(''title'', PStr ''LG WM3488HW OE Error''), (''tools'', PList []),
                 (''steps'', PList [PStr ''Open the drain filter''])])"
    by (simp add: model_simps)
  have t: "final_title [(''title'', PStr ''LG WM3488HW OE Error''), (''tools'', PList []),
                (''steps'', PList [PStr ''Open the drain filter''])] = Inr (PStr ''LG WM3488HW OE Error'')"
    by (simp add: final_title_def model_simps)
  show ?thesis using extract_final_data_record [OF f _ r t] f r t by (simp add: model_simps)
qed

text \<open>C6. The anticipated failures are reported as \<^verbatim>\<open>{"error": ...}\<close> values:
  a missing or falsy file name, a missing file, text that is not JSON, and a file
  that cannot be read.\<close>
theorem extract_final_data_error_values:
  "(\<not> py_truthy (dict_get md ''filename'' PNone) \<longrightarrow>
      extract_final_data dir fs md = Inr (error_dict ''Filename not provided in metadata'')) \<and>
   (dict_get md ''filename'' PNone = PStr f \<and> f \<noteq> [] \<and> fs (path_join dir f) = None \<longrightarrow>
      extract_final_data dir fs md = Inr (error_dict (''File not found: '' @ path_join dir f))) \<and>
   (dict_get md ''filename'' PNone = PStr f \<and> f \<noteq> [] \<and> fs (path_join dir f) = Some FBadJson \<longrightarrow>
      extract_final_data dir fs md = Inr (error_dict ''Invalid JSON format'')) \<and>
   (dict_get md ''filename'' PNone = PStr f \<and> f \<noteq> [] \<and> fs (path_join dir f) = Some (FUnreadable m) \<longrightarrow>
      extract_final_data dir fs md = Inr (error_dict (''Failed to read JSON file: '' @ m)))"
  by (simp add: extract_final_data_def read_json_def Let_def)


theorem extract_final_data_error_values_witness:
  "dict_get [(''filename'', PStr ''missing.json'')] ''filename'' PNone = PStr ''missing.json'' \<and>
   (\<lambda>p. None) (path_join ''/srv/clean_data'' ''missing.json'') = (None :: file_content option) \<and>
   extract_final_data ''/srv/clean_data'' (\<lambda>p. None) [(''filename'', PStr ''missing.json'')] =
     Inr (error_dict ''File not found: /srv/clean_data/missing.json'')"
  using extract_final_data_error_values [of "[(''filename'', PStr ''missing.json'')]" "''/srv/clean_data''"
      "\<lambda>p. None" "''missing.json''"]
  by (simp add: model_simps)

text \<open>C7. \<^verbatim>\<open>extract_final_data\<close> raises in exactly two situations the
  \<^verbatim>\<open>try\<close> does not cover: a truthy file name that is not a string
  (\<^verbatim>\<open>TypeError\<close> from \<^verbatim>\<open>os.path.join\<close>), and a non-empty file name whose
  record loads but is not a JSON object, or has a falsy title and a
  \<^verbatim>\<open>metadata\<close> entry that is not an object (\<^verbatim>\<open>AttributeError\<close> from
  \<^verbatim>\<open>.get\<close>).\<close>

theorem extract_final_data_raises:
  "extract_final_data dir fs md = Inl e \<longleftrightarrow>
     (e = TypeError \<and> py_truthy (dict_get md ''filename'' PNone) \<and>
        (\<forall>f. dict_get md ''filename'' PNone \<noteq> PStr f)) \<or>
     (e = AttributeError \<and> (\<exists>f data. dict_get md ''filename'' PNone = PStr f \<and> f \<noteq> [] \<and>
        read_json fs (path_join dir f) = Inr data \<and>
        (\<forall>d. data = PDict d \<longrightarrow> \<not> py_truthy (dict_get d ''title'' PNone) \<and>
                          (\<forall>m. dict_get d ''metadata'' (PDict []) \<noteq> PDict m))))"
proof (cases "dict_get md ''filename'' PNone")
  case (PStr f)
  show ?thesis
  proof (cases "f = []")
    case True
    then show ?thesis using PStr by (simp add: extract_final_data_def)
  next
    case False
    then show ?thesis using PStr
      by (auto simp: extract_final_data_def Let_def final_fields_raises split: sum.splits exc.splits)
  qed
qed (auto simp: extract_final_data_def Let_def)

theorem extract_final_data_raises_witness:
  "extract_final_data ''/srv/clean_data'' (\<lambda>p. Some (FJson (PList [PStr ''step'']))) [(''filename'', PStr ''a.json'')] =
     Inl AttributeError \<and>
   extract_final_data ''/srv/clean_data'' (\<lambda>p. Some (FJson (PList [PStr ''step'']))) [(''filename'', PInt 3)] =
     Inl TypeError"
proof -
  have "extract_final_data ''/srv/clean_data'' (\<lambda>p. Some (FJson (PList [PStr ''step'']))) [(''filename'', PStr ''a.json'')] =
      Inl AttributeError"
    by (rule extract_final_data_raises [THEN iffD2]) (simp add: model_simps)
  moreover have "extract_final_data ''/srv/clean_data'' (\<lambda>p. Some (FJson (PList [PStr ''step'']))) [(''filename'', PInt 3)] =
      Inl TypeError"
    by (rule extract_final_data_raises [THEN iffD2]) (simp add: model_simps)
  ultimately show ?thesis by simp
qed

text \<open>C8. For an absolute file name the expander reads and returns the record
  stored at that very path, whatever directory is configured: the file name comes
  from the agent's output, so the expander can be made to read any JSON file on
  the host.\<close>

theorem extract_final_data_abs_path:
  assumes "dict_get md ''filename'' PNone = PStr f" "starts_with ''/'' f" "read_json fs f = Inr data"
  shows "extract_final_data dir fs md = final_fields data"
proof -
  have "f \<noteq> []" using assms(2) by (auto simp: starts_with_def)
  then show ?thesis using assms by (simp add: extract_final_data_def path_join_def Let_def)
qed

theorem extract_final_data_abs_path_witness:
  "extract_final_data ''/srv/clean_data''
       (\<lambda>p. if p = ''/etc/app/secrets.json'' then Some (FJson (PDict [(''title'', PStr ''key'')])) else None)
       [(''filename'', PStr ''/etc/app/secrets.json'')] =
   final_fields (PDict [(''title'', PStr ''key'')])"
  by (rule extract_final_data_abs_path) (simp_all add: model_simps)

end
