(* ===== verification/TextNormalizer.thy ===== *)
theory TextNormalizer
  imports Prelude
begin

text \<open>
  The text normalizer \<^verbatim>\<open>clean_text\<close>, defined identically in
  \<^verbatim>\<open>agent_tools/audio_description.py\<close>, \<^verbatim>\<open>image_description.py\<close>,
  \<^verbatim>\<open>video_description.py\<close> and \<^verbatim>\<open>api/vectordb_generator.py\<close>: five
  \<^verbatim>\<open>re.sub\<close> passes with a lazy group (\<^verbatim>\<open>O(.*?)C\<close>, where \<^verbatim>\<open>.\<close> does
  not match a newline) followed by \<^verbatim>\<open>strip()\<close>.  A pass is modelled the way
  Python's regex engine runs it: at each position try a match (the opening
  literal, then the shortest run of non-newline characters followed by the closing
  literal); on success emit the replacement and resume after the match, otherwise
  copy one character and try the next position.
\<close>

subsection \<open>One substitution pass\<close>

text \<open>The lazy group \<^verbatim>\<open>(.*?)C\<close>: the shortest newline-free prefix followed by
  \<open>c\<close>, or \<open>None\<close> when a newline or the end comes first.\<close>

fun lazy_group :: "pystr \<Rightarrow> pystr \<Rightarrow> pystr option" where
  "lazy_group c [] = (if c = [] then Some [] else None)"
| "lazy_group c (x # xs) =
     (if starts_with c (x # xs) then Some []
      else if x = nl then None
      else map_option (Cons x) (lazy_group c xs))"

text \<open>\<^verbatim>\<open>re.sub(O(.*?)C, repl, text)\<close>: \<open>keep\<close> is the replacement \<^verbatim>\<open>\1\<close>,
  otherwise the replacement is the empty string.  The patterns of the code all
  open with a non-empty literal.\<close>

function re_sub_group :: "pystr \<Rightarrow> pystr \<Rightarrow> bool \<Rightarrow> pystr \<Rightarrow> pystr" where
  "re_sub_group opn cls keep [] = []"
| "re_sub_group opn cls keep (x # xs) =
     (if opn \<noteq> [] \<and> starts_with opn (x # xs) then
        (case lazy_group cls (drop (length opn) (x # xs)) of
           Some g \<Rightarrow> (if keep then g else []) @
                     re_sub_group opn cls keep (drop (length opn + length g + length cls) (x # xs))
         | None \<Rightarrow> x # re_sub_group opn cls keep xs)
      else x # re_sub_group opn cls keep xs)"
  by pat_completeness auto
termination
  by (relation "measure (\<lambda>(opn, cls, keep, s). length s)") auto

definition clean_text :: "pystr \<Rightarrow> pystr" where
  "clean_text text =
     (let text = re_sub_group ''**'' ''**'' True text;
          text = re_sub_group ''*'' ''*'' True text;
          text = re_sub_group ''_'' ''_'' True text;
          text = re_sub_group ''`'' ''`'' True text;
          text = re_sub_group ''<'' ''>'' False text
      in py_strip text)"

subsection \<open>Line-local pairs\<close>

text \<open>\<open>no_close_after opn cls b s\<close>: no occurrence of \<open>cls\<close> in \<open>s\<close> follows an
  occurrence of \<open>opn\<close> on the same line (\<open>b\<close>: an \<open>opn\<close> was already seen on the
  current line).  This is what a single-character pass leaves behind.\<close>

fun no_close_after :: "char \<Rightarrow> char \<Rightarrow> bool \<Rightarrow> pystr \<Rightarrow> bool" where
  "no_close_after opn cls b [] = True"
| "no_close_after opn cls b (x # xs) =
     (if x = nl then no_close_after opn cls False xs
      else if x = cls \<and> b then False
      else no_close_after opn cls (b \<or> x = opn) xs)"

text \<open>The strings \<^verbatim>\<open>clean_text\<close> leaves unchanged: no pair of markers
  on one line left to match, and no surrounding whitespace.\<close>

definition clean_normal :: "pystr \<Rightarrow> bool" where
  "clean_normal t =
     (no_close_after (CHR ''*'') (CHR ''*'') False t \<and> no_close_after (CHR ''_'') (CHR ''_'') False t \<and>
      no_close_after (CHR ''`'') (CHR ''`'') False t \<and> no_close_after (CHR ''<'') (CHR ''>'') False t \<and>
      py_strip t = t)"

text \<open>Deleting characters other than newlines.\<close>

inductive del_chars :: "pystr \<Rightarrow> pystr \<Rightarrow> bool" where
  del_nil: "del_chars [] []"
| del_keep: "del_chars xs ys \<Longrightarrow> del_chars (x # xs) (x # ys)"
| del_drop: "x \<noteq> nl \<Longrightarrow> del_chars xs ys \<Longrightarrow> del_chars (x # xs) ys"

subsection \<open>Passes and their line-local effect\<close>

lemma lazy_group_Some:
  "lazy_group c s = Some g \<Longrightarrow> s = g @ c @ drop (length g + length c) s"
proof (induction c s arbitrary: g rule: lazy_group.induct)
  case (1 c)
  then show ?case by (simp split: if_splits)
next
  case (2 c x xs)
  show ?case
  proof (cases "starts_with c (x # xs)")
    case True
    with "2.prems" have "g = []" by simp
    with starts_with_split [OF True] show ?thesis by simp
  next
    case False
    with "2.prems" obtain g' where "x \<noteq> nl" "lazy_group c xs = Some g'" "g = x # g'"
      by (auto split: if_splits)
    with "2.IH" False show ?thesis by simp
  qed
qed

lemma lazy_group_no_nl: "lazy_group c s = Some g \<Longrightarrow> nl \<notin> set g"
  by (induction c s arbitrary: g rule: lazy_group.induct) (auto split: if_splits)

lemma lazy_group_single: "lazy_group [d] s = Some g \<Longrightarrow> d \<notin> set g"
  by (induction s arbitrary: g) (auto simp: starts_with_def split: if_splits)

lemma nca_True_lazy_None: "cls \<noteq> nl \<Longrightarrow> no_close_after opn cls True s \<Longrightarrow> lazy_group [cls] s = None"
  by (induction s) (auto simp: starts_with_def split: if_splits)

lemma nca_mono: "no_close_after opn cls True s \<Longrightarrow> no_close_after opn cls b s"
  by (induction s arbitrary: b) (auto split: if_splits)

lemma nca_False_of: "no_close_after opn cls b s \<Longrightarrow> no_close_after opn cls False s"
  by (cases b) (auto intro: nca_mono)

lemma nca_append: "no_close_after opn cls b (xs @ ys) \<Longrightarrow> no_close_after opn cls b xs \<and> no_close_after opn cls False ys"
  by (induction xs arbitrary: b) (auto split: if_splits intro: nca_False_of)

lemma nca_append_free:
  "opn \<notin> set g \<Longrightarrow> cls \<notin> set g \<Longrightarrow> nl \<notin> set g \<Longrightarrow> no_close_after opn cls b (g @ ys) = no_close_after opn cls b ys"
  by (induction g) auto

lemma nca_no_open: "opn \<notin> set s \<Longrightarrow> no_close_after opn cls False s"
  by (induction s) auto

lemma re_sub_single_Cons:
  "re_sub_group [opn] [cls] keep (x # xs) =
     (if x = opn then
        (case lazy_group [cls] xs of
           Some g \<Rightarrow> (if keep then g else []) @ re_sub_group [opn] [cls] keep (drop (Suc (length g)) xs)
         | None \<Rightarrow> x # re_sub_group [opn] [cls] keep xs)
      else x # re_sub_group [opn] [cls] keep xs)"
  by (simp add: starts_with_def split: option.split)

lemma re_sub_single_match:
  assumes "lazy_group [cls] xs = Some g" "keep \<longrightarrow> opn = cls"
    and "no_close_after opn cls False (re_sub_group [opn] [cls] keep (drop (Suc (length g)) xs))"
  shows "no_close_after opn cls False (re_sub_group [opn] [cls] keep (opn # xs))"
proof -
  have R: "re_sub_group [opn] [cls] keep (opn # xs) =
      (if keep then g else []) @ re_sub_group [opn] [cls] keep (drop (Suc (length g)) xs)"
    using assms(1) by (simp add: re_sub_single_Cons del: re_sub_group.simps)
  have g: "cls \<notin> set g" "nl \<notin> set g"
    using lazy_group_single [OF assms(1)] lazy_group_no_nl [OF assms(1)] by auto
  show ?thesis using R g assms(2,3) by (auto simp: nca_append_free)
qed

lemma re_sub_single_lone:
  assumes "opn \<noteq> nl" "cls \<noteq> nl" "keep \<longrightarrow> opn = cls"
  shows "no_close_after opn cls False (re_sub_group [opn] [cls] keep s) \<and>
         (lazy_group [cls] s = None \<longrightarrow> no_close_after opn cls True (re_sub_group [opn] [cls] keep s))"
proof (induction "length s" arbitrary: s rule: less_induct)
  case less
  let ?R = "re_sub_group [opn] [cls] keep"
  show ?case
  proof (cases s)
    case Nil
    then show ?thesis by simp
  next
    case (Cons x xs)
    have IH: "no_close_after opn cls False (?R xs) \<and> (lazy_group [cls] xs = None \<longrightarrow> no_close_after opn cls True (?R xs))"
      using less Cons by simp
    show ?thesis
    proof (cases "x = opn")
      case False
      then have "?R s = x # ?R xs" using Cons by (simp add: re_sub_single_Cons del: re_sub_group.simps)
      with IH False assms Cons show ?thesis by (auto simp: starts_with_def)
    next
      case True
      show ?thesis
      proof (cases "lazy_group [cls] xs")
        case None
        then have "?R s = x # ?R xs" using Cons True by (simp add: re_sub_single_Cons del: re_sub_group.simps)
        moreover have "x \<noteq> nl" using True assms(1) by simp
        ultimately show ?thesis using IH None True Cons by (auto simp: starts_with_def)
      next
        case (Some g)
        have "xs = g @ [cls] @ drop (Suc (length g)) xs" using lazy_group_Some [OF Some] by simp
        then have "length (drop (Suc (length g)) xs) < length s" using Cons by simp
        then have "no_close_after opn cls False (?R (drop (Suc (length g)) xs))" using less by blast
        from re_sub_single_match [OF Some assms(3) this] True Cons
        have "no_close_after opn cls False (?R s)" by (simp only:)
        moreover have "lazy_group [cls] s \<noteq> None" using Cons True Some assms(1) by (auto simp: starts_with_def)
        ultimately show ?thesis by auto
      qed
    qed
  qed
qed

lemma del_chars_nca: "del_chars xs ys \<Longrightarrow> no_close_after opn cls b xs \<Longrightarrow> no_close_after opn cls b ys"
proof (induction arbitrary: b rule: del_chars.induct)
  case del_nil
  then show ?case by simp
next
  case (del_keep xs ys x)
  then show ?case by (auto split: if_splits)
next
  case (del_drop x xs ys)
  then have "no_close_after opn cls (b \<or> x = opn) ys" by (auto split: if_splits)
  then show ?case by (cases "x = opn") (auto intro: nca_mono)
qed

lemma del_chars_refl: "del_chars xs xs"
  by (induction xs) (auto intro: del_chars.intros)

lemma del_chars_keep_app: "del_chars xs ys \<Longrightarrow> del_chars (ws @ xs) (ws @ ys)"
  by (induction ws) (auto intro: del_keep)

lemma del_chars_drop_app: "nl \<notin> set ws \<Longrightarrow> del_chars xs ys \<Longrightarrow> del_chars (ws @ xs) ys"
  by (induction ws) (auto intro: del_drop)

lemma del_chars_subseq: "del_chars xs ys \<Longrightarrow> subseq ys xs"
  by (induction rule: del_chars.induct) auto

lemma re_sub_del:
  "nl \<notin> set opn \<Longrightarrow> nl \<notin> set cls \<Longrightarrow> del_chars s (re_sub_group opn cls keep s)"
proof (induction opn cls keep s rule: re_sub_group.induct)
  case (1 opn cls keep)
  then show ?case by (simp add: del_nil)
next
  case (2 opn cls keep x xs)
  show ?case
  proof (cases "opn \<noteq> [] \<and> starts_with opn (x # xs)")
    case False
    with "2.IH"(3) "2.prems" show ?thesis by (auto intro: del_keep)
  next
    case True
    show ?thesis
    proof (cases "lazy_group cls (drop (length opn) (x # xs))")
      case None
      have "del_chars xs (re_sub_group opn cls keep xs)"
        using "2.IH" True None "2.prems" by simp
      with True None show ?thesis by (simp add: del_keep)
    next
      case (Some g)
      let ?r = "drop (length opn + length g + length cls) (x # xs)"
      have IH: "del_chars ?r (re_sub_group opn cls keep ?r)"
        using "2.IH"(2) [OF True Some] "2.prems" by simp
      have "x # xs = opn @ drop (length opn) (x # xs)"
        using True by (simp add: starts_with_split)
      also have "drop (length opn) (x # xs) = g @ cls @ ?r"
        using lazy_group_Some [OF Some] by (simp add: add.commute add.left_commute)
      finally have split: "x # xs = opn @ g @ cls @ ?r" .
      have "nl \<notin> set g" using Some by (rule lazy_group_no_nl)
      with IH "2.prems" have "del_chars (opn @ g @ cls @ ?r) ((if keep then g else []) @ re_sub_group opn cls keep ?r)"
        by (auto intro!: del_chars_drop_app del_chars_keep_app)
      with split True Some show ?thesis by simp
    qed
  qed
qed

lemma nca_strip: "no_close_after opn cls False s \<Longrightarrow> no_close_after opn cls False (py_strip s)"
proof -
  assume h: "no_close_after opn cls False s"
  obtain p q where "s = p @ py_strip s @ q" using py_strip_sublist [of s] unfolding sublist_def by blast
  with h have "no_close_after opn cls False (p @ (py_strip s @ q))" by simp
  then show ?thesis by (auto dest!: nca_append)
qed

lemma nca_pass: "no_close_after opn cls False s \<Longrightarrow> nl \<notin> set o' \<Longrightarrow> nl \<notin> set c' \<Longrightarrow>
    no_close_after opn cls False (re_sub_group o' c' k s)"
  using del_chars_nca re_sub_del by blast

lemma re_sub_single_id:
  "opn \<noteq> nl \<Longrightarrow> cls \<noteq> nl \<Longrightarrow> no_close_after opn cls False s \<Longrightarrow> re_sub_group [opn] [cls] k s = s"
proof (induction s)
  case Nil
  then show ?case by simp
next
  case (Cons x xs)
  then have tail: "no_close_after opn cls False xs" by (auto split: if_splits intro: nca_False_of)
  show ?case
  proof (cases "x = opn")
    case True
    with Cons.prems have "no_close_after opn cls True xs" by simp
    with Cons.prems have "lazy_group [cls] xs = None" by (simp add: nca_True_lazy_None)
    with True tail Cons.IH Cons.prems show ?thesis by (simp add: re_sub_single_Cons del: re_sub_group.simps)
  next
    case False
    with tail Cons.IH Cons.prems show ?thesis by (simp add: re_sub_single_Cons del: re_sub_group.simps)
  qed
qed

lemma re_sub_bold_id:
  "no_close_after (CHR ''*'') (CHR ''*'') False s \<Longrightarrow> re_sub_group ''**'' ''**'' True s = s"
proof (induction s)
  case Nil
  then show ?case by simp
next
  case (Cons x xs)
  then have tail: "no_close_after (CHR ''*'') (CHR ''*'') False xs" by (auto split: if_splits intro: nca_False_of)
  have "\<not> starts_with ''**'' (x # xs)"
  proof
    assume "starts_with ''**'' (x # xs)"
    then obtain ys where "x = CHR ''*''" "xs = CHR ''*'' # ys"
      by (cases xs) (auto simp: starts_with_def)
    with Cons.prems show False by simp
  qed
  with tail Cons.IH show ?case by simp
qed

lemma clean_text_passes_id:
  assumes "no_close_after (CHR ''*'') (CHR ''*'') False t" "no_close_after (CHR ''_'') (CHR ''_'') False t"
    "no_close_after (CHR ''`'') (CHR ''`'') False t" "no_close_after (CHR ''<'') (CHR ''>'') False t"
  shows "clean_text t = py_strip t"
  using assms by (simp add: clean_text_def re_sub_bold_id re_sub_single_id)

lemma clean_text_normal: "clean_normal (clean_text s)"
proof -
  define s1 where "s1 = re_sub_group ''**'' ''**'' True s"
  define s2 where "s2 = re_sub_group ''*'' ''*'' True s1"
  define s3 where "s3 = re_sub_group ''_'' ''_'' True s2"
  define s4 where "s4 = re_sub_group ''`'' ''`'' True s3"
  define s5 where "s5 = re_sub_group ''<'' ''>'' False s4"
  have t: "clean_text s = py_strip s5"
    by (simp add: clean_text_def s1_def s2_def s3_def s4_def s5_def)
  have "no_close_after (CHR ''*'') (CHR ''*'') False s2"
    unfolding s2_def using re_sub_single_lone [of "CHR ''*''" "CHR ''*''" True] by simp
  then have star: "no_close_after (CHR ''*'') (CHR ''*'') False s5"
    unfolding s3_def s4_def s5_def by (simp add: nca_pass)
  have "no_close_after (CHR ''_'') (CHR ''_'') False s3"
    unfolding s3_def using re_sub_single_lone [of "CHR ''_''" "CHR ''_''" True] by simp
  then have under: "no_close_after (CHR ''_'') (CHR ''_'') False s5"
    unfolding s4_def s5_def by (simp add: nca_pass)
  have "no_close_after (CHR ''`'') (CHR ''`'') False s4"
    unfolding s4_def using re_sub_single_lone [of "CHR ''`''" "CHR ''`''" True] by simp
  then have code: "no_close_after (CHR ''`'') (CHR ''`'') False s5"
    unfolding s5_def by (simp add: nca_pass)
  have tag: "no_close_after (CHR ''<'') (CHR ''>'') False s5"
    unfolding s5_def using re_sub_single_lone [of "CHR ''<''" "CHR ''>''" False] by simp
  show ?thesis
    unfolding t clean_normal_def using star under code tag by (simp add: nca_strip)
qed

lemma clean_normal_fix: "clean_normal t \<Longrightarrow> clean_text t = t"
  unfolding clean_normal_def using clean_text_passes_id [of t] by simp

text \<open>C1. Normalising is idempotent: running \<^verbatim>\<open>clean_text\<close> on its own output
  changes nothing, whatever the input (the spec's idempotence property, proved for
  every string, not only for markup-free ones).\<close>

theorem clean_text_idem: "clean_text (clean_text s) = clean_text s"
  using clean_normal_fix [OF clean_text_normal] .

text \<open>Text without markup characters (\<^verbatim>\<open>*\<close>, \<^verbatim>\<open>_\<close>, backquote,
  \<^verbatim>\<open><\<close>) and without surrounding whitespace is returned unchanged.\<close>

theorem clean_text_plain:
  assumes "CHR ''*'' \<notin> set s" "CHR ''_'' \<notin> set s" "CHR ''`'' \<notin> set s" "CHR ''<'' \<notin> set s"
    and "py_strip s = s"
  shows "clean_text s = s"
  using assms by (simp add: clean_text_passes_id nca_no_open)

theorem clean_text_plain_witness:
  "CHR ''*'' \<notin> set ''bold'' \<and> CHR ''_'' \<notin> set ''bold'' \<and> CHR ''`'' \<notin> set ''bold'' \<and>
   CHR ''<'' \<notin> set ''bold'' \<and> py_strip ''bold'' = ''bold'' \<and> clean_text ''bold'' = ''bold''"
proof -
  have h: "py_strip ''bold'' = ''bold''" by (simp add: model_simps)
  show ?thesis using clean_text_plain [of "''bold''"] h by simp
qed

lemma clean_text_bold_example: "clean_text ''**bold**'' = ''bold''"
  by (simp add: clean_text_def model_simps)

lemma pass_subseq: "nl \<notin> set o' \<Longrightarrow> nl \<notin> set c' \<Longrightarrow> subseq (re_sub_group o' c' k t) t"
  by (rule del_chars_subseq [OF re_sub_del])

text \<open>\<^verbatim>\<open>clean_text\<close> only deletes characters: its result is a
  subsequence of its input, so no content is invented or reordered.\<close>

theorem clean_text_subseq: "subseq (clean_text s) s"
proof -
  define s1 where "s1 = re_sub_group ''**'' ''**'' True s"
  define s2 where "s2 = re_sub_group ''*'' ''*'' True s1"
  define s3 where "s3 = re_sub_group ''_'' ''_'' True s2"
  define s4 where "s4 = re_sub_group ''`'' ''`'' True s3"
  define s5 where "s5 = re_sub_group ''<'' ''>'' False s4"
  have "subseq s1 s" "subseq s2 s1" "subseq s3 s2" "subseq s4 s3" "subseq s5 s4"
    unfolding s1_def s2_def s3_def s4_def s5_def by (simp_all add: pass_subseq)
  moreover have "subseq (py_strip s5) s5" by (rule sublist_imp_subseq [OF py_strip_sublist])
  ultimately have "subseq (py_strip s5) s" by (meson subseq_order.trans)
  then show ?thesis by (simp add: clean_text_def s1_def s2_def s3_def s4_def s5_def)
qed


end
