(* ===== verification/Base64.thy ===== *)
theory Base64
  imports Prelude
begin

text \<open>
  Standard base64 as used by the media pipeline: \<^verbatim>\<open>convert_to_base64\<close> in
  \<^verbatim>\<open>api/agent.py\<close> encodes each upload with \<^verbatim>\<open>base64.b64encode\<close>, and
  \<^verbatim>\<open>describe_image\<close>, \<^verbatim>\<open>describe_audio\<close> and \<^verbatim>\<open>describe_video\<close> decode it
  again with \<^verbatim>\<open>base64.b64decode\<close>.  Bytes are naturals below 256.  Encoding
  follows RFC 4648 (three bytes to four characters, \<^verbatim>\<open>=\<close> padding); decoding is
  modelled on canonical, padded input, the only input the program produces, and
  returns \<open>Inl DecodeError\<close> (\<^verbatim>\<open>binascii.Error\<close>) on a length or padding
  error.  The alphabet is computed from character codes, as an encoder does;
  the theorems of the theory are the round trip, the equivalence of that
  computation with the RFC's table, and the length and character bounds of an
  encoding.
\<close>

definition bytes_ok :: "bytes \<Rightarrow> bool" where
  "bytes_ok bs = (\<forall>b \<in> set bs. b < 256)"

text \<open>The alphabet \<^verbatim>\<open>A-Z a-z 0-9 + /\<close> as character codes.\<close>

definition b64_char :: "nat \<Rightarrow> char" where
  "b64_char i =
     char_of (if i < 26 then 65 + i
              else if i < 52 then 71 + i
              else if i < 62 then i - 4
              else if i = 62 then 43 else 47 :: nat)"

definition b64_index :: "char \<Rightarrow> nat option" where
  "b64_index ch =
     (let n = (of_char ch :: nat) in
      if 65 \<le> n \<and> n \<le> 90 then Some (n - 65)
      else if 97 \<le> n \<and> n \<le> 122 then Some (n - 71)
      else if 48 \<le> n \<and> n \<le> 57 then Some (n + 4)
      else if n = 43 then Some 62
      else if n = 47 then Some 63 else None)"

text \<open>The alphabet of RFC 4648, table 1, as the table it is.\<close>

definition b64_alphabet :: pystr where
  "b64_alphabet = ''ABCDEFGHIJKLMNOPQRSTUVWXYZabcdefghijklmnopqrstuvwxyz0123456789+/''"

definition pad :: char where
  "pad = CHR ''=''"

fun b64encode :: "bytes \<Rightarrow> pystr" where
  "b64encode [] = []"
| "b64encode [a] = [b64_char (a div 4), b64_char (a mod 4 * 16), pad, pad]"
| "b64encode [a, b] =
     [b64_char (a div 4), b64_char (a mod 4 * 16 + b div 16), b64_char (b mod 16 * 4), pad]"
| "b64encode (a # b # c # rest) =
     [b64_char (a div 4), b64_char (a mod 4 * 16 + b div 16),
      b64_char (b mod 16 * 4 + c div 64), b64_char (c mod 64)] @ b64encode rest"

text \<open>One quantum of four characters, the last one possibly padded.\<close>

fun b64_quantum :: "char \<Rightarrow> char \<Rightarrow> char \<Rightarrow> char \<Rightarrow> bool \<Rightarrow> bytes option" where
  "b64_quantum w x y z final =
     (case (b64_index w, b64_index x) of
        (Some i, Some j) \<Rightarrow>
          (if final \<and> y = pad \<and> z = pad then Some [i * 4 + j div 16]
           else (case b64_index y of
                   None \<Rightarrow> None
                 | Some k \<Rightarrow>
                     (if final \<and> z = pad then Some [i * 4 + j div 16, j mod 16 * 16 + k div 4]
                      else (case b64_index z of
                              None \<Rightarrow> None
                            | Some l \<Rightarrow> Some [i * 4 + j div 16, j mod 16 * 16 + k div 4, k mod 4 * 64 + l]))))
      | _ \<Rightarrow> None)"

fun b64decode_opt :: "pystr \<Rightarrow> bytes option" where
  "b64decode_opt [] = Some []"
| "b64decode_opt (w # x # y # z # rest) =
     (case b64_quantum w x y z (rest = []) of
        None \<Rightarrow> None
      | Some bs \<Rightarrow> map_option (\<lambda>r. bs @ r) (b64decode_opt rest))"
| "b64decode_opt _ = None"

definition b64decode :: "pystr \<Rightarrow> bytes res" where
  "b64decode s = (case b64decode_opt s of None \<Rightarrow> Inl DecodeError | Some bs \<Rightarrow> Inr bs)"

subsection \<open>Round trip\<close>

lemma b64_index_char: "i < 64 \<Longrightarrow> b64_index (b64_char i) = Some i"
  by (auto simp: b64_index_def b64_char_def Let_def)

lemma b64_char_not_pad: "i < 64 \<Longrightarrow> b64_char i \<noteq> pad"
proof
  assume "i < 64" "b64_char i = pad"
  then have "of_char (b64_char i) = (of_char pad :: nat)" by simp
  with \<open>i < 64\<close> show False by (auto simp: b64_char_def pad_def split: if_splits)
qed

lemma sextet_bounds:
  assumes "a < 256" "b < 256" "c < (256::nat)"
  shows "a div 4 < 64" "a mod 4 * 16 + b div 16 < 64" "b mod 16 * 4 + c div 64 < 64" "c mod 64 < 64"
  using assms by auto

lemma join_bytes:
  assumes "b < 256" "c < (256::nat)"
  shows "a div 4 * 4 + (a mod 4 * 16 + b div 16) div 16 = a"
    and "(a mod 4 * 16 + b div 16) mod 16 * 16 + (b mod 16 * 4 + c div 64) div 4 = b"
    and "(b mod 16 * 4 + c div 64) mod 4 * 64 + c mod 64 = c"
  using assms by auto

lemma b64encode_Nil_iff: "b64encode bs = [] \<longleftrightarrow> bs = []"
  by (cases bs rule: b64encode.cases) auto

lemma b64decode_opt_encode: "bytes_ok bs \<Longrightarrow> b64decode_opt (b64encode bs) = Some bs"
proof (induction bs rule: b64encode.induct)
  case 1
  then show ?case by simp
next
  case (2 a)
  then have "a < 256" by (simp add: bytes_ok_def)
  then show ?case by (simp add: b64_index_char)
next
  case (3 a b)
  then have "a < 256" "b < 256" by (simp_all add: bytes_ok_def)
  then show ?case
    by (simp add: b64_index_char b64_char_not_pad sextet_bounds join_bytes(1) [of b 0])
next
  case (4 a b c rest)
  then have ab: "a < 256" "b < 256" "c < 256" and r: "bytes_ok rest" by (simp_all add: bytes_ok_def)
  with "4.IH" have IH: "b64decode_opt (b64encode rest) = Some rest" by simp
  have q: "b64_quantum (b64_char (a div 4)) (b64_char (a mod 4 * 16 + b div 16))
      (b64_char (b mod 16 * 4 + c div 64)) (b64_char (c mod 64)) fin = Some [a, b, c]" for fin
    using ab by (simp add: b64_index_char b64_char_not_pad sextet_bounds join_bytes)
  show ?case by (simp add: q IH del: b64_quantum.simps)
qed

text \<open>Round trip: decoding the encoding of any byte string gives the bytes
  back, so each describer receives exactly the uploaded file's contents.\<close>

theorem b64_roundtrip: "bytes_ok bs \<Longrightarrow> b64decode (b64encode bs) = Inr bs"
  by (simp add: b64decode_def b64decode_opt_encode)

lemma b64encode_hello: "b64encode [104, 101, 108, 108, 111] = ''aGVsbG8=''"
  by code_simp

theorem b64_roundtrip_witness:
  "bytes_ok [104, 101, 108, 108, 111] \<and> b64encode [104, 101, 108, 108, 111] = ''aGVsbG8='' \<and>
   b64decode ''aGVsbG8='' = Inr [104, 101, 108, 108, 111]"
proof -
  have ok: "bytes_ok [104, 101, 108, 108, 111]" by (simp add: bytes_ok_def)
  show ?thesis using b64_roundtrip [OF ok] ok b64encode_hello by simp
qed

lemma b64_table: "map b64_char [0..<64] = b64_alphabet"
  by code_simp

lemma b64_alphabet_length: "length b64_alphabet = 64"
  by (simp add: b64_alphabet_def)

lemma b64_char_table: "i < 64 \<Longrightarrow> b64_char i = b64_alphabet ! i"
  by (metis b64_table add_0 diff_zero length_upt nth_map nth_upt)

lemma b64_char_mem: "i < 64 \<Longrightarrow> b64_char i \<in> set b64_alphabet"
  using nth_mem [of i b64_alphabet] by (simp add: b64_char_table b64_alphabet_length)

lemma b64_index_Some: "b64_index c = Some i \<Longrightarrow> i < 64 \<and> b64_char i = c"
  unfolding b64_index_def b64_char_def Let_def by (auto split: if_splits) (metis char_of_char)+

text \<open>The arithmetic alphabet is the RFC 4648 table: the encoder writes sextet
  \<open>i\<close> as the table's \<open>i\<close>-th character, the decoder reads it back as \<open>i\<close>, and every
  character outside the table is rejected.\<close>

theorem b64_alphabet_equiv:
  "length b64_alphabet = 64 \<and>
   (\<forall>i<64. b64_char i = b64_alphabet ! i \<and> b64_index (b64_alphabet ! i) = Some i) \<and>
   (\<forall>c. c \<notin> set b64_alphabet \<longrightarrow> b64_index c = None)"
proof (intro conjI allI impI)
  show "length b64_alphabet = 64" by (rule b64_alphabet_length)
  fix i :: nat assume "i < 64"
  then show "b64_char i = b64_alphabet ! i" "b64_index (b64_alphabet ! i) = Some i"
    by (simp_all add: b64_char_table [symmetric] b64_index_char)
next
  fix c assume c: "c \<notin> set b64_alphabet"
  show "b64_index c = None"
  proof (cases "b64_index c")
    case (Some i)
    with b64_index_Some have "i < 64" "c = b64_char i" by auto
    then have "c \<in> set b64_alphabet" by (simp add: b64_char_mem)
    with c show ?thesis by simp
  qed
qed

theorem b64_alphabet_equiv_witness:
  "b64_char 62 = CHR ''+'' \<and> b64_index CHR ''+'' = Some 62 \<and> b64_index CHR ''-'' = None"
proof -
  have e: "length b64_alphabet = 64 \<and>
     (\<forall>i<64. b64_char i = b64_alphabet ! i \<and> b64_index (b64_alphabet ! i) = Some i) \<and>
     (\<forall>c. c \<notin> set b64_alphabet \<longrightarrow> b64_index c = None)"
    by (rule b64_alphabet_equiv)
  have t: "b64_alphabet ! 62 = CHR ''+''" "CHR ''-'' \<notin> set b64_alphabet"
    by (simp_all add: b64_alphabet_def)
  from e have "b64_char 62 = b64_alphabet ! 62 \<and> b64_index (b64_alphabet ! 62) = Some 62" by simp
  with e t show ?thesis by simp
qed

text \<open>Bounds of the encoding: a byte string of length \<open>n\<close> encodes to
  \<open>4 * ((n + 2) div 3)\<close> characters, all of them from the table or the padding
  character.\<close>

theorem b64encode_bounds:
  "bytes_ok bs \<Longrightarrow>
   length (b64encode bs) = 4 * ((length bs + 2) div 3) \<and> set (b64encode bs) \<subseteq> insert pad (set b64_alphabet)"
proof (induction bs rule: b64encode.induct)
  case (4 a b c rest)
  have "(5 + length rest) div 3 = Suc ((length rest + 2) div 3)" by presburger
  with 4 show ?case by (auto simp: bytes_ok_def sextet_bounds b64_char_mem)
qed (auto simp: bytes_ok_def sextet_bounds b64_char_mem)

theorem b64encode_bounds_witness:
  "length (b64encode [104, 101, 108, 108, 111]) = 8 \<and> set (b64encode [104, 101, 108, 108, 111]) \<subseteq> insert pad (set b64_alphabet)"
  using b64encode_bounds [of "[104, 101, 108, 108, 111]"] by (simp add: bytes_ok_def)

end
