(* ===== verification/Describers.thy ===== *)
theory Describers
  imports TextNormalizer Base64
begin

text \<open>
  The modality describers of \<^verbatim>\<open>api/agent_tools\<close>: \<^verbatim>\<open>describe_audio\<close>
  (\<^verbatim>\<open>audio_description.py\<close>), \<^verbatim>\<open>describe_image\<close> with its helpers
  (\<^verbatim>\<open>image_description.py\<close>) and \<^verbatim>\<open>describe_video\<close>
  (\<^verbatim>\<open>video_description.py\<close>).  Each model call is an oracle parameter returning a
  \<open>gen_response\<close>; OCR (\<^verbatim>\<open>Image.open\<close> and \<^verbatim>\<open>pytesseract\<close>) is an oracle
  that may raise.  The video describer writes its temporary file into the file
  system and removes it in its \<^verbatim>\<open>finally\<close> block, so it returns the new file
  system with its answer; the write and the model set-up come before the
  \<^verbatim>\<open>try\<close>, and their outcomes are the \<open>video_backend\<close> the caller supplies.
\<close>

text \<open>\<^verbatim>\<open>clean_text(response.text) if response and hasattr(response, "text") else placeholder\<close>.\<close>

fun llm_text :: "gen_response \<Rightarrow> pystr \<Rightarrow> pystr res" where
  "llm_text (GenText t) placeholder = Inr (clean_text t)"
| "llm_text GenNoText placeholder = Inr placeholder"
| "llm_text (GenRaise m) placeholder = Inl (ProviderError m)"

subsection \<open>Audio\<close>

definition describe_audio :: "(bytes \<Rightarrow> gen_response) \<Rightarrow> pystr \<Rightarrow> pystr res" where
  "describe_audio audio_model audio =
     (case b64decode audio of
        Inl e \<Rightarrow> Inl e
      | Inr audio_bytes \<Rightarrow> llm_text (audio_model audio_bytes) ''Could not generate description.'')"

subsection \<open>Image\<close>

definition extract_text_from_image :: "(bytes \<Rightarrow> pystr res) \<Rightarrow> bytes \<Rightarrow> pystr res" where
  "extract_text_from_image ocr image_bytes =
     (case ocr image_bytes of Inl e \<Rightarrow> Inl e | Inr t \<Rightarrow> Inr (clean_text t))"

definition is_meaningful_text :: "pystr \<Rightarrow> bool" where
  "is_meaningful_text text = (py_strip text \<noteq> [])"

definition describe_with_google_sdk :: "(bytes \<Rightarrow> gen_response) \<Rightarrow> bytes \<Rightarrow> pystr res" where
  "describe_with_google_sdk vision image_bytes =
     llm_text (vision image_bytes) ''Could not generate visual description.''"

text \<open>The three few-shot examples (OCR text, description), lines 54--67.\<close>

definition image_examples :: "(pystr \<times> pystr) list" where
  "image_examples =
     [(''HP Pavilion dv6000'' @ [nl] @ ''Operating System not found'',
       ''This is an HP Pavilion dv6000 laptop. The screen shows a BIOS error message: 'Operating System not found', which usually indicates a missing bootloader or a failed hard disk.''),
      (''LG Washing Machine Model WM3488HW'' @ [nl] @ ''Error Code: OE'',
       ''This appears to be an LG WM3488HW washing machine. The OE error code points to a drainage issue, likely due to a clogged drain filter or blocked hose.''),
      (''Canon PIXMA MG2522'' @ [nl] @ ''Paper Jam'' @ [nl] @ ''Error E03'',
       ''This is a Canon PIXMA MG2522 printer. It shows Error E03 and a 'Paper Jam' message, which means paper is likely stuck inside the feed mechanism or rollers.'')]"

text \<open>Lines 69--81: the chat messages, role and content.\<close>

definition image_messages :: "pystr \<Rightarrow> pystr \<Rightarrow> (pystr \<times> pystr) list" where
  "image_messages ocr_text visual_description =
     concat (map (\<lambda>(ocr, desc). [(''user'', ''OCR Text:'' @ [nl] @ ocr), (''assistant'', desc)]) image_examples) @
     [(''user'', ''OCR Text:'' @ [nl] @ ocr_text @ [nl, nl] @ ''Visual Description:'' @ [nl] @
        visual_description @ [nl, nl] @
        ''Using both the OCR and visual info, describe the appliance, its model (if possible), and the issue. Be specific and technical. If uncertain, make an educated guess and explain.'')]"

definition describe_image ::
    "(bytes \<Rightarrow> pystr res) \<Rightarrow> (bytes \<Rightarrow> gen_response) \<Rightarrow> ((pystr \<times> pystr) list \<Rightarrow> gen_response) \<Rightarrow>
     pystr \<Rightarrow> pystr res" where
  "describe_image ocr vision chat image_b64 =
     (case b64decode image_b64 of
        Inl e \<Rightarrow> Inl e
      | Inr image_bytes \<Rightarrow>
          (case extract_text_from_image ocr image_bytes of
             Inl e \<Rightarrow> Inl e
           | Inr ocr_text \<Rightarrow>
               (if is_meaningful_text ocr_text then
                  (case describe_with_google_sdk vision image_bytes of
                     Inl e \<Rightarrow> Inl e
                   | Inr visual_description \<Rightarrow>
                       llm_text (chat (image_messages ocr_text visual_description))
                         ''Could not generate description.'')
                else describe_with_google_sdk vision image_bytes)))"

subsection \<open>Video\<close>

definition temp_video_path :: pystr where
  "temp_video_path = ''temp_video.mp4''"

text \<open>\<^verbatim>\<open>finally: if os.path.exists(temp_path): os.remove(temp_path)\<close>.\<close>

definition remove_if_exists :: "fsys \<Rightarrow> pystr \<Rightarrow> fsys" where
  "remove_if_exists fs p = (if fs p \<noteq> None then fs(p := None) else fs)"

text \<open>What the environment does at the steps of \<^verbatim>\<open>describe_video\<close> that
  the code does not guard.  Lines 36--37: \<^verbatim>\<open>open(temp_path, "wb")\<close> may fail
  (nothing is created), or the \<^verbatim>\<open>write\<close> may fail after the file was created
  (the bytes written before the failure are not modelled: the file is taken as
  empty).  Lines 39--41: \<^verbatim>\<open>GenerativeModel(...)\<close> and \<^verbatim>\<open>Part.from_data\<close> may
  raise.  Line 46: the model call itself.\<close>

datatype write_outcome = WriteOk | OpenFails exc | WriteFails exc

record video_backend =
  vb_write :: write_outcome
  vb_setup :: "exc option"
  vb_generate :: "bytes \<Rightarrow> gen_response"

text \<open>Lines 29--52.  Only the model call sits in the \<^verbatim>\<open>try\<close>, whose
  \<^verbatim>\<open>except\<close> turns any exception into the string \<^verbatim>\<open>Error: ...\<close> and whose
  \<^verbatim>\<open>finally\<close> removes the file; the decoding, the write and the set-up come
  before it, so their exceptions propagate and the \<^verbatim>\<open>finally\<close> never runs.\<close>

definition describe_video :: "video_backend \<Rightarrow> fsys \<Rightarrow> pystr \<Rightarrow> pystr res \<times> fsys" where
  "describe_video vb fs video =
     (case b64decode video of
        Inl e \<Rightarrow> (Inl e, fs)
      | Inr video_bytes \<Rightarrow>
          (case vb_write vb of
             OpenFails e \<Rightarrow> (Inl e, fs)
           | WriteFails e \<Rightarrow> (Inl e, fs(temp_video_path := Some (FBytes [])))
           | WriteOk \<Rightarrow>
               (let fs = fs(temp_video_path := Some (FBytes video_bytes))
                in case vb_setup vb of
                     Some e \<Rightarrow> (Inl e, fs)
                   | None \<Rightarrow>
                       (let result = (case vb_generate vb video_bytes of
                                        GenText t \<Rightarrow> Inr (clean_text t)
                                      | GenNoText \<Rightarrow> Inr ''Could not generate description.''
                                      | GenRaise m \<Rightarrow> Inr (''Error: '' @ m))
                        in (result, remove_if_exists fs temp_video_path)))))"

subsection \<open>Behaviour\<close>

lemma describe_image_encoded:
  assumes "bytes_ok bs" "ocr bs = Inr t"
  shows "describe_image ocr vision chat (b64encode bs) =
     (if is_meaningful_text (clean_text t) then
        (case describe_with_google_sdk vision bs of
           Inl e \<Rightarrow> Inl e
         | Inr v \<Rightarrow> llm_text (chat (image_messages (clean_text t) v)) ''Could not generate description.'')
      else describe_with_google_sdk vision bs)"
  using assms by (simp add: describe_image_def b64decode_def b64decode_opt_encode extract_text_from_image_def)

text \<open>C10. The image describer's two-tier strategy, on an upload encoded by
  \<^verbatim>\<open>convert_to_base64\<close>: when the normalised OCR text is blank the answer is
  the vision-only description; otherwise the chat model is asked, after the three
  examples, with a final message that carries both the OCR text and the visual
  description, and its cleaned reply is the answer.\<close>

theorem describe_image_two_tier:
  assumes "bytes_ok bs" "ocr bs = Inr t"
  shows "(py_strip (clean_text t) = [] \<longrightarrow>
            describe_image ocr vision chat (b64encode bs) = describe_with_google_sdk vision bs) \<and>
         (py_strip (clean_text t) \<noteq> [] \<and> describe_with_google_sdk vision bs = Inr v \<longrightarrow>
            describe_image ocr vision chat (b64encode bs) =
              llm_text (chat (image_messages (clean_text t) v)) ''Could not generate description.'' \<and>
            last (image_messages (clean_text t) v) =
              (''user'', ''OCR Text:'' @ [nl] @ clean_text t @ [nl, nl] @ ''Visual Description:'' @ [nl] @ v @ [nl, nl] @
               ''Using both the OCR and visual info, describe the appliance, its model (if possible), and the issue. Be specific and technical. If uncertain, make an educated guess and explain.''))"
  using describe_image_encoded [of bs ocr t vision chat, OF assms] by (simp add: is_meaningful_text_def image_messages_def)

theorem describe_image_two_tier_witness:
  "bytes_ok [1, 2, 3] \<and>
   describe_image (\<lambda>b. Inr ''Error Code: OE'') (\<lambda>b. GenText ''An LG washer'') (\<lambda>m. GenText ''**Drain** blocked'')
     (b64encode [1, 2, 3]) = Inr ''Drain blocked''"
proof -
  have ok: "bytes_ok [1, 2, 3]" by (simp add: bytes_ok_def)
  have o: "(\<lambda>b::bytes. Inr ''Error Code: OE'' :: pystr res) [1, 2, 3] = Inr ''Error Code: OE''" by simp
  have ne: "py_strip (clean_text ''Error Code: OE'') \<noteq> []"
    by (simp add: clean_text_def model_simps)
  have v: "describe_with_google_sdk (\<lambda>b. GenText ''An LG washer'') [1, 2, 3] = Inr ''An LG washer''"
    by (simp add: describe_with_google_sdk_def clean_text_def model_simps)
  have c: "llm_text ((\<lambda>m. GenText ''**Drain** blocked'') (image_messages (clean_text ''Error Code: OE'') ''An LG washer''))
      ''Could not generate description.'' = Inr ''Drain blocked''"
    by (simp add: clean_text_def model_simps)
  show ?thesis
    using describe_image_two_tier [OF ok o, of "\<lambda>b. GenText ''An LG washer''" "\<lambda>m. GenText ''**Drain** blocked''"
        "''An LG washer''"] ok ne v c by simp
qed

text \<open>C11. The audio describer raises exactly when the upload does not decode or
  the model call raises; only a response without text becomes the placeholder.\<close>

theorem describe_audio_raises:
  "isl (describe_audio audio_model audio) \<longleftrightarrow>
     isl (b64decode audio) \<or> (\<exists>bs m. b64decode audio = Inr bs \<and> audio_model bs = GenRaise m)"
  by (cases "b64decode audio"; cases "audio_model (projr (b64decode audio))")
     (auto simp: describe_audio_def)

theorem describe_audio_raises_witness:
  "isl (describe_audio (\<lambda>b. GenRaise ''quota exceeded'') (b64encode [7])) \<and>
   \<not> isl (describe_audio (\<lambda>b. GenNoText) (b64encode [7]))"
proof -
  have ok: "bytes_ok [7]" by (simp add: bytes_ok_def)
  have d: "b64decode (b64encode [7]) = Inr [7]" using b64decode_opt_encode [OF ok] by (simp add: b64decode_def)
  show ?thesis
    using describe_audio_raises [of "\<lambda>b. GenRaise ''quota exceeded''" "b64encode [7]"]
      describe_audio_raises [of "\<lambda>b. GenNoText" "b64encode [7]"] d by auto
qed

text \<open>C12. The video describer catches every failure of the model call, but
  raises exactly when the upload does not decode, when the temporary file cannot
  be opened or written, or when the model or the video part cannot be set up: all
  three come before its \<^verbatim>\<open>try\<close>.\<close>

theorem describe_video_raises:
  "isl (fst (describe_video vb fs video)) \<longleftrightarrow>
     isl (b64decode video) \<or> vb_write vb \<noteq> WriteOk \<or> vb_setup vb \<noteq> None"
  by (auto simp: describe_video_def Let_def split: sum.splits gen_response.splits write_outcome.splits option.splits)

theorem describe_video_raises_witness:
  "isl (fst (describe_video \<lparr>vb_write = WriteOk, vb_setup = None, vb_generate = \<lambda>b. GenRaise ''timeout''\<rparr> Map.empty ''A'')) \<and>
   \<not> isl (fst (describe_video \<lparr>vb_write = WriteOk, vb_setup = None, vb_generate = \<lambda>b. GenRaise ''timeout''\<rparr>
                 Map.empty (b64encode [7]))) \<and>
   isl (fst (describe_video \<lparr>vb_write = OpenFails (OSError ''Permission denied''), vb_setup = None,
                             vb_generate = \<lambda>b. GenRaise ''timeout''\<rparr> Map.empty (b64encode [7])))"
proof -
  have ok: "bytes_ok [7]" by (simp add: bytes_ok_def)
  have d: "b64decode (b64encode [7]) = Inr [7]" using b64decode_opt_encode [OF ok] by (simp add: b64decode_def)
  have bad: "b64decode ''A'' = Inl DecodeError" by (simp add: b64decode_def)
  show ?thesis
    using describe_video_raises [of "\<lparr>vb_write = WriteOk, vb_setup = None, vb_generate = \<lambda>b. GenRaise ''timeout''\<rparr>"
        Map.empty "''A''"]
      describe_video_raises [of "\<lparr>vb_write = WriteOk, vb_setup = None, vb_generate = \<lambda>b. GenRaise ''timeout''\<rparr>"
        Map.empty "b64encode [7]"]
      describe_video_raises [of "\<lparr>vb_write = OpenFails (OSError ''Permission denied''), vb_setup = None,
                                 vb_generate = \<lambda>b. GenRaise ''timeout''\<rparr>" Map.empty "b64encode [7]"]
      d bad by simp
qed

text \<open>C13. When \<^verbatim>\<open>describe_video\<close> returns, on success, on an empty response
  or on a model error alike, the temporary file is gone and no other file has
  changed.\<close>

theorem describe_video_temp_removed:
  "fst (describe_video vb fs video) = Inr r \<Longrightarrow> snd (describe_video vb fs video) = fs(temp_video_path := None)"
  by (auto simp: describe_video_def remove_if_exists_def Let_def
      split: sum.splits write_outcome.splits option.splits gen_response.splits)

theorem describe_video_temp_removed_witness:
  "snd (describe_video \<lparr>vb_write = WriteOk, vb_setup = None, vb_generate = \<lambda>b. GenNoText\<rparr> Map.empty (b64encode [7])) =
     Map.empty(temp_video_path := None)"
proof -
  have ok: "bytes_ok [7]" by (simp add: bytes_ok_def)
  have d: "b64decode (b64encode [7]) = Inr [7]" using b64decode_opt_encode [OF ok] by (simp add: b64decode_def)
  have "fst (describe_video \<lparr>vb_write = WriteOk, vb_setup = None, vb_generate = \<lambda>b. GenNoText\<rparr> Map.empty (b64encode [7])) =
      Inr ''Could not generate description.''"
    using d by (simp add: describe_video_def)
  then show ?thesis by (rule describe_video_temp_removed)
qed

text \<open>The file is not released on every path: when the model or the video part
  cannot be set up after the upload was written, the exception leaves
  \<^verbatim>\<open>temp_video.mp4\<close> behind with the upload's bytes, and a failed write leaves
  the file it created.\<close>

lemma describe_video_setup_leaks:
  assumes "b64decode video = Inr bs" "vb_write vb = WriteOk" "vb_setup vb = Some e"
  shows "describe_video vb fs video = (Inl e, fs(temp_video_path := Some (FBytes bs)))"
  using assms by (simp add: describe_video_def)

end
