(* ===== verification/History.thy ===== *)
theory History
  imports Prelude
begin

text \<open>
  The conversation history: the Firestore-backed \<^verbatim>\<open>FirestoreChatMessageHistory\<close>
  (a library class, modelled from the spec as one append-only message list per
  session id in the collection \<^verbatim>\<open>ai_repair_chat_history\<close>) and the agent tool
  \<^verbatim>\<open>get_chat_history\<close> of \<^verbatim>\<open>agent_tools/history_retrieval.py\<close>, which returns
  the last five messages or a fixed text.
\<close>

datatype msg = HumanMessage pystr | AIMessage pystr

type_synonym chat_store = "pystr \<Rightarrow> msg list"

text \<open>\<^verbatim>\<open>add_user_message\<close> / \<^verbatim>\<open>add_ai_message\<close>: append to the session's log.\<close>

definition add_message :: "chat_store \<Rightarrow> pystr \<Rightarrow> msg \<Rightarrow> chat_store" where
  "add_message st session_id m = st(session_id := st session_id @ [m])"

datatype history_reply = HistoryText pystr | HistoryMessages "msg list"

definition get_chat_history :: "chat_store \<Rightarrow> pystr \<Rightarrow> history_reply" where
  "get_chat_history st user_id =
     (let messages = st user_id in
      if messages = [] then HistoryText ''No chat history found.''
      else HistoryMessages (drop (length messages - 5) messages))"

lemma add_message_other [simp]: "u \<noteq> sid \<Longrightarrow> add_message st sid m u = st u"
  by (simp add: add_message_def)

lemma add_message_same [simp]: "add_message st sid m sid = st sid @ [m]"
  by (simp add: add_message_def)

text \<open>C16. \<^verbatim>\<open>get_chat_history\<close> answers the fixed text exactly when the user has no
  messages, and otherwise the user's most recent messages, at most five, in their
  original order.\<close>

theorem get_chat_history_last5:
  "(get_chat_history st u = HistoryText ''No chat history found.'' \<longleftrightarrow> st u = []) \<and>
   (st u \<noteq> [] \<longrightarrow> (\<exists>ms. get_chat_history st u = HistoryMessages ms \<and> suffix ms (st u) \<and>
                        length ms = min 5 (length (st u))))"
  by (auto simp: get_chat_history_def Let_def suffix_drop)

theorem get_chat_history_last5_witness:
  "get_chat_history (\<lambda>u. if u = ''alice'' then map HumanMessage [''a'', ''b'', ''c'', ''d'', ''e'', ''f''] else []) ''alice'' =
     HistoryMessages (map HumanMessage [''b'', ''c'', ''d'', ''e'', ''f'']) \<and>
   get_chat_history (\<lambda>u. if u = ''alice'' then map HumanMessage [''a'', ''b'', ''c'', ''d'', ''e'', ''f''] else []) ''bob'' =
     HistoryText ''No chat history found.''"
  using get_chat_history_last5 [of "\<lambda>u. if u = ''alice'' then map HumanMessage [''a'', ''b'', ''c'', ''d'', ''e'', ''f''] else []"]
  by (simp add: get_chat_history_def)

lemma add_message_prefix [simp]: "prefix (st u) (add_message st sid m u)"
  by (cases "u = sid") simp_all

end
