(* ===== verification/Agent.thy ===== *)
theory Agent
  imports Matcher Finalizer Describers History
begin

text \<open>
  The agent orchestrator, \<^verbatim>\<open>MainAgent.post\<close> of \<^verbatim>\<open>api/agent.py\<close>.  The
  request is described modality by modality, the query is logged, the ReAct agent
  executor runs the language model with the two tools, its output is sniffed with
  \<^verbatim>\<open>ast.literal_eval\<close>, a metadata dictionary is expanded and restructured, and
  the answer is logged and returned.  Any exception ends the request with status
  500, keeping the effects made before it.

  The executor is LangChain's \<^verbatim>\<open>AgentExecutor\<close> as configured at lines 51--53:
  at most \<^verbatim>\<open>max_iterations\<close> = 15 planning calls (the library default), an
  unknown tool answered with an error observation, a parse error fed back as an
  observation (\<^verbatim>\<open>handle_parsing_errors=True\<close>), and the fixed message of the
  \<^verbatim>\<open>force\<close> early-stopping method once the budget is spent.  The language model
  behind the planner and \<^verbatim>\<open>ast.literal_eval\<close> are interfaces: parameters of
  the model, about which the theorems assume nothing; so are the describers'
  model calls, and the video describer's file write and set-up
  (\<open>svc_video\<close>).
\<close>

subsection \<open>The agent executor\<close>

record agent_input =
  ai_user_id :: pystr
  ai_input :: pystr
  ai_image :: pystr
  ai_audio :: pystr
  ai_video :: pystr

text \<open>What the output parser makes of one model reply.\<close>

datatype agent_step = AgentAction pystr pystr | AgentFinish pystr | ParseError pystr

datatype observation = ObsValue pyval | ObsHistory history_reply | ObsText pystr

type_synonym scratchpad = "(agent_step \<times> observation) list"

record agent_env =
  planner :: "agent_input \<Rightarrow> scratchpad \<Rightarrow> agent_step res"
  distance :: "pystr \<Rightarrow> pystr \<Rightarrow> real"
  vector_index :: "document list"

definition max_iterations :: nat where
  "max_iterations = 15"

definition stopped_message :: pystr where
  "stopped_message = ''Agent stopped due to iteration limit or time limit.''"

text \<open>\<^verbatim>\<open>tools = [find_closest_match, get_chat_history]\<close> and the executor's
  answer to any other tool name.\<close>

definition run_tool :: "agent_env \<Rightarrow> chat_store \<Rightarrow> pystr \<Rightarrow> pystr \<Rightarrow> observation" where
  "run_tool env st tool tool_input =
     (if tool = ''find_closest_match'' then ObsValue (find_closest_match (distance env) (vector_index env) tool_input)
      else if tool = ''get_chat_history'' then ObsHistory (get_chat_history st tool_input)
      else ObsText (tool @ '' is not a valid tool, try one of [find_closest_match, get_chat_history].''))"

fun executor_loop ::
    "agent_env \<Rightarrow> chat_store \<Rightarrow> agent_input \<Rightarrow> nat \<Rightarrow> scratchpad \<Rightarrow> pystr res \<times> scratchpad" where
  "executor_loop env st inp 0 steps = (Inr stopped_message, steps)"
| "executor_loop env st inp (Suc n) steps =
     (case planner env inp steps of
        Inl e \<Rightarrow> (Inl e, steps)
      | Inr (AgentFinish output) \<Rightarrow> (Inr output, steps)
      | Inr (AgentAction tool tool_input) \<Rightarrow>
          executor_loop env st inp n (steps @ [(AgentAction tool tool_input, run_tool env st tool tool_input)])
      | Inr (ParseError obs) \<Rightarrow> executor_loop env st inp n (steps @ [(ParseError obs, ObsText obs)]))"

text \<open>\<^verbatim>\<open>agent_executor.invoke(agent_input)["output"]\<close>; a failing model call
  raises out of \<^verbatim>\<open>invoke\<close>.\<close>

definition agent_executor_invoke :: "agent_env \<Rightarrow> chat_store \<Rightarrow> agent_input \<Rightarrow> pystr res" where
  "agent_executor_invoke env st inp = fst (executor_loop env st inp max_iterations [])"

subsection \<open>The request handler\<close>

record upload =
  up_filename :: pystr
  up_data :: bytes

record request =
  rq_user_id :: "pystr option"
  rq_query :: "pystr option"
  rq_image :: "upload option"
  rq_audio :: "upload option"
  rq_video :: "upload option"

text \<open>The collaborators of one request: model calls, OCR, the vector store, the
  executor's language model, \<^verbatim>\<open>ast.literal_eval\<close> and the data directory.\<close>

record services =
  svc_ocr :: "bytes \<Rightarrow> pystr res"
  svc_vision :: "bytes \<Rightarrow> gen_response"
  svc_chat :: "(pystr \<times> pystr) list \<Rightarrow> gen_response"
  svc_audio :: "bytes \<Rightarrow> gen_response"
  svc_video :: video_backend
  svc_agent :: agent_env
  svc_literal_eval :: "pystr \<Rightarrow> pyval res"
  svc_gemini :: "pyval \<Rightarrow> gen_response"
  svc_json_dir :: pystr

record world =
  w_history :: chat_store
  w_files :: fsys

text \<open>A werkzeug \<^verbatim>\<open>FileStorage\<close> is truthy when it has a file name.\<close>

definition upload_truthy :: "upload \<Rightarrow> bool" where
  "upload_truthy f = (up_filename f \<noteq> [])"

definition convert_to_base64 :: "upload option \<Rightarrow> pystr option" where
  "convert_to_base64 file =
     (case file of Some f \<Rightarrow> if upload_truthy f then Some (b64encode (up_data f)) else None | None \<Rightarrow> None)"

text \<open>Lines 83--85 (and 89--91): describe an upload when there is one.\<close>

definition describe_upload :: "(pystr \<Rightarrow> pystr res) \<Rightarrow> pystr \<Rightarrow> upload option \<Rightarrow> pystr res" where
  "describe_upload describe placeholder file =
     (if (case file of Some f \<Rightarrow> upload_truthy f | None \<Rightarrow> False) then
        (case convert_to_base64 file of
           Some b \<Rightarrow> if b \<noteq> [] then describe b else Inr ''Couldn't convert to base64 successfully.''
         | None \<Rightarrow> Inr ''Couldn't convert to base64 successfully.'')
      else Inr placeholder)"

text \<open>Lines 95--97, where the describer also changes the file system.\<close>

definition describe_video_upload :: "video_backend \<Rightarrow> fsys \<Rightarrow> upload option \<Rightarrow> pystr res \<times> fsys" where
  "describe_video_upload vb fs file =
     (if (case file of Some f \<Rightarrow> upload_truthy f | None \<Rightarrow> False) then
        (case convert_to_base64 file of
           Some b \<Rightarrow> if b \<noteq> [] then describe_video vb fs b
                    else (Inr ''Couldn't convert to base64 successfully.'', fs)
         | None \<Rightarrow> (Inr ''Couldn't convert to base64 successfully.'', fs))
      else (Inr ''No Video Provided'', fs))"

text \<open>\<^verbatim>\<open>google_ai_python_sdk_for_gemini_api\<close>, lines 60--68.\<close>

definition restructure :: "(pyval \<Rightarrow> gen_response) \<Rightarrow> pyval \<Rightarrow> pystr res" where
  "restructure gemini record = llm_text (gemini record) ''Could not generate description.''"

text \<open>Lines 126--129: \<^verbatim>\<open>ValueError\<close> and \<^verbatim>\<open>SyntaxError\<close> leave the text as it
  is; any other exception of \<^verbatim>\<open>literal_eval\<close> propagates.\<close>

definition sniff_output :: "(pystr \<Rightarrow> pyval res) \<Rightarrow> pystr \<Rightarrow> pyval res" where
  "sniff_output literal_eval output_text =
     (case literal_eval output_text of
        Inr v \<Rightarrow> Inr v
      | Inl ValueError \<Rightarrow> Inr (PStr output_text)
      | Inl SyntaxError \<Rightarrow> Inr (PStr output_text)
      | Inl e \<Rightarrow> Inl e)"

text \<open>Lines 126--134: the structured path for a dictionary with a
  \<^verbatim>\<open>filename\<close> key, otherwise the cleaned text.\<close>

definition final_response :: "services \<Rightarrow> fsys \<Rightarrow> pystr \<Rightarrow> pystr res" where
  "final_response svc fs output_text =
     (case sniff_output (svc_literal_eval svc) output_text of
        Inl e \<Rightarrow> Inl e
      | Inr (PDict d) \<Rightarrow>
          (if dict_has d ''filename'' then
             (case extract_final_data (svc_json_dir svc) fs d of
                Inl e \<Rightarrow> Inl e
              | Inr record \<Rightarrow> restructure (svc_gemini svc) record)
           else Inr (if output_text \<noteq> [] then clean_text output_text else ''No response from AI.''))
      | Inr _ \<Rightarrow> Inr (if output_text \<noteq> [] then clean_text output_text else ''No response from AI.''))"

text \<open>Lines 73--74 and 106--107.\<close>

definition request_user :: "request \<Rightarrow> pystr" where
  "request_user rq = (case rq_user_id rq of Some u \<Rightarrow> u | None \<Rightarrow> ''Unknown User'')"

definition request_query :: "request \<Rightarrow> pystr" where
  "request_query rq = (case rq_query rq of Some q \<Rightarrow> q | None \<Rightarrow> [])"

definition log_query :: "chat_store \<Rightarrow> pystr \<Rightarrow> pystr \<Rightarrow> chat_store" where
  "log_query st user_id query = (if query \<noteq> [] then add_message st user_id (HumanMessage query) else st)"

text \<open>Lines 110--116.\<close>

definition make_agent_input :: "pystr \<Rightarrow> pystr \<Rightarrow> pystr \<Rightarrow> pystr \<Rightarrow> pystr \<Rightarrow> agent_input" where
  "make_agent_input user_id query image_description audio_description video_description =
     \<lparr>ai_user_id = user_id, ai_input = (if query \<noteq> [] then query else ''No Query Provided''),
      ai_image = image_description, ai_audio = audio_description, ai_video = video_description\<rparr>"

definition failure_response :: "int \<times> pyval" where
  "failure_response = (500, PDict [(''Error'', PStr ''Failed to process request'')])"

definition success_response :: "pystr \<Rightarrow> int \<times> pyval" where
  "success_response s = (200, PDict [(''response'', PStr s)])"

definition main_agent_post :: "services \<Rightarrow> request \<Rightarrow> world \<Rightarrow> (int \<times> pyval) \<times> world" where
  "main_agent_post svc rq w =
     (let user_id = request_user rq;
          query = request_query rq
      in case describe_upload (describe_image (svc_ocr svc) (svc_vision svc) (svc_chat svc))
                ''No Image Provided'' (rq_image rq) of
           Inl e \<Rightarrow> (failure_response, w)
         | Inr image_description \<Rightarrow>
           (case describe_upload (describe_audio (svc_audio svc)) ''No Audio Provided'' (rq_audio rq) of
              Inl e \<Rightarrow> (failure_response, w)
            | Inr audio_description \<Rightarrow>
              (case describe_video_upload (svc_video svc) (w_files w) (rq_video rq) of
                 (Inl e, fs) \<Rightarrow> (failure_response, w\<lparr>w_files := fs\<rparr>)
               | (Inr video_description, fs) \<Rightarrow>
                   (let st = log_query (w_history w) user_id query;
                        agent_in = make_agent_input user_id query image_description audio_description
                                     video_description;
                        failed = (failure_response, \<lparr>w_history = st, w_files = fs\<rparr>)
                    in case agent_executor_invoke (svc_agent svc) st agent_in of
                         Inl e \<Rightarrow> failed
                       | Inr output_text \<Rightarrow>
                           (case final_response svc fs output_text of
                              Inl e \<Rightarrow> failed
                            | Inr answer \<Rightarrow>
                                (success_response answer,
                                 \<lparr>w_history = add_message st user_id (AIMessage answer), w_files = fs\<rparr>))))))"

subsection \<open>Scenarios\<close>

text \<open>The end-to-end scenarios of the spec (section 8) as concrete services: an LG
  washer guide found at distance 0.2 and expanded from the data directory, and a
  toaster query against an empty index.  The planners stand for the language model
  following the prompt's rules on these inputs.\<close>

definition lg_record :: pyval where
  "lg_record = PDict [(''title'', PStr ''LG WM3488HW OE Error''),
     (''steps'', PList [PStr ''Unplug the washer'', PStr ''Clean the drain pump filter''])]"

definition lg_metadata_text :: pystr where
  "lg_metadata_text = ''{'filename': 'lg_wm3488hw.json', 'title': 'LG WM3488HW OE Error', 'similarity_score': 0.2}''"

fun lg_planner :: "agent_input \<Rightarrow> scratchpad \<Rightarrow> agent_step res" where
  "lg_planner inp [] = Inr (AgentAction ''find_closest_match'' (ai_input inp))"
| "lg_planner inp [(AgentAction t q, ObsValue (PDict d))] =
     (if dict_has d ''filename'' then Inr (AgentFinish lg_metadata_text) else Inr (AgentFinish ''No guide.''))"
| "lg_planner inp sp = Inr (AgentFinish ''No guide.'')"

definition lg_services :: services where
  "lg_services =
     \<lparr>svc_ocr = \<lambda>b. Inr [], svc_vision = \<lambda>b. GenNoText, svc_chat = \<lambda>m. GenNoText,
      svc_audio = \<lambda>b. GenNoText, svc_video = \<lparr>vb_write = WriteOk, vb_setup = None, vb_generate = \<lambda>b. GenNoText\<rparr>,
      svc_agent = \<lparr>planner = lg_planner,
                   distance = (\<lambda>q c. if c = ''LG WM3488HW OE drain filter'' then 0.2 else 0.75),
                   vector_index = [\<lparr>page_content = ''LG WM3488HW OE drain filter'', doc_metadata =
                      [(''filename'', PStr ''lg_wm3488hw.json''), (''title'', PStr ''LG WM3488HW OE Error'')]\<rparr>]\<rparr>,
      svc_literal_eval = (\<lambda>s. if s = lg_metadata_text then
          Inr (PDict [(''filename'', PStr ''lg_wm3488hw.json''), (''title'', PStr ''LG WM3488HW OE Error''),
                      (''similarity_score'', PFloat 0.2)]) else Inl SyntaxError),
      svc_gemini = (\<lambda>r. if r = lg_record then GenText ''**Step 1**: Unplug the washer. **Step 2**: Clean the drain pump filter.''
                        else GenNoText),
      svc_json_dir = ''data/json''\<rparr>"

definition lg_request :: request where
  "lg_request = \<lparr>rq_user_id = Some ''u1'', rq_query = Some ''my LG washing machine shows error OE'',
     rq_image = None, rq_audio = None, rq_video = None\<rparr>"

definition lg_world :: world where
  "lg_world = \<lparr>w_history = (\<lambda>u. []), w_files = (\<lambda>p. if p = ''data/json/lg_wm3488hw.json'' then Some (FJson lg_record) else None)\<rparr>"

fun toaster_planner :: "agent_input \<Rightarrow> scratchpad \<Rightarrow> agent_step res" where
  "toaster_planner inp [] = Inr (AgentAction ''find_closest_match'' (ai_input inp))"
| "toaster_planner inp [(AgentAction t q, ObsValue v)] =
     (if v = no_matches_result then Inr (AgentFinish ''**Step 1**: Check that the heating element glows.'')
      else Inr (AgentFinish ''See the guide.''))"
| "toaster_planner inp sp = Inr (ParseError ''Invalid Format'')"

definition toaster_services :: services where
  "toaster_services =
     \<lparr>svc_ocr = \<lambda>b. Inr [], svc_vision = \<lambda>b. GenNoText, svc_chat = \<lambda>m. GenNoText,
      svc_audio = \<lambda>b. GenNoText, svc_video = \<lparr>vb_write = WriteOk, vb_setup = None, vb_generate = \<lambda>b. GenNoText\<rparr>,
      svc_agent = \<lparr>planner = toaster_planner, distance = (\<lambda>q c. 0), vector_index = []\<rparr>,
      svc_literal_eval = (\<lambda>s. Inl SyntaxError), svc_gemini = (\<lambda>r. GenNoText), svc_json_dir = ''data/json''\<rparr>"

definition toaster_query :: pystr where
  "toaster_query = ''my toaster won't heat''"

definition toaster_request :: request where
  "toaster_request = \<lparr>rq_user_id = Some ''u2'', rq_query = Some toaster_query,
     rq_image = None, rq_audio = None, rq_video = None\<rparr>"

subsection \<open>The executor loop\<close>

lemma executor_loop_result:
  "executor_loop env st inp n sp = (out, sp') \<Longrightarrow>
     prefix sp sp' \<and> length sp' \<le> length sp + n \<and>
     ((\<exists>e. out = Inl e \<and> planner env inp sp' = Inl e) \<or>
      (\<exists>x. out = Inr x \<and> planner env inp sp' = Inr (AgentFinish x)) \<or>
      (out = Inr stopped_message \<and> length sp' = length sp + n))"
proof (induction n arbitrary: sp)
  case 0
  then show ?case by simp
next
  case (Suc n)
  show ?case
  proof (cases "planner env inp sp")
    case (Inl e)
    with Suc.prems show ?thesis by simp
  next
    case (Inr a)
    show ?thesis
    proof (cases a)
      case (AgentAction t i)
      with Inr Suc.prems have "executor_loop env st inp n (sp @ [(AgentAction t i, run_tool env st t i)]) = (out, sp')"
        by simp
      from Suc.IH [OF this] show ?thesis by (auto dest: append_prefixD)
    next
      case (AgentFinish x)
      with Inr Suc.prems show ?thesis by simp
    next
      case (ParseError obs)
      with Inr Suc.prems have "executor_loop env st inp n (sp @ [(ParseError obs, ObsText obs)]) = (out, sp')"
        by simp
      from Suc.IH [OF this] show ?thesis by (auto dest: append_prefixD)
    qed
  qed
qed

text \<open>C9. Round trip of the upload transport: the text \<^verbatim>\<open>convert_to_base64\<close>
  (lines 56--58) makes of an uploaded file decodes, in the describers, to exactly
  the file's bytes; a file with an empty name is not encoded at all.\<close>

theorem upload_roundtrip:
  "bytes_ok (up_data f) \<Longrightarrow>
   map_option b64decode (convert_to_base64 (Some f)) = (if upload_truthy f then Some (Inr (up_data f)) else None)"
  by (simp add: convert_to_base64_def b64_roundtrip)

theorem upload_roundtrip_witness:
  "map_option b64decode (convert_to_base64 (Some \<lparr>up_filename = ''note.mp3'', up_data = [104, 101, 108, 108, 111]\<rparr>)) =
     Some (Inr [104, 101, 108, 108, 111])"
  using upload_roundtrip [of "\<lparr>up_filename = ''note.mp3'', up_data = [104, 101, 108, 108, 111]\<rparr>"]
  by (simp add: bytes_ok_def upload_truthy_def)

text \<open>C35. Bounds of what \<^verbatim>\<open>MainAgent.post\<close> sends to a describer: the text
  \<^verbatim>\<open>convert_to_base64\<close> makes of a file of \<open>n\<close> bytes has
  \<open>4 * ((n + 2) div 3)\<close> characters, all of them from the base64 table or the
  padding character.\<close>

theorem upload_encoding_bounds:
  "bytes_ok (up_data f) \<Longrightarrow> convert_to_base64 (Some f) = Some s \<Longrightarrow>
   length s = 4 * ((length (up_data f) + 2) div 3) \<and> set s \<subseteq> insert pad (set b64_alphabet)"
  using b64encode_bounds [of "up_data f"] by (auto simp: convert_to_base64_def split: if_splits)

theorem upload_encoding_bounds_witness:
  "convert_to_base64 (Some \<lparr>up_filename = ''note.mp3'', up_data = [104, 101, 108, 108, 111]\<rparr>) = Some ''aGVsbG8='' \<and>
   length ''aGVsbG8='' = 4 * ((length [104, 101, 108, 108, 111 :: nat] + 2) div 3) \<and>
   set ''aGVsbG8='' \<subseteq> insert pad (set b64_alphabet)"
proof -
  have ok: "bytes_ok (up_data \<lparr>up_filename = ''note.mp3'', up_data = [104, 101, 108, 108, 111]\<rparr>)"
    by (simp add: bytes_ok_def)
  have e: "convert_to_base64 (Some \<lparr>up_filename = ''note.mp3'', up_data = [104, 101, 108, 108, 111]\<rparr>) = Some ''aGVsbG8=''"
    unfolding convert_to_base64_def upload_truthy_def b64encode_hello [symmetric] by simp
  have "length ''aGVsbG8='' = 4 * ((length (up_data \<lparr>up_filename = ''note.mp3'', up_data = [104, 101, 108, 108, 111]\<rparr>) + 2) div 3) \<and>
      set ''aGVsbG8='' \<subseteq> insert pad (set b64_alphabet)"
    by (rule upload_encoding_bounds [OF ok e])
  then have "length ''aGVsbG8='' = 4 * ((length [104, 101, 108, 108, 111 :: nat] + 2) div 3) \<and>
      set ''aGVsbG8='' \<subseteq> insert pad (set b64_alphabet)"
    by (simp only: upload.select_convs)
  then show ?thesis by (rule conjI [OF e])
qed

text \<open>C17. The executor as configured at line 53 terminates after at most
  \<^verbatim>\<open>max_iterations\<close> = 15 planning calls, whatever the model answers: its
  result is the final answer the model gave on the whole scratchpad, the model's
  exception, or the fixed stop message after exactly fifteen tool or parse-error
  steps.\<close>

theorem agent_executor_bounded:
  "executor_loop env st inp max_iterations [] = (out, steps) \<Longrightarrow>
     length steps \<le> max_iterations \<and>
     ((\<exists>e. out = Inl e \<and> planner env inp steps = Inl e) \<or>
      (\<exists>x. out = Inr x \<and> planner env inp steps = Inr (AgentFinish x)) \<or>
      (out = Inr stopped_message \<and> length steps = max_iterations))"
  using executor_loop_result [of env st inp max_iterations "[]" out steps] by simp

lemma lg_executor_run:
  "executor_loop (svc_agent lg_services) (\<lambda>u. [])
     (make_agent_input ''u1'' ''my LG washing machine shows error OE'' ''No Image Provided'' ''No Audio Provided'' ''No Video Provided'')
     max_iterations [] =
   (Inr lg_metadata_text,
    [(AgentAction ''find_closest_match'' ''my LG washing machine shows error OE'',
      ObsValue (PDict [(''filename'', PStr ''lg_wm3488hw.json''), (''title'', PStr ''LG WM3488HW OE Error''),
                       (''similarity_score'', PFloat 0.2)]))])"
  by (simp add: max_iterations_def lg_services_def make_agent_input_def run_tool_def
      find_closest_match_def closest_match_of_def similarity_search_with_score_def score_threshold_def model_simps
      numeral_eq_Suc)

theorem agent_executor_bounded_witness:
  "length [(AgentAction ''find_closest_match'' ''my LG washing machine shows error OE'',
      ObsValue (PDict [(''filename'', PStr ''lg_wm3488hw.json''), (''title'', PStr ''LG WM3488HW OE Error''),
                       (''similarity_score'', PFloat 0.2)]))] \<le> max_iterations"
  using agent_executor_bounded [OF lg_executor_run] by simp

text \<open>The scratchpad the executor builds is a faithful trace: every entry it
  adds is the model's decision on the scratchpad before it, paired with the
  observation the executor made for it, the tool's return value for an action
  (or the invalid-tool message) and the parser's message for a parse error; no
  final answer is ever recorded as a step.\<close>

lemma executor_loop_SucE:
  assumes "executor_loop env st inp (Suc n) sp = (out, sp')" "length sp < length sp'"
  obtains e where "planner env inp sp = Inr (fst e)"
    "(\<exists>t i. e = (AgentAction t i, run_tool env st t i)) \<or> (\<exists>obs. e = (ParseError obs, ObsText obs))"
    "executor_loop env st inp n (sp @ [e]) = (out, sp')"
proof (cases "planner env inp sp")
  case (Inl x)
  with assms show ?thesis by simp
next
  case (Inr a)
  then show ?thesis
    using assms that [of "(a, case a of AgentAction t i \<Rightarrow> run_tool env st t i | ParseError obs \<Rightarrow> ObsText obs)"]
    by (cases a) auto
qed

lemma executor_loop_trace:
  "executor_loop env st inp n sp = (out, sp') \<Longrightarrow> length sp \<le> k \<Longrightarrow> k < length sp' \<Longrightarrow>
     Inr (fst (sp' ! k)) = planner env inp (take k sp') \<and>
     ((\<exists>t i. sp' ! k = (AgentAction t i, run_tool env st t i)) \<or> (\<exists>obs. sp' ! k = (ParseError obs, ObsText obs)))"
proof (induction n arbitrary: sp)
  case 0
  then show ?case by simp
next
  case (Suc n)
  from Suc.prems have "length sp < length sp'" by simp
  with Suc.prems(1) obtain e where pl: "planner env inp sp = Inr (fst e)"
    and kind: "(\<exists>t i. e = (AgentAction t i, run_tool env st t i)) \<or> (\<exists>obs. e = (ParseError obs, ObsText obs))"
    and run: "executor_loop env st inp n (sp @ [e]) = (out, sp')"
    by (rule executor_loop_SucE)
  show ?case
  proof (cases "k = length sp")
    case True
    from executor_loop_result [OF run] obtain zs where "sp' = sp @ [e] @ zs" by (auto simp: prefix_def)
    with True pl kind show ?thesis by simp
  next
    case False
    with Suc.prems have le: "length (sp @ [e]) \<le> k" by simp
    from run le Suc.prems(3) show ?thesis by (rule Suc.IH)
  qed
qed

theorem executor_loop_trace_witness:
  "Inr (fst ([(AgentAction ''find_closest_match'' ''my LG washing machine shows error OE'',
      ObsValue (PDict [(''filename'', PStr ''lg_wm3488hw.json''), (''title'', PStr ''LG WM3488HW OE Error''),
                       (''similarity_score'', PFloat 0.2)]))] ! 0)) =
   planner (svc_agent lg_services)
     (make_agent_input ''u1'' ''my LG washing machine shows error OE'' ''No Image Provided'' ''No Audio Provided'' ''No Video Provided'')
     []"
  using executor_loop_trace [OF lg_executor_run, of 0] by simp

subsection \<open>The request handler\<close>

text \<open>C18. Every request ends with status 200 and a \<^verbatim>\<open>response\<close> or status 500
  and the generic error; the history changes in one of three ways only: not at all
  (a describer raised before the query was logged), by the logged query alone (the
  agent, the expansion or the restructuring raised: no assistant turn is written,
  not even the failure text), or by the logged query followed by the returned
  answer.\<close>

lemma main_agent_post_shape:
  "main_agent_post svc rq w = (resp, w') \<Longrightarrow>
     (resp = failure_response \<and> w_history w' = w_history w) \<or>
     (resp = failure_response \<and> w_history w' = log_query (w_history w) (request_user rq) (request_query rq)) \<or>
     (\<exists>a. resp = success_response a \<and>
        w_history w' = add_message (log_query (w_history w) (request_user rq) (request_query rq)) (request_user rq) (AIMessage a))"
  unfolding main_agent_post_def Let_def
  by (auto split: sum.splits prod.splits)

lemma lg_executor:
  "agent_executor_invoke (svc_agent lg_services) st
     (make_agent_input ''u1'' ''my LG washing machine shows error OE'' ''No Image Provided'' ''No Audio Provided'' ''No Video Provided'')
   = Inr lg_metadata_text"
  by (simp add: agent_executor_invoke_def max_iterations_def lg_services_def make_agent_input_def run_tool_def
      find_closest_match_def closest_match_of_def similarity_search_with_score_def score_threshold_def model_simps
      numeral_eq_Suc)

lemma lg_final:
  "final_response lg_services (w_files lg_world) lg_metadata_text =
     Inr ''Step 1: Unplug the washer. Step 2: Clean the drain pump filter.''"
  by (simp add: final_response_def sniff_output_def lg_services_def lg_world_def extract_final_data_def
      final_fields_def final_title_def set_if_truthy_def restructure_def clean_text_def model_simps lg_record_def)

lemma lg_run:
  "main_agent_post lg_services lg_request lg_world =
     (success_response ''Step 1: Unplug the washer. Step 2: Clean the drain pump filter.'',
      \<lparr>w_history = (\<lambda>u. [])(''u1'' := [HumanMessage ''my LG washing machine shows error OE'',
                                       AIMessage ''Step 1: Unplug the washer. Step 2: Clean the drain pump filter.'']),
       w_files = w_files lg_world\<rparr>)"
proof -
  have h: "w_history lg_world = (\<lambda>u. [])" by (simp add: lg_world_def)
  show ?thesis
    by (simp add: main_agent_post_def Let_def describe_upload_def describe_video_upload_def request_user_def
        request_query_def lg_request_def log_query_def lg_executor lg_final h add_message_def)
qed

theorem main_agent_post_shape_witness:
  "w_history \<lparr>w_history = (\<lambda>u. [])(''u1'' := [HumanMessage ''my LG washing machine shows error OE'',
                                       AIMessage ''Step 1: Unplug the washer. Step 2: Clean the drain pump filter.'']),
       w_files = w_files lg_world\<rparr> ''u1'' \<noteq> w_history lg_world ''u1''"
  using main_agent_post_shape [OF lg_run] by (simp add: lg_world_def)

text \<open>A successful answer is exactly what is stored: on status 200 the user's
  history is the old history, then the query when there is one, then the returned
  answer as the assistant's turn, and no other user's history changes.\<close>

lemma main_agent_post_success:
  "main_agent_post svc rq w = (success_response a, w') \<Longrightarrow>
     w_history w' = add_message (log_query (w_history w) (request_user rq) (request_query rq)) (request_user rq) (AIMessage a)"
  unfolding main_agent_post_def Let_def
  by (auto split: sum.splits prod.splits simp: success_response_def failure_response_def)

theorem main_agent_post_success_witness:
  "w_history (snd (main_agent_post lg_services lg_request lg_world)) ''u1'' =
     [HumanMessage ''my LG washing machine shows error OE'',
      AIMessage ''Step 1: Unplug the washer. Step 2: Clean the drain pump filter.'']"
  using main_agent_post_success [OF lg_run] lg_run
  by (simp add: lg_world_def lg_request_def request_user_def request_query_def log_query_def)

text \<open>C19. A describer that raises (an undecodable upload, an OCR failure, a model
  error on image or audio) fails the whole request with status 500 before the query
  is logged: the world is left exactly as it was.\<close>

lemma main_agent_post_describer_failure:
  assumes "isl (describe_upload (describe_image (svc_ocr svc) (svc_vision svc) (svc_chat svc)) ''No Image Provided'' (rq_image rq)) \<or>
           isl (describe_upload (describe_audio (svc_audio svc)) ''No Audio Provided'' (rq_audio rq))"
  shows "main_agent_post svc rq w = (failure_response, w)"
  using assms by (auto simp: main_agent_post_def Let_def split: sum.splits)

theorem main_agent_post_describer_failure_witness:
  "isl (describe_upload (describe_image (svc_ocr (lg_services\<lparr>svc_ocr := \<lambda>b. Inl (OSError ''cannot identify image file'')\<rparr>))
          (svc_vision lg_services) (svc_chat lg_services)) ''No Image Provided''
          (Some \<lparr>up_filename = ''washer.jpg'', up_data = [255, 216, 255]\<rparr>)) \<and>
   main_agent_post (lg_services\<lparr>svc_ocr := \<lambda>b. Inl (OSError ''cannot identify image file'')\<rparr>)
     (lg_request\<lparr>rq_image := Some \<lparr>up_filename = ''washer.jpg'', up_data = [255, 216, 255]\<rparr>\<rparr>) lg_world =
   (failure_response, lg_world)"
proof -
  have ok: "bytes_ok [255, 216, 255]" by (simp add: bytes_ok_def)
  have d: "b64decode (b64encode [255, 216, 255]) = Inr [255, 216, 255]"
    using b64decode_opt_encode [OF ok] by (simp add: b64decode_def)
  have ne: "b64encode [255, 216, 255] \<noteq> []" by simp
  have f: "isl (describe_upload (describe_image (svc_ocr (lg_services\<lparr>svc_ocr := \<lambda>b. Inl (OSError ''cannot identify image file'')\<rparr>))
          (svc_vision lg_services) (svc_chat lg_services)) ''No Image Provided''
          (Some \<lparr>up_filename = ''washer.jpg'', up_data = [255, 216, 255]\<rparr>))"
    using ne by (simp add: describe_upload_def convert_to_base64_def upload_truthy_def describe_image_def d
        extract_text_from_image_def del: b64encode.simps)
  then show ?thesis
    using main_agent_post_describer_failure [of "lg_services\<lparr>svc_ocr := \<lambda>b. Inl (OSError ''cannot identify image file'')\<rparr>"
        "lg_request\<lparr>rq_image := Some \<lparr>up_filename = ''washer.jpg'', up_data = [255, 216, 255]\<rparr>\<rparr>" lg_world]
    by simp
qed

text \<open>End-to-end scenario 1: the LG washer query without media and with an
  empty history is matched at distance 0.2, the guide is loaded from the data
  directory and restructured, and the cleaned walkthrough is returned with status
  200 and stored after the query.\<close>

theorem lg_scenario:
  "fst (main_agent_post lg_services lg_request lg_world) =
     (200, PDict [(''response'', PStr ''Step 1: Unplug the washer. Step 2: Clean the drain pump filter.'')]) \<and>
   w_history (snd (main_agent_post lg_services lg_request lg_world)) ''u1'' =
     [HumanMessage ''my LG washing machine shows error OE'',
      AIMessage ''Step 1: Unplug the washer. Step 2: Clean the drain pump filter.''] \<and>
   w_files (snd (main_agent_post lg_services lg_request lg_world)) = w_files lg_world"
  by (simp add: lg_run success_response_def)

lemma toaster_executor:
  "agent_executor_invoke (svc_agent toaster_services) st
     (make_agent_input u toaster_query ''No Image Provided'' ''No Audio Provided'' ''No Video Provided'')
   = Inr ''**Step 1**: Check that the heating element glows.''"
  by (simp add: agent_executor_invoke_def max_iterations_def toaster_services_def make_agent_input_def run_tool_def
      find_closest_match_def closest_match_of_def similarity_search_with_score_def numeral_eq_Suc toaster_query_def)

text \<open>The free-text path: when the describers succeed and the agent's answer
  is not a Python literal (\<^verbatim>\<open>literal_eval\<close> raises \<^verbatim>\<open>ValueError\<close> or
  \<^verbatim>\<open>SyntaxError\<close>), the response is the cleaned answer with status 200, or the
  fixed text when the answer is empty.  Scenario 3 (a toaster query against an
  empty index) is an instance.\<close>

lemma main_agent_post_free_text:
  assumes "describe_upload (describe_image (svc_ocr svc) (svc_vision svc) (svc_chat svc)) ''No Image Provided'' (rq_image rq) = Inr i"
    and "describe_upload (describe_audio (svc_audio svc)) ''No Audio Provided'' (rq_audio rq) = Inr a"
    and "describe_video_upload (svc_video svc) (w_files w) (rq_video rq) = (Inr v, fs)"
    and "agent_executor_invoke (svc_agent svc) (log_query (w_history w) (request_user rq) (request_query rq))
           (make_agent_input (request_user rq) (request_query rq) i a v) = Inr out"
    and "svc_literal_eval svc out = Inl ValueError \<or> svc_literal_eval svc out = Inl SyntaxError"
  shows "fst (main_agent_post svc rq w) =
           success_response (if out \<noteq> [] then clean_text out else ''No response from AI.'')"
  using assms by (auto simp: main_agent_post_def Let_def final_response_def sniff_output_def)

theorem main_agent_post_free_text_witness:
  "fst (main_agent_post toaster_services toaster_request \<lparr>w_history = (\<lambda>u. []), w_files = Map.empty\<rparr>) =
     success_response ''Step 1: Check that the heating element glows.''"
proof -
  let ?w = "\<lparr>w_history = (\<lambda>u. []), w_files = Map.empty\<rparr> :: world"
  have i: "describe_upload (describe_image (svc_ocr toaster_services) (svc_vision toaster_services) (svc_chat toaster_services))
      ''No Image Provided'' (rq_image toaster_request) = Inr ''No Image Provided''"
    by (simp add: describe_upload_def toaster_request_def)
  have a: "describe_upload (describe_audio (svc_audio toaster_services)) ''No Audio Provided'' (rq_audio toaster_request) =
      Inr ''No Audio Provided''"
    by (simp add: describe_upload_def toaster_request_def)
  have v: "describe_video_upload (svc_video toaster_services) (w_files ?w) (rq_video toaster_request) =
      (Inr ''No Video Provided'', w_files ?w)"
    by (simp add: describe_video_upload_def toaster_request_def)
  have rq: "request_query toaster_request = toaster_query" by (simp add: request_query_def toaster_request_def)
  have e: "agent_executor_invoke (svc_agent toaster_services)
      (log_query (w_history ?w) (request_user toaster_request) (request_query toaster_request))
      (make_agent_input (request_user toaster_request) (request_query toaster_request)
         ''No Image Provided'' ''No Audio Provided'' ''No Video Provided'') =
      Inr ''**Step 1**: Check that the heating element glows.''"
    by (simp only: rq toaster_executor)
  have le: "svc_literal_eval toaster_services ''**Step 1**: Check that the heating element glows.'' = Inl ValueError \<or>
      svc_literal_eval toaster_services ''**Step 1**: Check that the heating element glows.'' = Inl SyntaxError"
    by (simp add: toaster_services_def)
  have c: "clean_text ''**Step 1**: Check that the heating element glows.'' = ''Step 1: Check that the heating element glows.''"
    by (simp add: clean_text_def model_simps)
  show ?thesis using main_agent_post_free_text [OF i a v e le] c by simp
qed

text \<open>C33. A guide file that is missing does not send the request to the
  free-text path: \<^verbatim>\<open>extract_final_data\<close> returns its error dictionary and
  that dictionary is what the model is asked to restructure into a walkthrough.\<close>

theorem final_response_missing_record:
  assumes "svc_literal_eval svc out = Inr (PDict d)" "map_of d ''filename'' = Some (PStr f)" "f \<noteq> []"
    and "fs (path_join (svc_json_dir svc) f) = None"
  shows "final_response svc fs out =
           restructure (svc_gemini svc) (error_dict (''File not found: '' @ path_join (svc_json_dir svc) f))"
  using assms by (simp add: final_response_def sniff_output_def extract_final_data_def read_json_def Let_def
      dict_get_def dict_has_map_of)

theorem final_response_missing_record_witness:
  "final_response lg_services Map.empty lg_metadata_text =
     Inr ''Could not generate description.''"
proof -
  have le: "svc_literal_eval lg_services lg_metadata_text =
      Inr (PDict [(''filename'', PStr ''lg_wm3488hw.json''), (''title'', PStr ''LG WM3488HW OE Error''),
                  (''similarity_score'', PFloat 0.2)])"
    by (simp add: lg_services_def)
  have g: "svc_gemini lg_services (error_dict (''File not found: '' @ path_join (svc_json_dir lg_services) ''lg_wm3488hw.json'')) = GenNoText"
    by (simp add: lg_services_def lg_record_def error_dict_def)
  show ?thesis
    using final_response_missing_record [OF le, of "''lg_wm3488hw.json''" Map.empty] g
    by (simp add: restructure_def)
qed

subsection \<open>What an answer can be\<close>

lemma llm_text_Inr: "llm_text r placeholder = Inr a \<Longrightarrow> (\<exists>t. a = clean_text t) \<or> a = placeholder"
  by (cases r) auto

lemma final_response_answer:
  "final_response svc fs out = Inr a \<Longrightarrow>
     (\<exists>t. a = clean_text t) \<or> a = ''No response from AI.'' \<or> a = ''Could not generate description.''"
  unfolding final_response_def restructure_def
  by (auto split: sum.splits pyval.splits if_splits dest: llm_text_Inr)

lemma main_agent_post_success_answer:
  "main_agent_post svc rq w = (success_response a, w') \<Longrightarrow>
     (\<exists>t. a = clean_text t) \<or> a = ''No response from AI.'' \<or> a = ''Could not generate description.''"
  unfolding main_agent_post_def Let_def
  by (auto split: sum.splits prod.splits simp: success_response_def failure_response_def dest: final_response_answer)

lemma log_query_prefix [simp]: "prefix (st u) (log_query st sid q u)"
  by (simp add: log_query_def)

lemma add_log_prefix [simp]: "prefix (st u) (add_message (log_query st sid q) sid' m u)"
  by (rule prefix_order.trans [OF log_query_prefix add_message_prefix])

lemma main_agent_post_history_prefix:
  "main_agent_post svc rq w = (resp, w') \<Longrightarrow> prefix (w_history w u) (w_history w' u)"
  unfolding main_agent_post_def Let_def
  by (auto split: sum.splits prod.splits)

end
