(* ===== verification/VideoRace.thy ===== *)
theory VideoRace
  imports Describers
begin

text \<open>
  Concurrent calls of \<^verbatim>\<open>describe_video\<close> (Flask serves requests on threads).
  Every call uses the same relative path \<^verbatim>\<open>temp_video.mp4\<close>.  After its
  decoding, a call performs four steps that touch or read the file: write it,
  call the model (no file access), test \<^verbatim>\<open>os.path.exists\<close>, and
  \<^verbatim>\<open>os.remove\<close> when the test succeeded.  The steps of different calls
  interleave arbitrarily, so the calls form a step relation over a shared state:
  the contents of the temporary path and one program counter per thread.  A
  removal that finds the file gone raises \<^verbatim>\<open>FileNotFoundError\<close> from the
  \<^verbatim>\<open>finally\<close> block, which the thread ends in (\<open>VCrashed\<close>).
\<close>

datatype vpc =
    VIdle
  | VStart bytes
  | VWritten
  | VCalled
  | VChecked bool
  | VDone
  | VCrashed

record vsys =
  temp :: "bytes option"
  pcs :: "nat \<Rightarrow> vpc"

inductive video_step :: "vsys \<Rightarrow> vsys \<Rightarrow> bool" where
  do_write: "pcs s i = VStart b \<Longrightarrow>
     video_step s (s\<lparr>temp := Some b, pcs := (pcs s)(i := VWritten)\<rparr>)"
| do_call: "pcs s i = VWritten \<Longrightarrow>
     video_step s (s\<lparr>pcs := (pcs s)(i := VCalled)\<rparr>)"
| do_check: "pcs s i = VCalled \<Longrightarrow>
     video_step s (s\<lparr>pcs := (pcs s)(i := VChecked (temp s \<noteq> None))\<rparr>)"
| do_remove: "pcs s i = VChecked True \<Longrightarrow> temp s \<noteq> None \<Longrightarrow>
     video_step s (s\<lparr>temp := None, pcs := (pcs s)(i := VDone)\<rparr>)"
| do_remove_missing: "pcs s i = VChecked True \<Longrightarrow> temp s = None \<Longrightarrow>
     video_step s (s\<lparr>pcs := (pcs s)(i := VCrashed)\<rparr>)"
| do_skip: "pcs s i = VChecked False \<Longrightarrow>
     video_step s (s\<lparr>pcs := (pcs s)(i := VDone)\<rparr>)"

text \<open>Initial states: every thread idle or about to write its bytes, the path
  holding anything (a file left behind by an earlier crash included).\<close>

definition video_initial :: "vsys \<Rightarrow> bool" where
  "video_initial s = (\<forall>i. pcs s i = VIdle \<or> (\<exists>b. pcs s i = VStart b))"

inductive video_reach :: "vsys \<Rightarrow> vsys \<Rightarrow> bool" where
  refl: "video_reach s s"
| step: "video_reach s0 s \<Longrightarrow> video_step s t \<Longrightarrow> video_reach s0 t"

text \<open>One step of thread \<open>i\<close>, deterministic given the shared state; the
  relation is exactly the union of these steps (\<open>thread_step_sound\<close>,
  \<open>thread_step_complete\<close>), so a schedule, a list of thread ids, runs it.\<close>

fun thread_step :: "vsys \<Rightarrow> nat \<Rightarrow> vsys option" where
  "thread_step s i =
     (case pcs s i of
        VStart b \<Rightarrow> Some (s\<lparr>temp := Some b, pcs := (pcs s)(i := VWritten)\<rparr>)
      | VWritten \<Rightarrow> Some (s\<lparr>pcs := (pcs s)(i := VCalled)\<rparr>)
      | VCalled \<Rightarrow> Some (s\<lparr>pcs := (pcs s)(i := VChecked (temp s \<noteq> None))\<rparr>)
      | VChecked True \<Rightarrow>
          Some (if temp s \<noteq> None then s\<lparr>temp := None, pcs := (pcs s)(i := VDone)\<rparr>
                else s\<lparr>pcs := (pcs s)(i := VCrashed)\<rparr>)
      | VChecked False \<Rightarrow> Some (s\<lparr>pcs := (pcs s)(i := VDone)\<rparr>)
      | _ \<Rightarrow> None)"

fun run_schedule :: "vsys \<Rightarrow> nat list \<Rightarrow> vsys option" where
  "run_schedule s [] = Some s"
| "run_schedule s (i # is) = (case thread_step s i of None \<Rightarrow> None | Some t \<Rightarrow> run_schedule t is)"




text \<open>Two requests with videos, both threads about to write.\<close>

definition two_videos :: vsys where
  "two_videos = \<lparr>temp = None, pcs = (\<lambda>i. VIdle)(0 := VStart [1], 1 := VStart [2])\<rparr>"

inductive_cases video_stepE: "video_step s t"



lemma thread_step_sound: "thread_step s i = Some t \<Longrightarrow> video_step s t"
  by (auto split: vpc.splits bool.splits if_splits intro: video_step.intros simp del: not_None_eq)

lemma thread_step_complete: "video_step s t \<Longrightarrow> \<exists>i. thread_step s i = Some t"
proof (induction rule: video_step.induct)
  case (do_write s i b)
  then show ?case by (intro exI [of _ i]) simp
next
  case (do_call s i)
  then show ?case by (intro exI [of _ i]) simp
next
  case (do_check s i)
  then show ?case by (intro exI [of _ i]) simp
next
  case (do_remove s i)
  then show ?case by (intro exI [of _ i]) simp
next
  case (do_remove_missing s i)
  then show ?case by (intro exI [of _ i]) simp
next
  case (do_skip s i)
  then show ?case by (intro exI [of _ i]) simp
qed

lemma video_reach_prepend: "video_reach t u \<Longrightarrow> video_step s t \<Longrightarrow> video_reach s u"
  by (induction rule: video_reach.induct) (auto intro: video_reach.intros)

lemma run_schedule_reach: "run_schedule s is = Some t \<Longrightarrow> video_reach s t"
proof (induction "is" arbitrary: s)
  case Nil
  then show ?case by (simp add: video_reach.refl)
next
  case (Cons i "is")
  then obtain s' where s': "thread_step s i = Some s'" and r: "run_schedule s' is = Some t"
    by (auto split: option.splits)
  from r have "video_reach s' t" by (rule Cons.IH)
  then show ?case using thread_step_sound [OF s'] by (rule video_reach_prepend)
qed



lemma two_videos_race:
  "run_schedule two_videos [0, 0, 1, 1, 0, 1, 0, 1] =
     Some \<lparr>temp = None, pcs = (\<lambda>i. VIdle)(0 := VDone, 1 := VCrashed)\<rparr>"
  by (simp add: two_videos_def fun_upd_twist)


text \<open>C15. The shared path makes the \<^verbatim>\<open>finally\<close> block racy: with two
  concurrent video requests there is a schedule in which both see the file exist,
  one removes it and the other's \<^verbatim>\<open>os.remove\<close> raises
  \<^verbatim>\<open>FileNotFoundError\<close>, which escapes \<^verbatim>\<open>describe_video\<close>.\<close>

theorem video_race_remove_fails:
  "video_initial two_videos \<and> (\<exists>s. video_reach two_videos s \<and> pcs s 1 = VCrashed)"
proof -
  have "video_reach two_videos \<lparr>temp = None, pcs = (\<lambda>i. VIdle)(0 := VDone, 1 := VCrashed)\<rparr>"
    using two_videos_race by (rule run_schedule_reach)
  then show ?thesis by (auto simp: video_initial_def two_videos_def)
qed

end
