(* ===== verification/Ingestion.thy ===== *)
theory Ingestion
  imports Matcher TextNormalizer
begin

text \<open>
  Offline ingestion, \<^verbatim>\<open>api/vectordb_generator.py\<close>: \<^verbatim>\<open>extract_title\<close>, the
  summary generator \<^verbatim>\<open>generate_gemini_summary\<close> with its unbounded retry loop,
  and the handler \<^verbatim>\<open>GenerateVectorDB.get\<close>, which summarises every
  \<^verbatim>\<open>.json\<close> file of the clean-data directory and adds the summaries, with their
  file name and title, to the vector store in one \<^verbatim>\<open>Chroma.from_texts\<close> call.

  The language model is an oracle indexed by the prompt and the attempt number.
  The retry loop may run forever, so it is a \<open>partial_function (option)\<close>:
  \<open>None\<close> is the request that never returns.  \<^verbatim>\<open>json.dumps\<close> is a parameter
  (only its result's use as prompt text matters).  The store is the list of
  stored documents; \<^verbatim>\<open>Chroma.from_texts\<close> with a persist directory adds to the
  collection already persisted there.
\<close>

subsection \<open>Python operations on JSON values\<close>

text \<open>\<^verbatim>\<open>k in s\<close> for strings: \<open>k\<close> occurs in \<open>s\<close> as a substring.\<close>

fun py_contains :: "pystr \<Rightarrow> pystr \<Rightarrow> bool" where
  "py_contains k [] = (k = [])"
| "py_contains k (x # xs) = (starts_with k (x # xs) \<or> py_contains k xs)"

text \<open>\<^verbatim>\<open>key in value\<close> for a string key: membership of keys, of elements, or of
  substrings; any other operand raises \<^verbatim>\<open>TypeError\<close>.\<close>

fun py_in :: "pystr \<Rightarrow> pyval \<Rightarrow> bool res" where
  "py_in k (PDict d) = Inr (dict_has d k)"
| "py_in k (PList xs) = Inr (PStr k \<in> set xs)"
| "py_in k (PStr s) = Inr (py_contains k s)"
| "py_in k _ = Inl TypeError"

text \<open>\<^verbatim>\<open>value[key]\<close> for a string key: only dictionaries accept it.\<close>

fun py_getitem :: "pyval \<Rightarrow> pystr \<Rightarrow> pyval res" where
  "py_getitem (PDict d) k = (case map_of d k of Some v \<Rightarrow> Inr v | None \<Rightarrow> Inl KeyError)"
| "py_getitem _ k = Inl TypeError"

text \<open>\<^verbatim>\<open>os.path.basename\<close>: what follows the last slash.\<close>

definition py_basename :: "pystr \<Rightarrow> pystr" where
  "py_basename p = rev (takeWhile (\<lambda>c. c \<noteq> CHR ''/'') (rev p))"

subsection \<open>\<^verbatim>\<open>extract_title\<close>, lines 43--59\<close>

definition title_from_metadata :: "pyval \<Rightarrow> pyval res" where
  "title_from_metadata metadata =
     (case py_in ''title'' metadata of
        Inl e \<Rightarrow> Inl e
      | Inr True \<Rightarrow> py_getitem metadata ''title''
      | Inr False \<Rightarrow>
          (case py_in ''guide_title'' metadata of
             Inl e \<Rightarrow> Inl e
           | Inr True \<Rightarrow> py_getitem metadata ''guide_title''
           | Inr False \<Rightarrow> Inr (PStr [])))"

definition extract_title :: "pyval \<Rightarrow> pystr res" where
  "extract_title data =
     (let title0 = PStr [] in
      case (case py_in ''metadata'' data of
              Inl e \<Rightarrow> Inl e
            | Inr True \<Rightarrow> (case py_getitem data ''metadata'' of Inl e \<Rightarrow> Inl e | Inr m \<Rightarrow> title_from_metadata m)
            | Inr False \<Rightarrow> Inr title0) of
        Inl e \<Rightarrow> Inl e
      | Inr title1 \<Rightarrow>
          (case (if \<not> py_truthy title1 then
                   (case py_in ''title'' data of
                      Inl e \<Rightarrow> Inl e
                    | Inr True \<Rightarrow> py_getitem data ''title''
                    | Inr False \<Rightarrow> Inr title1)
                 else Inr title1) of
             Inl e \<Rightarrow> Inl e
           | Inr title \<Rightarrow>
               (if py_truthy title then
                  (case title of PStr s \<Rightarrow> Inr (py_strip s) | _ \<Rightarrow> Inl AttributeError)
                else Inr [])))"

subsection \<open>\<^verbatim>\<open>generate_gemini_summary\<close>, lines 62--86\<close>

text \<open>The prompt sent for a guide's JSON text.\<close>

definition summary_prompt :: "pystr \<Rightarrow> pystr" where
  "summary_prompt text =
     ''Generate a concise repair guide summary. Include: - Appliance type'' @ [nl] @ ''- Model names'' @ [nl] @
     ''- Repair title'' @ [nl] @ ''- Key steps'' @ [nl] @ ''- Critical components'' @ [nl, nl] @
     ''Guide content:'' @ [nl] @ text"

text \<open>One attempt succeeds when the response has non-empty content.\<close>

definition attempt_ok :: "gen_response \<Rightarrow> bool" where
  "attempt_ok r = (case r of GenText t \<Rightarrow> t \<noteq> [] | _ \<Rightarrow> False)"

text \<open>The loop from attempt \<open>attempt\<close> on: the cleaned content of the first
  successful attempt, with that attempt's number (the one logged as
  \<^verbatim>\<open>Success on attempt\<close>).  An empty response and an exception alike lead to
  the next attempt.\<close>

partial_function (option) summary_loop :: "(nat \<Rightarrow> gen_response) \<Rightarrow> nat \<Rightarrow> (pystr \<times> nat) option" where
  "summary_loop llm attempt =
     (case llm attempt of
        GenText t \<Rightarrow> if t \<noteq> [] then Some (clean_text t, attempt) else summary_loop llm (Suc attempt)
      | GenNoText \<Rightarrow> summary_loop llm (Suc attempt)
      | GenRaise m \<Rightarrow> summary_loop llm (Suc attempt))"

declare summary_loop.simps [code]

definition generate_gemini_summary :: "(pystr \<Rightarrow> nat \<Rightarrow> gen_response) \<Rightarrow> pystr \<Rightarrow> pystr option" where
  "generate_gemini_summary llm text = map_option fst (summary_loop (llm (summary_prompt text)) 1)"

subsection \<open>\<^verbatim>\<open>GenerateVectorDB.get\<close>, lines 89--156\<close>

record ingest_env =
  ie_files :: fsys
  ie_dir_exists :: bool
  ie_listing :: "pystr list"
  ie_dumps :: "pyval \<Rightarrow> pystr"
  ie_llm :: "pystr \<Rightarrow> nat \<Rightarrow> gen_response"
  ie_json_dir :: pystr
  ie_persist_dir :: pystr

text \<open>Lines 102--127, one file per step: undecodable files are skipped, other
  read errors and a raising \<^verbatim>\<open>extract_title\<close> escape the loop, a summary that
  never comes is \<open>None\<close>.\<close>

fun ingest_files :: "ingest_env \<Rightarrow> pystr list \<Rightarrow> document list \<Rightarrow> (document list res) option" where
  "ingest_files env [] documents = Some (Inr documents)"
| "ingest_files env (file # files) documents =
     (let file_path = path_join (ie_json_dir env) file in
      case read_json (ie_files env) file_path of
        Inl JSONDecodeError \<Rightarrow> ingest_files env files documents
      | Inl (UnicodeDecodeError m) \<Rightarrow> ingest_files env files documents
      | Inl e \<Rightarrow> Some (Inl e)
      | Inr data \<Rightarrow>
          (case extract_title data of
             Inl e \<Rightarrow> Some (Inl e)
           | Inr title \<Rightarrow>
               (case generate_gemini_summary (ie_llm env) (ie_dumps env data) of
                  None \<Rightarrow> None
                | Some summary \<Rightarrow>
                    ingest_files env files
                      (documents @ [\<lparr>page_content = summary,
                                     doc_metadata = [(''filename'', PStr (py_basename file_path)),
                                                     (''title'', PStr title)]\<rparr>]))))"

definition ingestion_failure :: "int \<times> pyval" where
  "ingestion_failure = (500, PDict [(''error'', PStr ''Vector DB creation failed - check server logs'')])"

definition generate_vectordb :: "ingest_env \<Rightarrow> document list \<Rightarrow> ((int \<times> pyval) \<times> document list) option" where
  "generate_vectordb env store =
     (if \<not> ie_dir_exists env then Some (ingestion_failure, store)
      else
        (let json_files = filter (\<lambda>f. py_endswith f ''.json'') (ie_listing env) in
         case ingest_files env json_files [] of
           None \<Rightarrow> None
         | Some (Inl e) \<Rightarrow> Some (ingestion_failure, store)
         | Some (Inr []) \<Rightarrow>
             Some ((400, PDict [(''error'', PStr ''No valid documents found for vectorization'')]), store)
         | Some (Inr documents) \<Rightarrow>
             Some ((200, PDict [(''message'', PStr (''Vector DB created successfully with '' @
                                                    nat_str (length documents) @ '' entries'')),
                                (''persist_dir'', PStr (ie_persist_dir env)),
                                (''files_added'', PInt (int (length documents)))]),
                   store @ documents)))"


subsection \<open>Scenario 4 of the spec\<close>

text \<open>A clean-data directory with one malformed JSON file, two valid guides and a
  file of another type; the model fails once with a provider error, then answers.\<close>

definition lg_guide :: pyval where
  "lg_guide = PDict [(''metadata'', PDict [(''title'', PStr ''LG WM3488HW OE Error'')]),
                     (''steps'', PList [PStr ''Clean the drain pump filter''])]"

definition canon_guide :: pyval where
  "canon_guide = PDict [(''title'', PStr '' Canon MG2522 E03 Paper Jam ''),
                        (''steps'', PList [PStr ''Remove the jammed paper''])]"

definition scenario4_env :: ingest_env where
  "scenario4_env =
     \<lparr>ie_files = (\<lambda>p. if p = ''/srv/data/clean_data/broken.json'' then Some FBadJson
                      else if p = ''/srv/data/clean_data/lg_wm3488hw.json'' then Some (FJson lg_guide)
                      else if p = ''/srv/data/clean_data/canon_mg2522.json'' then Some (FJson canon_guide)
                      else None),
      ie_dir_exists = True,
      ie_listing = [''broken.json'', ''lg_wm3488hw.json'', ''notes.txt'', ''canon_mg2522.json''],
      ie_dumps = (\<lambda>v. if v = lg_guide then ''LG guide'' else ''Canon guide''),
      ie_llm = (\<lambda>prompt attempt. if attempt = 1 then GenRaise ''503 Service Unavailable''
                               else if prompt = summary_prompt ''LG guide''
                               then GenText ''**LG WM3488HW** washer, error OE: clean the drain pump filter.''
                               else GenText ''Canon MG2522 printer, error E03: remove the jammed paper.''),
      ie_json_dir = ''/srv/data/clean_data'', ie_persist_dir = ''/srv/data/vector_database''\<rparr>"


text \<open>The same directory when the LG guide's \<^verbatim>\<open>metadata\<close> is a string, and
  when the model never answers.\<close>

definition bad_title_env :: ingest_env where
  "bad_title_env = scenario4_env\<lparr>ie_files := (ie_files scenario4_env)
     (''/srv/data/clean_data/lg_wm3488hw.json'' := Some (FJson (PDict [(''metadata'', PStr ''LG washer title'')])))\<rparr>"

definition quota_env :: ingest_env where
  "quota_env = scenario4_env\<lparr>ie_llm := (\<lambda>prompt attempt. GenRaise ''429 Quota exceeded'')\<rparr>"


subsection \<open>The retry loop\<close>

lemma summary_loop_SomeD:
  assumes "summary_loop llm a = Some r"
  shows "a \<le> snd r \<and> (\<exists>t. llm (snd r) = GenText t \<and> t \<noteq> [] \<and> fst r = clean_text t) \<and>
     (\<forall>j. a \<le> j \<and> j < snd r \<longrightarrow> \<not> attempt_ok (llm j))"
  using assms
proof (induction llm a r rule: summary_loop.raw_induct [rotated, consumes 1])
  case (1 loop llm a r)
  note IH = 1(1) and eq = 1(2)
  have step: "loop llm (Suc a) = Some r \<Longrightarrow> \<not> attempt_ok (llm a) \<Longrightarrow> ?case"
  proof -
    assume l: "loop llm (Suc a) = Some r" and n: "\<not> attempt_ok (llm a)"
    from IH [OF l] n show ?case by (auto simp: le_less Suc_le_eq) (metis Suc_lessI)
  qed
  show ?case
  proof (cases "llm a")
    case (GenText t)
    show ?thesis
    proof (cases "t = []")
      case True
      with GenText eq show ?thesis by (intro step) (simp_all add: attempt_ok_def)
    next
      case False
      with GenText eq show ?thesis by auto
    qed
  next
    case GenNoText
    with eq show ?thesis by (intro step) (simp_all add: attempt_ok_def)
  next
    case (GenRaise m)
    with eq show ?thesis by (intro step) (simp_all add: attempt_ok_def)
  qed
qed


lemma summary_loop_first_Some:
  "a \<le> k \<Longrightarrow> llm k = GenText t \<Longrightarrow> t \<noteq> [] \<Longrightarrow> (\<forall>j. a \<le> j \<and> j < k \<longrightarrow> \<not> attempt_ok (llm j)) \<Longrightarrow>
     summary_loop llm a = Some (clean_text t, k)"
proof (induction "k - a" arbitrary: a)
  case 0
  then have "a = k" by simp
  with 0 show ?case by (simp add: summary_loop.simps)
next
  case (Suc n)
  then have lt: "a < k" and no: "\<not> attempt_ok (llm a)" by auto
  have "summary_loop llm a = summary_loop llm (Suc a)"
    using no by (cases "llm a") (auto simp: summary_loop.simps attempt_ok_def)
  also have "\<dots> = Some (clean_text t, k)"
    using Suc.prems lt Suc.hyps(2) by (intro Suc.hyps(1)) auto
  finally show ?case .
qed

lemma attempt_okE: "attempt_ok r \<Longrightarrow> (\<And>t. r = GenText t \<Longrightarrow> t \<noteq> [] \<Longrightarrow> P) \<Longrightarrow> P"
  by (cases r) (auto simp: attempt_ok_def)

lemma first_success:
  assumes "\<exists>j\<ge>(a::nat). attempt_ok (llm j)"
  obtains k where "a \<le> k" "attempt_ok (llm k)" "\<forall>j. a \<le> j \<and> j < k \<longrightarrow> \<not> attempt_ok (llm j)"
proof -
  let ?P = "\<lambda>j. a \<le> j \<and> attempt_ok (llm j)"
  from assms have "\<exists>j. ?P j" by blast
  then have "?P (LEAST j. ?P j)" by (rule LeastI_ex [of ?P])
  moreover have "\<forall>j. a \<le> j \<and> j < (LEAST j. ?P j) \<longrightarrow> \<not> attempt_ok (llm j)"
    using not_less_Least by blast
  ultimately show ?thesis using that by blast
qed

text \<open>C22. The summary generator returns exactly when some attempt, from the
  first on, gets a response with content; otherwise it retries forever.\<close>

theorem summary_loop_returns: "summary_loop llm a \<noteq> None \<longleftrightarrow> (\<exists>j\<ge>a. attempt_ok (llm j))"
proof
  assume "summary_loop llm a \<noteq> None"
  then obtain r where "summary_loop llm a = Some r" by blast
  from summary_loop_SomeD [OF this] show "\<exists>j\<ge>a. attempt_ok (llm j)" by (auto simp: attempt_ok_def)
next
  assume "\<exists>j\<ge>a. attempt_ok (llm j)"
  then obtain k where k: "a \<le> k" "attempt_ok (llm k)" "\<forall>j. a \<le> j \<and> j < k \<longrightarrow> \<not> attempt_ok (llm j)"
    by (rule first_success)
  from k(2) show "summary_loop llm a \<noteq> None"
    by (rule attempt_okE) (simp add: summary_loop_first_Some [OF k(1) _ _ k(3)])
qed

theorem summary_loop_returns_witness:
  "summary_loop (\<lambda>i. if i < 3 then GenRaise ''503'' else GenText ''ok'') 1 \<noteq> None"
  using summary_loop_returns [of "\<lambda>i. if i < 3 then GenRaise ''503'' else GenText ''ok''" 1]
  by (auto simp: attempt_ok_def intro: exI [of _ 3])

text \<open>C23. When it returns, the summary is the cleaned content of the first
  successful attempt, and the attempt number it reports is that attempt's.\<close>

theorem summary_loop_first:
  "summary_loop llm a = Some (s, k) \<longleftrightarrow>
     a \<le> k \<and> (\<exists>t. llm k = GenText t \<and> t \<noteq> [] \<and> s = clean_text t) \<and>
     (\<forall>j. a \<le> j \<and> j < k \<longrightarrow> \<not> attempt_ok (llm j))"
  using summary_loop_SomeD [of llm a "(s, k)"] summary_loop_first_Some [of a k llm] by auto

theorem summary_loop_first_witness:
  "summary_loop (\<lambda>i. if i < 3 then GenRaise ''503'' else GenText ''**ok**'') 1 = Some (''ok'', 3)"
proof -
  have c: "clean_text ''**ok**'' = ''ok''" by (simp add: clean_text_def model_simps)
  show ?thesis
    using summary_loop_first [of "\<lambda>i. if i < 3 then GenRaise ''503'' else GenText ''**ok**''" 1 "''ok''" 3] c
    by (auto simp: attempt_ok_def)
qed

lemma gemini_summary_Some:
  "\<exists>j\<ge>1. attempt_ok (llm (summary_prompt text) j) \<Longrightarrow> \<exists>s. generate_gemini_summary llm text = Some s"
proof -
  assume "\<exists>j\<ge>1. attempt_ok (llm (summary_prompt text) j)"
  then obtain k where k: "1 \<le> k" "attempt_ok (llm (summary_prompt text) k)"
      "\<forall>j. 1 \<le> j \<and> j < k \<longrightarrow> \<not> attempt_ok (llm (summary_prompt text) j)"
    by (rule first_success)
  from k(2) obtain t where t: "llm (summary_prompt text) k = GenText t" "t \<noteq> []" by (rule attempt_okE)
  show ?thesis using summary_loop_first_Some [OF k(1) t k(3)] by (simp add: generate_gemini_summary_def)
qed

lemma gemini_summary_None:
  "\<forall>j\<ge>1. \<not> attempt_ok (llm (summary_prompt text) j) \<Longrightarrow> generate_gemini_summary llm text = None"
  unfolding generate_gemini_summary_def
  by (cases "summary_loop (llm (summary_prompt text)) 1") (auto dest!: summary_loop_SomeD simp: attempt_ok_def)

subsection \<open>The ingestion loop\<close>

lemma ingest_files_append:
  "ingest_files env (xs @ ys) docs =
     (case ingest_files env xs docs of Some (Inr d) \<Rightarrow> ingest_files env ys d | r \<Rightarrow> r)"
  by (induction env xs docs rule: ingest_files.induct)
     (auto simp: Let_def split: sum.splits exc.splits option.splits)


lemma ingest_files_success:
  "ingest_files env files docs = Some (Inr docs') \<Longrightarrow>
     \<exists>new. docs' = docs @ new \<and>
       map (\<lambda>d. dict_get (doc_metadata d) ''filename'' PNone) new =
       map (\<lambda>f. PStr (py_basename (path_join (ie_json_dir env) f)))
         (filter (\<lambda>f. \<not> isl (read_json (ie_files env) (path_join (ie_json_dir env) f))) files)"
proof (induction env files docs rule: ingest_files.induct)
  case (1 env docs)
  then show ?case by simp
next
  case (2 env f files docs)
  show ?case
  proof (cases "read_json (ie_files env) (path_join (ie_json_dir env) f)")
    case (Inl e)
    then have skip: "isl (read_json (ie_files env) (path_join (ie_json_dir env) f))" by simp
    show ?thesis
    proof (cases "e = JSONDecodeError \<or> (\<exists>m. e = UnicodeDecodeError m)")
      case True
      with Inl "2.prems" have "ingest_files env files docs = Some (Inr docs')"
        by (cases e) (auto simp: Let_def)
      with True Inl "2.IH"(1,2) skip show ?thesis by (cases e) auto
    next
      case False
      with Inl "2.prems" show ?thesis by (cases e) (auto simp: Let_def)
    qed
  next
    case (Inr data)
    with "2.prems" obtain title summary where
      t: "extract_title data = Inr title" and g: "generate_gemini_summary (ie_llm env) (ie_dumps env data) = Some summary"
      by (auto simp: Let_def split: sum.splits option.splits)
    with Inr "2.prems" "2.IH"(3) [OF refl Inr t g] show ?thesis by (auto simp: Let_def model_simps)
  qed
qed


lemma map_of_Some_key: "map_of d k = Some v \<Longrightarrow> k \<in> fst ` set d"
  by (auto dest: map_of_SomeD intro: image_eqI [where x = "(k, v)"])

lemma nat_str_2: "nat_str (Suc (Suc 0)) = ''2''"
  by code_simp

lemma scenario4_run:
  "generate_vectordb scenario4_env store =
     Some ((200, PDict [(''message'', PStr ''Vector DB created successfully with 2 entries''),
                        (''persist_dir'', PStr ''/srv/data/vector_database''), (''files_added'', PInt 2)]),
           store @ [\<lparr>page_content = ''LG WM3488HW washer, error OE: clean the drain pump filter.'',
              doc_metadata = [(''filename'', PStr ''lg_wm3488hw.json''), (''title'', PStr ''LG WM3488HW OE Error'')]\<rparr>,
            \<lparr>page_content = ''Canon MG2522 printer, error E03: remove the jammed paper.'',
              doc_metadata = [(''filename'', PStr ''canon_mg2522.json''), (''title'', PStr ''Canon MG2522 E03 Paper Jam'')]\<rparr>])"
proof -
  have lg: "generate_gemini_summary (ie_llm scenario4_env) (ie_dumps scenario4_env lg_guide) =
      Some ''LG WM3488HW washer, error OE: clean the drain pump filter.''"
    by (simp add: generate_gemini_summary_def scenario4_env_def summary_loop.simps clean_text_def model_simps)
  have cn: "generate_gemini_summary (ie_llm scenario4_env) (ie_dumps scenario4_env canon_guide) =
      Some ''Canon MG2522 printer, error E03: remove the jammed paper.''"
    by (simp add: generate_gemini_summary_def scenario4_env_def summary_loop.simps clean_text_def model_simps
        summary_prompt_def lg_guide_def canon_guide_def)
  have env: "ie_dir_exists scenario4_env" "ie_json_dir scenario4_env = ''/srv/data/clean_data''"
    "ie_persist_dir scenario4_env = ''/srv/data/vector_database''"
    "ie_listing scenario4_env = [''broken.json'', ''lg_wm3488hw.json'', ''notes.txt'', ''canon_mg2522.json'']"
    "ie_files scenario4_env = (\<lambda>p. if p = ''/srv/data/clean_data/broken.json'' then Some FBadJson
                      else if p = ''/srv/data/clean_data/lg_wm3488hw.json'' then Some (FJson lg_guide)
                      else if p = ''/srv/data/clean_data/canon_mg2522.json'' then Some (FJson canon_guide)
                      else None)"
    by (simp_all add: scenario4_env_def)
  have t: "extract_title lg_guide = Inr ''LG WM3488HW OE Error''"
    "extract_title canon_guide = Inr ''Canon MG2522 E03 Paper Jam''"
    by (simp_all add: extract_title_def title_from_metadata_def lg_guide_def canon_guide_def model_simps)
  show ?thesis
    by (simp add: generate_vectordb_def lg cn t env py_endswith_def Let_def model_simps py_basename_def
        del: ingest_files.simps(2)) (simp add: Let_def model_simps py_basename_def env lg cn t nat_str_2 del: nat_str.simps)
qed


lemma scenario4_llm_ok: "attempt_ok (ie_llm scenario4_env prompt 2)"
  by (simp add: scenario4_env_def attempt_ok_def)

text \<open>C24. Ingestion returns when the model eventually answers for every readable
  guide: a failing read, a raising \<^verbatim>\<open>extract_title\<close> or the end of the list
  ends the loop; only the retry loop can keep it from returning.\<close>

theorem ingest_files_returns:
  "\<forall>f\<in>set files. \<forall>data. read_json (ie_files env) (path_join (ie_json_dir env) f) = Inr data \<longrightarrow>
       (\<exists>j\<ge>1. attempt_ok (ie_llm env (summary_prompt (ie_dumps env data)) j)) \<Longrightarrow>
   ingest_files env files docs \<noteq> None"
proof (induction files arbitrary: docs)
  case Nil
  then show ?case by simp
next
  case (Cons f files)
  show ?case
  proof (cases "read_json (ie_files env) (path_join (ie_json_dir env) f)")
    case (Inl e)
    with Cons show ?thesis by (cases e) (auto simp: Let_def)
  next
    case (Inr data)
    with Cons.prems obtain summary where g: "generate_gemini_summary (ie_llm env) (ie_dumps env data) = Some summary"
      using gemini_summary_Some by fastforce
    with Inr Cons show ?thesis by (auto simp: Let_def split: sum.splits)
  qed
qed

theorem ingest_files_returns_witness:
  "ingest_files scenario4_env [''broken.json'', ''lg_wm3488hw.json'', ''canon_mg2522.json''] [] \<noteq> None"
proof -
  have h: "\<forall>f\<in>set [''broken.json'', ''lg_wm3488hw.json'', ''canon_mg2522.json'']. \<forall>data.
      read_json (ie_files scenario4_env) (path_join (ie_json_dir scenario4_env) f) = Inr data \<longrightarrow>
      (\<exists>j\<ge>1. attempt_ok (ie_llm scenario4_env (summary_prompt (ie_dumps scenario4_env data)) j))"
    using scenario4_llm_ok by (intro ballI allI impI exI [of _ 2]) simp
  show ?thesis using ingest_files_returns [OF h] .
qed

text \<open>A 200 answer of the ingestion is a successful pass over the listed
  \<^verbatim>\<open>.json\<close> files whose documents are appended to the store.\<close>

lemma generate_vectordb_200E:
  assumes "generate_vectordb env store = Some ((200, r), store')"
  obtains docs where "ingest_files env (filter (\<lambda>f. py_endswith f ''.json'') (ie_listing env)) [] = Some (Inr docs)"
    "docs \<noteq> []" "store' = store @ docs"
    "r = PDict [(''message'', PStr (''Vector DB created successfully with '' @ nat_str (length docs) @ '' entries'')),
                (''persist_dir'', PStr (ie_persist_dir env)), (''files_added'', PInt (int (length docs)))]"
proof -
  from assms obtain docs where i: "ingest_files env (filter (\<lambda>f. py_endswith f ''.json'') (ie_listing env)) [] = Some (Inr docs)"
      and ne: "docs \<noteq> []" and dir: "ie_dir_exists env"
    by (auto simp: generate_vectordb_def ingestion_failure_def Let_def split: if_splits option.splits sum.splits list.splits)
  from assms i ne dir have "store' = store @ docs \<and>
       r = PDict [(''message'', PStr (''Vector DB created successfully with '' @ nat_str (length docs) @ '' entries'')),
                  (''persist_dir'', PStr (ie_persist_dir env)), (''files_added'', PInt (int (length docs)))]"
    by (cases docs) (auto simp: generate_vectordb_def Let_def)
  with i ne that show ?thesis by blast
qed

text \<open>C25. A successful ingestion (status 200) appends one document per
  \<^verbatim>\<open>.json\<close> file of the listing that reads as JSON, in listing order, with the
  file's base name as \<^verbatim>\<open>filename\<close>, skipping undecodable files; its answer
  reports their number.\<close>

theorem generate_vectordb_success:
  "generate_vectordb env store = Some ((200, r), store') \<Longrightarrow>
     \<exists>new. store' = store @ new \<and> new \<noteq> [] \<and>
       r = PDict [(''message'', PStr (''Vector DB created successfully with '' @ nat_str (length new) @ '' entries'')),
                  (''persist_dir'', PStr (ie_persist_dir env)), (''files_added'', PInt (int (length new)))] \<and>
       map (\<lambda>d. dict_get (doc_metadata d) ''filename'' PNone) new =
       map (\<lambda>f. PStr (py_basename (path_join (ie_json_dir env) f)))
         (filter (\<lambda>f. \<not> isl (read_json (ie_files env) (path_join (ie_json_dir env) f)))
            (filter (\<lambda>f. py_endswith f ''.json'') (ie_listing env)))"
proof -
  assume "generate_vectordb env store = Some ((200, r), store')"
  then obtain docs where "ingest_files env (filter (\<lambda>f. py_endswith f ''.json'') (ie_listing env)) [] = Some (Inr docs)"
    "docs \<noteq> []" "store' = store @ docs"
    "r = PDict [(''message'', PStr (''Vector DB created successfully with '' @ nat_str (length docs) @ '' entries'')),
                (''persist_dir'', PStr (ie_persist_dir env)), (''files_added'', PInt (int (length docs)))]"
    by (rule generate_vectordb_200E)
  with ingest_files_success [of env _ "[]" docs] show ?thesis by auto
qed

theorem generate_vectordb_success_witness:
  "map (\<lambda>d. dict_get (doc_metadata d) ''filename'' PNone)
     [\<lparr>page_content = ''LG WM3488HW washer, error OE: clean the drain pump filter.'',
       doc_metadata = [(''filename'', PStr ''lg_wm3488hw.json''), (''title'', PStr ''LG WM3488HW OE Error'')]\<rparr>,
      \<lparr>page_content = ''Canon MG2522 printer, error E03: remove the jammed paper.'',
       doc_metadata = [(''filename'', PStr ''canon_mg2522.json''), (''title'', PStr ''Canon MG2522 E03 Paper Jam'')]\<rparr>] =
   [PStr ''lg_wm3488hw.json'', PStr ''canon_mg2522.json'']"
  using generate_vectordb_success [OF scenario4_run [of "[]"]] by (simp add: model_simps)

text \<open>C26. A guide on which \<^verbatim>\<open>extract_title\<close> raises (a string
  \<^verbatim>\<open>metadata\<close> containing \<^verbatim>\<open>title\<close>, a truthy title that is not a string)
  is not skipped: the whole ingestion fails with status 500 and nothing is added.\<close>

theorem generate_vectordb_title_abort:
  assumes "ie_dir_exists env" "filter (\<lambda>f. py_endswith f ''.json'') (ie_listing env) = xs @ f # ys"
    and "ingest_files env xs [] = Some (Inr docs)"
    and "read_json (ie_files env) (path_join (ie_json_dir env) f) = Inr data" "isl (extract_title data)"
  shows "generate_vectordb env store = Some (ingestion_failure, store)"
  using assms by (auto simp: generate_vectordb_def ingest_files_append Let_def split: sum.splits)

theorem generate_vectordb_title_abort_witness:
  "generate_vectordb bad_title_env [] = Some (ingestion_failure, [])"
proof -
  have f: "filter (\<lambda>f. py_endswith f ''.json'') (ie_listing bad_title_env) =
      [''broken.json''] @ ''lg_wm3488hw.json'' # [''canon_mg2522.json'']"
    by (simp add: bad_title_env_def scenario4_env_def py_endswith_def)
  have i: "ingest_files bad_title_env [''broken.json''] [] = Some (Inr [])"
    by (simp add: bad_title_env_def scenario4_env_def model_simps)
  have r: "read_json (ie_files bad_title_env) (path_join (ie_json_dir bad_title_env) ''lg_wm3488hw.json'') =
      Inr (PDict [(''metadata'', PStr ''LG washer title'')])"
    by (simp add: bad_title_env_def scenario4_env_def model_simps)
  have e: "isl (extract_title (PDict [(''metadata'', PStr ''LG washer title'')]))"
    by (simp add: extract_title_def title_from_metadata_def model_simps)
  have d: "ie_dir_exists bad_title_env" by (simp add: bad_title_env_def scenario4_env_def)
  show ?thesis using generate_vectordb_title_abort [OF d f i r e] .
qed

text \<open>C27. A model that never answers keeps the ingestion request from ever
  returning once a readable guide is reached.\<close>

theorem generate_vectordb_no_answer:
  assumes "ie_dir_exists env" "filter (\<lambda>f. py_endswith f ''.json'') (ie_listing env) = xs @ f # ys"
    and "ingest_files env xs [] = Some (Inr docs)"
    and "read_json (ie_files env) (path_join (ie_json_dir env) f) = Inr data" "extract_title data = Inr title"
    and "\<forall>j\<ge>1. \<not> attempt_ok (ie_llm env (summary_prompt (ie_dumps env data)) j)"
  shows "generate_vectordb env store = None"
  using assms gemini_summary_None [of "ie_llm env" "ie_dumps env data", OF assms(6)]
  by (auto simp: generate_vectordb_def ingest_files_append Let_def)

theorem generate_vectordb_no_answer_witness: "generate_vectordb quota_env [] = None"
proof -
  have f: "filter (\<lambda>f. py_endswith f ''.json'') (ie_listing quota_env) =
      [''broken.json''] @ ''lg_wm3488hw.json'' # [''canon_mg2522.json'']"
    by (simp add: quota_env_def scenario4_env_def py_endswith_def)
  have i: "ingest_files quota_env [''broken.json''] [] = Some (Inr [])"
    by (simp add: quota_env_def scenario4_env_def model_simps)
  have r: "read_json (ie_files quota_env) (path_join (ie_json_dir quota_env) ''lg_wm3488hw.json'') = Inr lg_guide"
    by (simp add: quota_env_def scenario4_env_def model_simps)
  have e: "extract_title lg_guide = Inr ''LG WM3488HW OE Error''"
    by (simp add: extract_title_def title_from_metadata_def lg_guide_def model_simps)
  have n: "\<forall>j\<ge>1. \<not> attempt_ok (ie_llm quota_env (summary_prompt (ie_dumps quota_env lg_guide)) j)"
    by (simp add: quota_env_def attempt_ok_def)
  have d: "ie_dir_exists quota_env" by (simp add: quota_env_def scenario4_env_def)
  show ?thesis using generate_vectordb_no_answer [OF d f i r e n] .
qed

text \<open>\<^verbatim>\<open>extract_title\<close> prefers the metadata's \<^verbatim>\<open>title\<close>, then its
  \<^verbatim>\<open>guide_title\<close>, then the root \<^verbatim>\<open>title\<close>, and strips surrounding
  whitespace.\<close>

theorem extract_title_precedence:
  "(map_of d ''metadata'' = Some (PDict m) \<and> map_of m ''title'' = Some (PStr s) \<and> s \<noteq> [] \<longrightarrow>
      extract_title (PDict d) = Inr (py_strip s)) \<and>
   (map_of d ''metadata'' = Some (PDict m) \<and> \<not> dict_has m ''title'' \<and> map_of m ''guide_title'' = Some (PStr s) \<and>
      s \<noteq> [] \<longrightarrow> extract_title (PDict d) = Inr (py_strip s)) \<and>
   (\<not> dict_has d ''metadata'' \<and> map_of d ''title'' = Some (PStr s) \<longrightarrow> extract_title (PDict d) = Inr (py_strip s))"
  by (auto simp: extract_title_def title_from_metadata_def dict_has_def map_of_Some_key map_of_eq_None_iff py_strip_def)

theorem extract_title_precedence_witness:
  "extract_title lg_guide = Inr ''LG WM3488HW OE Error''"
proof -
  have "extract_title (PDict [(''metadata'', PDict [(''title'', PStr ''LG WM3488HW OE Error'')]),
                     (''steps'', PList [PStr ''Clean the drain pump filter''])]) =
        Inr (py_strip ''LG WM3488HW OE Error'')"
    using extract_title_precedence [of "[(''metadata'', PDict [(''title'', PStr ''LG WM3488HW OE Error'')]),
                     (''steps'', PList [PStr ''Clean the drain pump filter''])]"
        "[(''title'', PStr ''LG WM3488HW OE Error'')]" "''LG WM3488HW OE Error''"] by simp
  then show ?thesis by (simp add: lg_guide_def model_simps)
qed

text \<open>Scenario 4: over a directory with one malformed and two valid guides
  (and a file of another type), with the model failing once before answering,
  ingestion reports two entries and an empty index then holds exactly the two
  summaries with their file names and titles.\<close>

theorem scenario4:
  "generate_vectordb scenario4_env [] =
     Some ((200, PDict [(''message'', PStr ''Vector DB created successfully with 2 entries''),
                        (''persist_dir'', PStr ''/srv/data/vector_database''), (''files_added'', PInt 2)]),
           [\<lparr>page_content = ''LG WM3488HW washer, error OE: clean the drain pump filter.'',
              doc_metadata = [(''filename'', PStr ''lg_wm3488hw.json''), (''title'', PStr ''LG WM3488HW OE Error'')]\<rparr>,
            \<lparr>page_content = ''Canon MG2522 printer, error E03: remove the jammed paper.'',
              doc_metadata = [(''filename'', PStr ''canon_mg2522.json''), (''title'', PStr ''Canon MG2522 E03 Paper Jam'')]\<rparr>])"
  using scenario4_run [of "[]"] by simp

text \<open>Ingestion is not idempotent: running it again over the same directory
  adds every summary a second time, so the index holds duplicates.\<close>

theorem scenario4_rerun_duplicates:
  "\<exists>r1 r2 s1 s2. generate_vectordb scenario4_env [] = Some (r1, s1) \<and>
     generate_vectordb scenario4_env s1 = Some (r2, s2) \<and> s2 = s1 @ s1 \<and> length s2 = 4"
  using scenario4_run [of "[]"] scenario4_run [of "[_, _]"] by simp

lemma generate_vectordb_appends:
  assumes "generate_vectordb env store = Some (resp, store')"
  shows "\<exists>ds. store' = store @ ds"
proof (cases "ie_dir_exists env")
  case False
  with assms show ?thesis by (simp add: generate_vectordb_def)
next
  case True
  show ?thesis
  proof (cases "ingest_files env (filter (\<lambda>f. py_endswith f ''.json'') (ie_listing env)) []")
    case None
    with True assms show ?thesis by (simp add: generate_vectordb_def)
  next
    case (Some r)
    with True assms show ?thesis
      by (cases r) (auto simp: generate_vectordb_def Let_def split: list.splits)
  qed
qed

end
