(* ===== verification/Redundant.thy ===== *)
theory Redundant
  imports Prelude
begin

text \<open>
  The preprocessing script \<^verbatim>\<open>data/preprocessing/redundant.py\<close>, run once before
  ingestion: every \<^verbatim>\<open>.json\<close> file of the raw-data folder is loaded, stripped of a
  fixed set of top-level keys and of a fixed set of keys of its \<^verbatim>\<open>metadata\<close>
  object, and written under the same name to the clean-data folder.  A file that
  fails to load is reported and skipped.  The script's printed lines are the log
  it returns; the file system is the one of the other theories.
\<close>

definition keys_to_remove :: "pystr set" where
  "keys_to_remove = set [''ifixit_links'', ''resources_links'', ''social_links'', ''legal_links'',
     ''license_link'', ''repair_is_noble_link'', ''copyright'', ''preview_statistics'', ''licensing_url'',
     ''team_info'', ''comments'', ''manifesto_url'', ''comments_section'', ''team'', ''statistics'',
     ''author_information'', ''team_information'', ''author'', ''author_info'', ''completed_count'',
     ''favorite_count'', ''comments_count'', ''view_statistics'', ''favorited_count'', ''contributors'',
     ''view_statistics_preview'', ''stay_in_loop'', ''comments_url'', ''contributors_url'']"

definition metadata_keys_to_remove :: "pystr set" where
  "metadata_keys_to_remove = set [''member_since'', ''view_statistics'', ''author'', ''author_link'',
     ''contributors'', ''statistics'', ''completed_count'', ''favorite_count'', ''favorited_count'',
     ''comments_count'', ''other_contributors'']"

text \<open>\<^verbatim>\<open>{k: v for k, v in d.items() if k not in keys}\<close>.\<close>

definition drop_keys :: "pystr set \<Rightarrow> pydict \<Rightarrow> pydict" where
  "drop_keys ks d = filter (\<lambda>(k, v). k \<notin> ks) d"

text \<open>Lines 66--72 of \<^verbatim>\<open>clean_json_file\<close>.\<close>

fun clean_record :: "pyval \<Rightarrow> pyval" where
  "clean_record (PDict d) =
     (let d = drop_keys keys_to_remove d in
      if dict_has d ''metadata'' then
        (case dict_get d ''metadata'' PNone of
           PDict m \<Rightarrow> PDict (dict_set d ''metadata'' (PDict (drop_keys metadata_keys_to_remove m)))
         | _ \<Rightarrow> PDict d)
      else PDict d)"
| "clean_record v = v"

text \<open>\<^verbatim>\<open>clean_json_file(input_path, output_path)\<close>: the new file system and the
  line printed.\<close>

definition clean_json_file :: "fsys \<Rightarrow> pystr \<Rightarrow> pystr \<Rightarrow> fsys \<times> pystr" where
  "clean_json_file fs input_path output_path =
     (case read_json fs input_path of
        Inr data \<Rightarrow> (fs(output_path \<mapsto> FJson (clean_record data)),
                     ''Processed: '' @ input_path @ '' -> '' @ output_path)
      | Inl e \<Rightarrow> (fs, ''Error processing '' @ input_path @ '': '' @ exc_str e))"

text \<open>\<^verbatim>\<open>process_json_folder\<close> over the folder's listing, in listing order.\<close>

fun process_files :: "fsys \<Rightarrow> pystr \<Rightarrow> pystr \<Rightarrow> pystr list \<Rightarrow> fsys \<times> pystr list" where
  "process_files fs input_folder output_folder [] = (fs, [])"
| "process_files fs input_folder output_folder (filename # rest) =
     (if py_endswith filename ''.json'' then
        (let (fs1, line) = clean_json_file fs (path_join input_folder filename) (path_join output_folder filename);
             (fs2, lines) = process_files fs1 input_folder output_folder rest
         in (fs2, line # lines))
      else process_files fs input_folder output_folder rest)"

definition process_json_folder :: "fsys \<Rightarrow> pystr list \<Rightarrow> pystr \<Rightarrow> pystr \<Rightarrow> fsys \<times> pystr list" where
  "process_json_folder fs listing input_folder output_folder = process_files fs input_folder output_folder listing"


text \<open>A raw-data folder with one guide, one malformed file and a file of
  another type.\<close>

definition raw_fs :: fsys where
  "raw_fs = (\<lambda>p. if p = ''../raw_data/lg.json'' then
                   Some (FJson (PDict [(''title'', PStr ''LG OE''), (''comments'', PList [])]))
                 else if p = ''../raw_data/bad.json'' then Some FBadJson else None)"

subsection \<open>Cleaning a record\<close>

lemma drop_keys_idem [simp]: "drop_keys ks (drop_keys ks d) = drop_keys ks d"
  by (simp add: drop_keys_def)

lemma dict_has_drop_keys: "k \<notin> ks \<Longrightarrow> dict_has (drop_keys ks d) k = dict_has d k"
  by (auto simp: drop_keys_def dict_has_def)

lemma map_of_drop_keys: "map_of (drop_keys ks d) k = (if k \<in> ks then None else map_of d k)"
  by (induction d) (auto simp: drop_keys_def)

lemma drop_keys_overwrite:
  "k \<notin> ks \<Longrightarrow> drop_keys ks (map (\<lambda>(k', v'). if k' = k then (k', v) else (k', v')) d) =
     map (\<lambda>(k', v'). if k' = k then (k', v) else (k', v')) (drop_keys ks d)"
  by (induction d) (auto simp: drop_keys_def split: if_splits)

lemma drop_keys_dict_set: "k \<notin> ks \<Longrightarrow> drop_keys ks (dict_set d k v) = dict_set (drop_keys ks d) k v"
  by (simp add: dict_set_def dict_has_drop_keys drop_keys_overwrite) (simp add: drop_keys_def)

lemma metadata_kept: "''metadata'' \<notin> keys_to_remove"
  by (simp add: keys_to_remove_def)

lemma keys_drop_keys: "map fst (drop_keys ks d) = filter (\<lambda>k. k \<notin> ks) (map fst d)"
  by (induction d) (auto simp: drop_keys_def)

text \<open>Cleaning is idempotent: running the script's cleaning on a cleaned
  record changes nothing, so rerunning the script over its own output is
  harmless.\<close>

theorem clean_record_idem: "clean_record (clean_record v) = clean_record v"
proof (cases v)
  case (PDict d)
  let ?d = "drop_keys keys_to_remove d"
  show ?thesis
  proof (cases "dict_has ?d ''metadata''")
    case True
    show ?thesis
    proof (cases "dict_get ?d ''metadata'' PNone")
      case (PDict m)
      with True \<open>v = PDict d\<close> show ?thesis
        by (simp add: metadata_kept drop_keys_dict_set dict_has_set dict_get_set)
    qed (use True \<open>v = PDict d\<close> in simp_all)
  next
    case False
    with PDict show ?thesis by simp
  qed
qed simp_all


text \<open>C31. Cleaning a record object keeps exactly the keys outside the removal
  list, in their order and with their values, and replaces a
  \<^verbatim>\<open>metadata\<close> object by the same object without the metadata removal keys.\<close>

theorem clean_record_keys:
  "\<exists>d'. clean_record (PDict d) = PDict d' \<and>
     map fst d' = filter (\<lambda>k. k \<notin> keys_to_remove) (map fst d) \<and>
     (\<forall>k. k \<noteq> ''metadata'' \<longrightarrow> map_of d' k = (if k \<in> keys_to_remove then None else map_of d k)) \<and>
     map_of d' ''metadata'' =
       (case map_of d ''metadata'' of
          Some (PDict m) \<Rightarrow> Some (PDict (drop_keys metadata_keys_to_remove m))
        | _ \<Rightarrow> map_of d ''metadata'')"
proof -
  let ?d = "drop_keys keys_to_remove d"
  have m: "map_of ?d ''metadata'' = map_of d ''metadata''" by (simp add: map_of_drop_keys metadata_kept)
  show ?thesis
  proof (cases "map_of d ''metadata''")
    case None
    with m show ?thesis by (simp add: dict_has_map_of keys_drop_keys map_of_drop_keys)
  next
    case (Some v)
    with m have has: "dict_has ?d ''metadata''" and get: "dict_get ?d ''metadata'' PNone = v"
      by (simp_all add: dict_has_map_of dict_get_def)
    show ?thesis
    proof (cases v)
      case (PDict mm)
      with Some has get show ?thesis
        by (simp add: keys_dict_set keys_drop_keys map_of_dict_set map_of_drop_keys)
    qed (use Some has get in \<open>simp_all add: keys_drop_keys map_of_drop_keys metadata_kept\<close>)
  qed
qed

theorem clean_record_keys_witness:
  "clean_record (PDict [(''title'', PStr ''LG OE''), (''author'', PStr ''x''),
                        (''metadata'', PDict [(''author_link'', PStr ''y''), (''difficulty'', PStr ''Easy'')])]) =
   PDict [(''title'', PStr ''LG OE''), (''metadata'', PDict [(''difficulty'', PStr ''Easy'')])]"
proof -
  obtain d' where d': "clean_record (PDict [(''title'', PStr ''LG OE''), (''author'', PStr ''x''),
                        (''metadata'', PDict [(''author_link'', PStr ''y''), (''difficulty'', PStr ''Easy'')])]) = PDict d'"
    and k: "map fst d' = filter (\<lambda>k. k \<notin> keys_to_remove) [''title'', ''author'', ''metadata'']"
    and v: "\<forall>k. k \<noteq> ''metadata'' \<longrightarrow> map_of d' k = (if k \<in> keys_to_remove then None
        else map_of [(''title'', PStr ''LG OE''), (''author'', PStr ''x''),
                        (''metadata'', PDict [(''author_link'', PStr ''y''), (''difficulty'', PStr ''Easy'')])] k)"
    and m: "map_of d' ''metadata'' = Some (PDict (drop_keys metadata_keys_to_remove
        [(''author_link'', PStr ''y''), (''difficulty'', PStr ''Easy'')]))"
    using clean_record_keys [of "[(''title'', PStr ''LG OE''), (''author'', PStr ''x''),
                        (''metadata'', PDict [(''author_link'', PStr ''y''), (''difficulty'', PStr ''Easy'')])]"]
    by auto
  have ks: "map fst d' = [''title'', ''metadata'']" using k by (simp add: keys_to_remove_def)
  have t: "map_of d' ''title'' = Some (PStr ''LG OE'')" using v by (simp add: keys_to_remove_def)
  have mm: "map_of d' ''metadata'' = Some (PDict [(''difficulty'', PStr ''Easy'')])"
    using m by (simp add: drop_keys_def metadata_keys_to_remove_def)
  obtain a b where "d' = [a, b]" using ks by (cases d' rule: remdups_adj.cases) auto
  with ks t mm have "d' = [(''title'', PStr ''LG OE''), (''metadata'', PDict [(''difficulty'', PStr ''Easy'')])]"
    by (cases a; cases b) auto
  with d' show ?thesis by simp
qed

subsection \<open>Processing the folder\<close>

lemma process_files_frame:
  "process_files fs inp out xs = (fs', msgs) \<Longrightarrow> p \<notin> path_join out ` set xs \<Longrightarrow> fs' p = fs p"
proof (induction fs inp out xs arbitrary: fs' msgs rule: process_files.induct)
  case (1 fs inp out)
  then show ?case by simp
next
  case (2 fs inp out filename rest)
  show ?case
  proof (cases "py_endswith filename ''.json''")
    case True
    obtain fs1 line where c: "clean_json_file fs (path_join inp filename) (path_join out filename) = (fs1, line)"
      by fastforce
    obtain fs2 lines where r: "process_files fs1 inp out rest = (fs2, lines)" by fastforce
    from "2.prems" True c r have "fs' = fs2" by simp
    moreover from "2.prems"(2) have "p \<notin> path_join out ` set rest" "p \<noteq> path_join out filename" by auto
    moreover have "fs1 p = fs p" using c \<open>p \<noteq> path_join out filename\<close>
      by (auto simp: clean_json_file_def split: sum.splits)
    ultimately show ?thesis using "2.IH"(1) [OF True refl c[symmetric] r] r by simp
  next
    case False
    with "2.prems" "2.IH"(2) show ?thesis by auto
  qed
qed


lemma process_files_msgs:
  "length (snd (process_files fs inp out xs)) = length (filter (\<lambda>f. py_endswith f ''.json'') xs)"
  by (induction fs inp out xs rule: process_files.induct) (auto split: prod.splits)

lemma process_files_output:
  "process_files fs inp out xs = (fs', msgs) \<Longrightarrow>
   \<forall>f\<in>set xs. \<forall>g\<in>set xs. path_join out f \<noteq> path_join inp g \<Longrightarrow>
   distinct (map (path_join out) xs) \<Longrightarrow>
   f \<in> set xs \<Longrightarrow> py_endswith f ''.json'' \<Longrightarrow> read_json fs (path_join inp f) = Inr data \<Longrightarrow>
   fs' (path_join out f) = Some (FJson (clean_record data))"
proof (induction fs inp out xs arbitrary: fs' msgs rule: process_files.induct)
  case (1 fs inp out)
  then show ?case by simp
next
  case (2 fs inp out filename rest)
  show ?case
  proof (cases "py_endswith filename ''.json''")
    case True
    obtain fs1 line where c: "clean_json_file fs (path_join inp filename) (path_join out filename) = (fs1, line)"
      by fastforce
    obtain fs2 lines where r: "process_files fs1 inp out rest = (fs2, lines)" by fastforce
    from "2.prems"(1) True c r have fs': "fs' = fs2" by simp
    show ?thesis
    proof (cases "filename = f")
      case True
      with c "2.prems"(6) have "fs1 (path_join out f) = Some (FJson (clean_record data))"
        by (auto simp: clean_json_file_def)
      moreover from "2.prems"(3) True have "path_join out f \<notin> path_join out ` set rest" by auto
      ultimately show ?thesis using process_files_frame [OF r] fs' by simp
    next
      case False
      with "2.prems"(4) have f: "f \<in> set rest" by simp
      from "2.prems"(2) f have "path_join out filename \<noteq> path_join inp f" by auto
      with c have "read_json fs1 (path_join inp f) = read_json fs (path_join inp f)"
        by (auto simp: clean_json_file_def read_json_def split: sum.splits)
      with "2.prems" f have "fs2 (path_join out f) = Some (FJson (clean_record data))"
        by (intro "2.IH"(1) [OF \<open>py_endswith filename ''.json''\<close> refl c[symmetric] r]) auto
      with fs' show ?thesis by simp
    qed
  next
    case False
    with "2.prems" have "f \<in> set rest" by auto
    with False "2.prems" show ?thesis by (intro "2.IH"(2)) auto
  qed
qed

text \<open>C32. After \<^verbatim>\<open>process_json_folder\<close> (input and output folders
  disjoint), every \<^verbatim>\<open>.json\<close> file of the listing that loads is found in the
  output folder, under its name, as the cleaned record; one line is printed per
  \<^verbatim>\<open>.json\<close> file.\<close>

theorem process_json_folder_output:
  assumes "process_json_folder fs listing input_folder output_folder = (fs', msgs)"
    and "\<forall>f\<in>set listing. \<forall>g\<in>set listing. path_join output_folder f \<noteq> path_join input_folder g"
    and "distinct (map (path_join output_folder) listing)"
    and "f \<in> set listing" "py_endswith f ''.json''" "read_json fs (path_join input_folder f) = Inr data"
  shows "read_json fs' (path_join output_folder f) = Inr (clean_record data) \<and>
         length msgs = length (filter (\<lambda>f. py_endswith f ''.json'') listing)"
  using process_files_output [OF assms(1) [unfolded process_json_folder_def] assms(2-6)]
    process_files_msgs [of fs input_folder output_folder listing] assms(1)
  by (simp add: read_json_def process_json_folder_def)

theorem process_json_folder_output_witness:
  "read_json (fst (process_json_folder raw_fs [''lg.json'', ''notes.txt'', ''bad.json''] ''../raw_data'' ''../clean_data''))
     ''../clean_data/lg.json'' = Inr (PDict [(''title'', PStr ''LG OE'')])"
proof -
  obtain fs' msgs where run: "process_json_folder raw_fs [''lg.json'', ''notes.txt'', ''bad.json''] ''../raw_data'' ''../clean_data'' =
      (fs', msgs)" by fastforce
  have r: "read_json raw_fs (path_join ''../raw_data'' ''lg.json'') =
      Inr (PDict [(''title'', PStr ''LG OE''), (''comments'', PList [])])"
    by (simp add: raw_fs_def model_simps)
  have c: "clean_record (PDict [(''title'', PStr ''LG OE''), (''comments'', PList [])]) = PDict [(''title'', PStr ''LG OE'')]"
    by (simp add: drop_keys_def keys_to_remove_def model_simps)
  have "read_json fs' (path_join ''../clean_data'' ''lg.json'') = Inr (PDict [(''title'', PStr ''LG OE'')])"
    using process_json_folder_output [OF run _ _ _ _ r] c by (simp add: model_simps py_endswith_def)
  with run show ?thesis by (simp add: model_simps)
qed

end
