(* ===== verification/Prompt.thy ===== *)
theory Prompt
  imports Agent Ingestion
begin

text \<open>
  The prompt of the agent: the three system templates of
  \<^verbatim>\<open>utils/strings.py\<close> (only \<^verbatim>\<open>system_text44\<close> is used), the chat prompt
  of \<^verbatim>\<open>api/agent.py\<close> (lines 44--49) and LangChain's check in
  \<^verbatim>\<open>create_react_agent\<close> (line 52) that the prompt has the variables
  \<^verbatim>\<open>tools\<close>, \<^verbatim>\<open>tool_names\<close> and \<^verbatim>\<open>agent_scratchpad\<close>.  Templates are
  Python format strings, parsed as \<^verbatim>\<open>string.Formatter.parse\<close> does:
  \<^verbatim>\<open>{{\<close> and \<^verbatim>\<open>}}\<close> stand for braces, \<^verbatim>\<open>{name}\<close> is a variable, a lone
  closing brace or an unclosed field raises \<^verbatim>\<open>ValueError\<close>, and formatting
  with a variable that has no value raises \<^verbatim>\<open>KeyError\<close>.  Conversions and
  format specifications after \<^verbatim>\<open>!\<close> or \<^verbatim>\<open>:\<close> are dropped from the
  variable's name and otherwise ignored; nested fields inside a format
  specification are not modelled (no template of the program has one).
  The lemmas show that parsing is compositional, compute the variables of each
  template line by line, and prove the prompt well formed (C38).
\<close>

subsection \<open>Python format strings\<close>

datatype tseg = TChar char | TVar pystr

definition seg_cons :: "tseg \<Rightarrow> tseg list res \<Rightarrow> tseg list res" where
  "seg_cons x r = (case r of Inl e \<Rightarrow> Inl e | Inr segs \<Rightarrow> Inr (x # segs))"

definition seg_app :: "tseg list \<Rightarrow> tseg list res \<Rightarrow> tseg list res" where
  "seg_app xs r = (case r of Inl e \<Rightarrow> Inl e | Inr ys \<Rightarrow> Inr (xs @ ys))"

text \<open>The field name: what precedes a conversion or a format specification.\<close>

definition field_name :: "pystr \<Rightarrow> pystr" where
  "field_name fld = takeWhile (\<lambda>c. c \<noteq> CHR ''!'' \<and> c \<noteq> CHR '':'') fld"

function parse_fstring :: "pystr \<Rightarrow> tseg list res" where
  "parse_fstring [] = Inr []"
| "parse_fstring (c # s) =
     (if c = CHR ''{'' then
        (if s \<noteq> [] \<and> hd s = CHR ''{'' then seg_cons (TChar c) (parse_fstring (tl s))
         else (let fld = takeWhile (\<lambda>x. x \<noteq> CHR ''}'') s; rest = dropWhile (\<lambda>x. x \<noteq> CHR ''}'') s in
               if rest = [] \<or> CHR ''{'' \<in> set fld then Inl ValueError
               else seg_cons (TVar (field_name fld)) (parse_fstring (tl rest))))
      else if c = CHR ''}'' then
        (if s \<noteq> [] \<and> hd s = CHR ''}'' then seg_cons (TChar c) (parse_fstring (tl s)) else Inl ValueError)
      else seg_cons (TChar c) (parse_fstring s))"
  by pat_completeness auto
termination
  by (relation "measure length") (auto simp: less_Suc_eq_le intro: le_trans [OF diff_le_self length_dropWhile_le])

fun seg_vars :: "tseg list \<Rightarrow> pystr list" where
  "seg_vars [] = []"
| "seg_vars (TChar c # segs) = seg_vars segs"
| "seg_vars (TVar v # segs) = v # seg_vars segs"

text \<open>\<^verbatim>\<open>get_template_variables\<close>: the variables of a template, each once.\<close>

definition template_variables :: "pystr \<Rightarrow> pystr list res" where
  "template_variables t = (case parse_fstring t of Inl e \<Rightarrow> Inl e | Inr segs \<Rightarrow> Inr (remdups (seg_vars segs)))"

text \<open>\<^verbatim>\<open>template.format(**values)\<close>.\<close>

fun render_fstring :: "tseg list \<Rightarrow> (pystr \<Rightarrow> pystr option) \<Rightarrow> pystr res" where
  "render_fstring [] values = Inr []"
| "render_fstring (TChar c # segs) values =
     (case render_fstring segs values of Inl e \<Rightarrow> Inl e | Inr t \<Rightarrow> Inr (c # t))"
| "render_fstring (TVar v # segs) values =
     (case values v of
        None \<Rightarrow> Inl KeyError
      | Some x \<Rightarrow> (case render_fstring segs values of Inl e \<Rightarrow> Inl e | Inr t \<Rightarrow> Inr (x @ t)))"

definition format_template :: "pystr \<Rightarrow> (pystr \<Rightarrow> pystr option) \<Rightarrow> pystr res" where
  "format_template t values = (case parse_fstring t of Inl e \<Rightarrow> Inl e | Inr segs \<Rightarrow> render_fstring segs values)"

subsection \<open>The templates of \<^verbatim>\<open>utils/strings.py\<close>\<close>

text \<open>A triple-quoted string whose first and last lines are empty.\<close>

definition prompt_lines :: "pystr list \<Rightarrow> pystr" where
  "prompt_lines ls = nl # concat (map (\<lambda>l. l @ [nl]) ls)"

text \<open>\<^verbatim>\<open>system_text44\<close>, lines 1--53.\<close>

definition system_text44 :: pystr where
  \<open>system_text44 =
    prompt_lines
    [''You are an AI repair assistant specializing in diagnosing and providing repair solutions for various kinds of appliances.  '',
     '''',
     ''You have access to the following tools:  '',
     '''',
     ''{tools}  '',
     '''',
     ''Your output must strictly follow ONE of the following formats (and nothing else):  '',
     '''',
     ''---------------------------  '',
     ''FORMAT A: TOOL CALL  '',
     ''---------------------------  '',
     ''When you need to call a tool, output ONLY this format:  '',
     ''Question: {input}  '',
     ''Thought: [brief reasoning]  '',
     ''Action: {tool_names}  # One of find_closest_match, get_chat_history  '',
     ''Action Input: [the relevant query, user_id]  '',
     '''',
     ''---------------------------  '',
     ''FORMAT B: FINAL ANSWER  '',
     ''---------------------------  '',
     ''When you have all necessary information, output ONLY this format:  '',
     ''Question: {input}  '',
     ''Thought: [brief reasoning, possibly including relevant context from chat history if retrieved]  '',
     ''Final Answer: [your final response]  '',
     '''',
     ''---------------------------  '',
     '''',
     ''### RULES:  '',
     ''1. Follow-Up Context Handling:  '',
     ''   - If the user's question is a follow-up or references prior messages, first call get_chat_history (FORMAT A).  '',
     ''   - Do NOT call get_chat_history for general greetings (e.g., "hello", "hi", "how are you?").  '',
     ''   - Wait for the response and integrate relevant context before proceeding.  '',
     '''',
     ''2. Primary Repair Guidance:'',
     ''   - If an appliance or issue is mentioned, first call find_closest_match (FORMAT A).  '',
     ''   - If a relevant match is found, return the metadata exactly as received (FORMAT B).  '',
     '''',
     ''3. Fallback Repair Guidance:  '',
     ''   - If no relevant match is found, generate repair steps using the LLM (FORMAT B).  '',
     ''   - The response should be structured, detailed, and practical for troubleshooting.  '',
     '''',
     ''4. Strict Adherence to Formats:  '',
     ''   - Never produce both a tool call (Action + Action Input) and a Final Answer in the same response.  '',
     ''   - Never call the same tool more than once in a single reasoning step.  '',
     ''   - No extra text, explanations, or commentary beyond the specified formats.  '',
     '''',
     ''Begin now.  '',
     '''',
     ''Question: {input}  '',
     ''User ID: {user_id}  '',
     ''Thought: {agent_scratchpad}  '']\<close>

text \<open>\<^verbatim>\<open>system_text55\<close>, lines 56--111.\<close>

definition system_text55 :: pystr where
  \<open>system_text55 =
    prompt_lines
    [''You are an AI repair assistant specializing in diagnosing and providing repair solutions for various kinds of appliances.  '',
     '''',
     ''You have access to the following tools:  '',
     '''',
     ''{tools}  '',
     '''',
     ''Your output must strictly follow ONE of the following formats (and nothing else):  '',
     '''',
     ''---------------------------  '',
     ''FORMAT A: TOOL CALL  '',
     ''---------------------------  '',
     ''When you need to call a tool, output ONLY this format:  '',
     ''Question: {input}  '',
     ''Thought: [brief reasoning]  '',
     ''Action: {tool_names}  # One of find_closest_match, get_chat_history  '',
     ''Action Input: [the relevant query, user_id]  '',
     '''',
     ''---------------------------  '',
     ''FORMAT B: FINAL ANSWER  '',
     ''---------------------------  '',
     ''When you have all necessary information, output ONLY this format:  '',
     ''Question: {input}  '',
     ''Thought: [brief reasoning, possibly including relevant context from chat history if retrieved]  '',
     ''Observation: [result of the previous tool call]  '',
     ''Final Answer: [your final response]  '',
     '''',
     ''---------------------------  '',
     '''',
     ''### RULES:  '',
     ''1. Follow-Up Context Handling:  '',
     ''   - If the user's question is a follow-up or references prior messages, first call get_chat_history (FORMAT A).  '',
     ''   - Do NOT call get_chat_history for general greetings (e.g., "hello", "hi", "how are you?").  '',
     ''   - Wait for the response and integrate relevant context before proceeding.  '',
     '''',
     ''2. Primary Repair Guidance:'',
     ''   - If an appliance or issue is mentioned, first call find_closest_match (FORMAT A).  '',
     ''   - Wait for the result and inspect whether the closest match found is appropriate.  '',
     ''   - Only if it is appropriate (look at the title of the result from find_closes_match), return the metadata exactly as received (FORMAT B).  '',
     ''   - If not appropriate, fall back to LLM-generated repair steps (FORMAT B).  '',
     '''',
     ''3. Fallback Repair Guidance:  '',
     ''   - If no relevant match is found, generate repair steps using the LLM (FORMAT B).  '',
     ''   - The response should be structured, detailed, and practical for troubleshooting.  '',
     '''',
     ''4. Strict Adherence to Formats:  '',
     ''   - Never produce both a tool call (Action + Action Input) and a Final Answer in the same response.  '',
     ''   - Never call the same tool more than once in a single reasoning step.  '',
     ''   - No extra text, explanations, or commentary beyond the specified formats.  '',
     '''',
     ''Begin now.  '',
     '''',
     ''Question: {input}  '',
     ''User ID: {user_id}  '',
     ''Thought: {agent_scratchpad}  '']\<close>

text \<open>\<^verbatim>\<open>system_text66\<close>, lines 114--174.\<close>

definition system_text66 :: pystr where
  \<open>system_text66 =
    prompt_lines
    [''You are an AI repair assistant specializing in diagnosing and providing repair solutions for various kinds of appliances.  '',
     '''',
     ''You have access to the following tools:  '',
     '''',
     ''{tools}  '',
     '''',
     ''Your output must strictly follow ONE of the following formats (and nothing else):  '',
     '''',
     ''---------------------------  '',
     ''FORMAT A: TOOL CALL  '',
     ''---------------------------  '',
     ''When you need to call a tool, output ONLY this format:  '',
     ''Question: {input}  '',
     ''Thought: [brief reasoning]  '',
     ''Action: {tool_names}  # One of find_closest_match, get_chat_history  '',
     ''Action Input: [the relevant query, user_id]  '',
     '''',
     ''---------------------------  '',
     ''FORMAT B: FINAL ANSWER  '',
     ''---------------------------  '',
     ''When you have all necessary information, output ONLY this format:  '',
     ''Question: {input}  '',
     ''Thought: [brief reasoning, possibly including relevant context from chat history if retrieved]  '',
     ''Observation: [result of the previous tool call]  '',
     ''Final Answer: [your final response]  '',
     '''',
     ''---------------------------  '',
     '''',
     ''### RULES:  '',
     '''',
     ''1. Multimodal Input Handling:'',
     ''   - IF the input contains multiple modalities such as image, audio, or video (or references to them), analyze and incorporate information from ALL provided sources in your reasoning and response.'',
     ''   - Never ignore any modality unless explicitly instructed to do so by the user.'',
     '''',
     ''2. Follow-Up Context Handling:  '',
     ''   - If the user's question is a follow-up or references prior messages, first call get_chat_history (FORMAT A).  '',
     ''   - Do NOT call get_chat_history for general greetings (e.g., "hello", "hi", "how are you?").  '',
     ''   - Wait for the response and integrate relevant context before proceeding.  '',
     '''',
     ''3. Primary Repair Guidance:'',
     ''   - If an appliance or issue is mentioned, first call find_closest_match (FORMAT A).  '',
     ''   - Wait for the result and inspect whether the closest match found is appropriate.  '',
     ''   - Only if it is appropriate (look at the title of the result from find_closes_match), return the metadata exactly as received (FORMAT B).  '',
     ''   - If not appropriate, fall back to LLM-generated repair steps (FORMAT B).  '',
     '''',
     ''4. Fallback Repair Guidance:  '',
     ''   - If no relevant match is found, generate repair steps using the LLM (FORMAT B).  '',
     ''   - The response should be structured, detailed, and practical for troubleshooting.  '',
     '''',
     ''5. Strict Adherence to Formats:  '',
     ''   - Never produce both a tool call (Action + Action Input) and a Final Answer in the same response.  '',
     ''   - Never call the same tool more than once in a single reasoning step.  '',
     ''   - No extra text, explanations, or commentary beyond the specified formats.  '',
     '''',
     ''Begin now.  '',
     '''',
     ''Question: {input}  '',
     ''User ID: {user_id}  '',
     ''Thought: {agent_scratchpad}  '']\<close>

subsection \<open>The chat prompt of \<^verbatim>\<open>api/agent.py\<close>\<close>

text \<open>Line 47, the human message.\<close>

definition human_template :: pystr where
  "human_template =
     ''User ID: {user_id}, Query: {input}, Image Description: {image}, Audio Description: {audio}, Video Description: {video}''"

text \<open>\<^verbatim>\<open>", ".join\<close> of the tool names of line 42, which the agent fills in for
  \<^verbatim>\<open>tool_names\<close>.\<close>

definition tool_names_text :: pystr where
  "tool_names_text = ''find_closest_match, get_chat_history''"

text \<open>Line 52: \<^verbatim>\<open>create_react_agent\<close> raises \<^verbatim>\<open>ValueError\<close> unless the prompt's
  variables include \<^verbatim>\<open>tools\<close>, \<^verbatim>\<open>tool_names\<close> and \<^verbatim>\<open>agent_scratchpad\<close>.\<close>

definition react_agent_check :: "pystr \<Rightarrow> pystr \<Rightarrow> unit res" where
  "react_agent_check system human =
     (case (template_variables system, template_variables human) of
        (Inl e, _) \<Rightarrow> Inl e
      | (_, Inl e) \<Rightarrow> Inl e
      | (Inr vs, Inr vh) \<Rightarrow>
          (if set [''tools'', ''tool_names'', ''agent_scratchpad''] \<subseteq> set vs \<union> set vh then Inr ()
           else Inl ValueError))"

text \<open>The values the executor formats the prompt with: the agent input of lines
  110--116, the rendered tool descriptions, the tool names and the scratchpad text.\<close>

definition prompt_values :: "agent_input \<Rightarrow> pystr \<Rightarrow> pystr \<Rightarrow> pystr \<Rightarrow> pystr option" where
  "prompt_values inp tools_text scratchpad_text =
     map_of [(''user_id'', ai_user_id inp), (''input'', ai_input inp), (''image'', ai_image inp),
             (''audio'', ai_audio inp), (''video'', ai_video inp), (''tools'', tools_text),
             (''tool_names'', tool_names_text), (''agent_scratchpad'', scratchpad_text)]"

text \<open>Lines 44--49: the system and the human message of one planning call.\<close>

definition render_agent_prompt :: "pystr \<Rightarrow> agent_input \<Rightarrow> pystr \<Rightarrow> pystr \<Rightarrow> (pystr \<times> pystr) res" where
  "render_agent_prompt system inp tools_text scratchpad_text =
     (case format_template system (prompt_values inp tools_text scratchpad_text) of
        Inl e \<Rightarrow> Inl e
      | Inr s \<Rightarrow>
          (case format_template human_template (prompt_values inp tools_text scratchpad_text) of
             Inl e \<Rightarrow> Inl e
           | Inr h \<Rightarrow> Inr (s, h)))"


subsection \<open>Parsing and rendering\<close>

lemma seg_cons_Inr [simp]: "seg_cons x (Inr s) = Inr (x # s)" "seg_cons x (Inl e) = Inl e"
  by (simp_all add: seg_cons_def)

lemma parse_fstring_append:
  "parse_fstring a = Inr sa \<Longrightarrow> parse_fstring (a @ b) = seg_app sa (parse_fstring b)"
proof (induction a arbitrary: sa rule: parse_fstring.induct)
  case 1
  then show ?case by (simp add: seg_app_def split: sum.splits)
next
  case (2 c s)
  show ?case
  proof (cases "c = CHR ''{''")
    case True
    show ?thesis
    proof (cases "s \<noteq> [] \<and> hd s = CHR ''{''")
      case True
      with \<open>c = CHR ''{''\<close> "2.prems" obtain r where r: "parse_fstring (tl s) = Inr r" "sa = TChar c # r"
        by (auto simp: seg_cons_def split: sum.splits)
      from True have "tl (s @ b) = tl s @ b" by simp
      with "2.IH"(1) [OF \<open>c = CHR ''{''\<close> True r(1)] True \<open>c = CHR ''{''\<close> r show ?thesis
        by (auto simp: seg_app_def split: sum.splits)
    next
      case False
      let ?P = "\<lambda>x. x \<noteq> CHR ''}''"
      from False \<open>c = CHR ''{''\<close> "2.prems" have stop: "\<exists>x\<in>set s. \<not> ?P x" and nb: "CHR ''{'' \<notin> set (takeWhile ?P s)"
        by (auto simp: Let_def split: if_splits dest: dropWhile_eq_Nil_conv [THEN iffD2])
      then obtain r where r: "parse_fstring (tl (dropWhile ?P s)) = Inr r"
          "sa = TVar (field_name (takeWhile ?P s)) # r"
        using False \<open>c = CHR ''{''\<close> "2.prems" by (auto simp: Let_def seg_cons_def split: if_splits sum.splits)
      have ne: "dropWhile ?P s \<noteq> []" using stop by (simp add: dropWhile_eq_Nil_conv)
      have hs: "s @ b \<noteq> [] \<and> hd (s @ b) = CHR ''{'' \<longleftrightarrow> s \<noteq> [] \<and> hd s = CHR ''{''"
        using stop by (cases s) auto
      have "tl (dropWhile ?P (s @ b)) = tl (dropWhile ?P s) @ b"
        using ne by (simp add: dropWhile_append_stop [OF stop])
      with "2.IH"(2) [OF \<open>c = CHR ''{''\<close> False refl refl _ r(1)] nb ne r stop False hs \<open>c = CHR ''{''\<close>
      show ?thesis
        by (auto simp: Let_def seg_app_def takeWhile_append_stop dropWhile_append_stop split: sum.splits)
    qed
  next
    case False
    show ?thesis
    proof (cases "c = CHR ''}''")
      case True
      with "2.prems" have s: "s \<noteq> [] \<and> hd s = CHR ''}''" by (auto split: if_splits)
      with True "2.prems" obtain r where r: "parse_fstring (tl s) = Inr r" "sa = TChar c # r"
        by (auto simp: seg_cons_def split: sum.splits)
      from s have "tl (s @ b) = tl s @ b" by simp
      with "2.IH"(3) [OF False True s r(1)] s True r show ?thesis
        by (auto simp: seg_app_def split: sum.splits)
    next
      case False2: False
      with False "2.prems" obtain r where r: "parse_fstring s = Inr r" "sa = TChar c # r"
        by (auto simp: seg_cons_def split: sum.splits)
      with "2.IH"(4) [OF False False2 r(1)] False False2 show ?thesis
        by (auto simp: seg_app_def split: sum.splits)
    qed
  qed
qed


lemma seg_vars_append [simp]: "seg_vars (xs @ ys) = seg_vars xs @ seg_vars ys"
  by (induction xs rule: seg_vars.induct) auto

lemma seg_vars_chars [simp]: "seg_vars (map TChar l) = []"
  by (induction l) auto

lemma parse_fstring_nl: "parse_fstring (nl # s) = seg_cons (TChar nl) (parse_fstring s)"
  by (simp add: nl_def)

lemma parse_lines:
  "\<forall>l\<in>set ls. \<not> isl (parse_fstring l) \<Longrightarrow>
   \<exists>segs. parse_fstring (concat (map (\<lambda>l. l @ [nl]) ls)) = Inr segs \<and>
     seg_vars segs = concat (map (\<lambda>l. seg_vars (projr (parse_fstring l))) ls)"
proof (induction ls)
  case Nil
  then show ?case by simp
next
  case (Cons l ls)
  then obtain sl where sl: "parse_fstring l = Inr sl" by (cases "parse_fstring l") auto
  from Cons obtain segs where segs: "parse_fstring (concat (map (\<lambda>l. l @ [nl]) ls)) = Inr segs"
    "seg_vars segs = concat (map (\<lambda>l. seg_vars (projr (parse_fstring l))) ls)" by auto
  have n: "parse_fstring (nl # concat (map (\<lambda>l. l @ [nl]) ls)) = Inr (TChar nl # segs)"
    by (simp only: parse_fstring_nl segs(1) seg_cons_Inr)
  have "parse_fstring (l @ nl # concat (map (\<lambda>l. l @ [nl]) ls)) = Inr (sl @ TChar nl # segs)"
    unfolding parse_fstring_append [OF sl] n by (simp add: seg_app_def)
  with sl segs(2) show ?case by simp
qed

lemma parse_prompt_lines:
  "\<forall>l\<in>set ls. \<not> isl (parse_fstring l) \<Longrightarrow>
   concat (map (\<lambda>l. seg_vars (projr (parse_fstring l))) ls) = vs \<Longrightarrow>
   \<exists>segs. parse_fstring (prompt_lines ls) = Inr segs \<and> seg_vars segs = vs"
proof -
  assume ok: "\<forall>l\<in>set ls. \<not> isl (parse_fstring l)"
    and vs: "concat (map (\<lambda>l. seg_vars (projr (parse_fstring l))) ls) = vs"
  from parse_lines [OF ok] obtain segs where segs: "parse_fstring (concat (map (\<lambda>l. l @ [nl]) ls)) = Inr segs"
    "seg_vars segs = concat (map (\<lambda>l. seg_vars (projr (parse_fstring l))) ls)" by blast
  have "parse_fstring (prompt_lines ls) = Inr (TChar nl # segs)"
    unfolding prompt_lines_def by (simp only: parse_fstring_nl segs(1) seg_cons_Inr)
  with segs(2) vs show ?thesis by simp
qed

lemma system_text44_segs:
  "\<exists>segs. parse_fstring system_text44 = Inr segs \<and>
     seg_vars segs = [''tools'', ''input'', ''tool_names'', ''input'', ''input'', ''user_id'', ''agent_scratchpad'']"
  unfolding system_text44_def by (rule parse_prompt_lines) (simp_all add: field_name_def)


lemma system_text55_segs:
  "\<exists>segs. parse_fstring system_text55 = Inr segs \<and>
     seg_vars segs = [''tools'', ''input'', ''tool_names'', ''input'', ''input'', ''user_id'', ''agent_scratchpad'']"
  unfolding system_text55_def by (rule parse_prompt_lines) (simp_all add: field_name_def)

lemma system_text66_segs:
  "\<exists>segs. parse_fstring system_text66 = Inr segs \<and>
     seg_vars segs = [''tools'', ''input'', ''tool_names'', ''input'', ''input'', ''user_id'', ''agent_scratchpad'']"
  unfolding system_text66_def by (rule parse_prompt_lines) (simp_all add: field_name_def)

lemma render_fstring_defined:
  "\<forall>v\<in>set (seg_vars segs). vals v \<noteq> None \<Longrightarrow> \<exists>t. render_fstring segs vals = Inr t"
  by (induction segs vals rule: render_fstring.induct) auto

lemma human_template_segs:
  "parse_fstring human_template =
     Inr (map TChar ''User ID: '' @ TVar ''user_id'' # map TChar '', Query: '' @ TVar ''input'' #
          map TChar '', Image Description: '' @ TVar ''image'' # map TChar '', Audio Description: '' @
          TVar ''audio'' # map TChar '', Video Description: '' @ [TVar ''video''])"
  by (simp add: human_template_def field_name_def)

lemma render_chars [simp]:
  "render_fstring (map TChar l @ segs) vals =
     (case render_fstring segs vals of Inl e \<Rightarrow> Inl e | Inr t \<Rightarrow> Inr (l @ t))"
  by (induction l) (auto split: sum.splits)

lemma react_check_of:
  "\<exists>segs. parse_fstring system = Inr segs \<and>
     seg_vars segs = [''tools'', ''input'', ''tool_names'', ''input'', ''input'', ''user_id'', ''agent_scratchpad''] \<Longrightarrow>
   react_agent_check system human_template = Inr ()"
  by (auto simp: react_agent_check_def template_variables_def human_template_segs)

lemma title_rule_only_in_unused_templates:
  "py_contains ''look at the title'' system_text55 \<and> py_contains ''look at the title'' system_text66 \<and>
   \<not> py_contains ''look at the title'' system_text44"
  unfolding system_text44_def system_text55_def system_text66_def prompt_lines_def nl_def
  by (simp add: starts_with_def)

text \<open>C34. The agent's prompt is well formed: every template of
  \<^verbatim>\<open>utils/strings.py\<close>, combined with the human message of \<^verbatim>\<open>agent.py\<close>, parses as
  a Python format string and has the variables \<^verbatim>\<open>create_react_agent\<close> requires, so
  building the agent raises no \<^verbatim>\<open>ValueError\<close>; and formatting the prompt in use with
  the agent input raises no \<^verbatim>\<open>KeyError\<close> and puts the five input fields into the human
  message in order.\<close>

theorem agent_prompt_well_typed:
  "react_agent_check system_text44 human_template = Inr () \<and>
   react_agent_check system_text55 human_template = Inr () \<and>
   react_agent_check system_text66 human_template = Inr () \<and>
   (\<exists>s. render_agent_prompt system_text44 inp tools_text scratchpad_text =
      Inr (s, ''User ID: '' @ ai_user_id inp @ '', Query: '' @ ai_input inp @ '', Image Description: '' @
              ai_image inp @ '', Audio Description: '' @ ai_audio inp @ '', Video Description: '' @ ai_video inp))"
proof -
  obtain segs where segs: "parse_fstring system_text44 = Inr segs"
    "seg_vars segs = [''tools'', ''input'', ''tool_names'', ''input'', ''input'', ''user_id'', ''agent_scratchpad'']"
    using system_text44_segs by blast
  have "\<forall>v\<in>set (seg_vars segs). prompt_values inp tools_text scratchpad_text v \<noteq> None"
    using segs(2) by (simp add: prompt_values_def)
  then obtain s where "render_fstring segs (prompt_values inp tools_text scratchpad_text) = Inr s"
    using render_fstring_defined by blast
  with segs(1) have "\<exists>s. render_agent_prompt system_text44 inp tools_text scratchpad_text =
      Inr (s, ''User ID: '' @ ai_user_id inp @ '', Query: '' @ ai_input inp @ '', Image Description: '' @
              ai_image inp @ '', Audio Description: '' @ ai_audio inp @ '', Video Description: '' @ ai_video inp)"
    by (simp add: render_agent_prompt_def format_template_def human_template_segs prompt_values_def)
  then show ?thesis
    using react_check_of [OF system_text44_segs] react_check_of [OF system_text55_segs]
      react_check_of [OF system_text66_segs] by blast
qed

end
