(* ===== verification/Literal.thy ===== *)
theory Literal
  imports Prelude
begin

text \<open>
  Python's \<^verbatim>\<open>repr\<close> and \<^verbatim>\<open>ast.literal_eval\<close> on the values of the model.
  They carry the protocol between the tools and \<^verbatim>\<open>MainAgent.post\<close>: the agent
  sees a tool's dictionary as its \<^verbatim>\<open>str\<close> (the \<^verbatim>\<open>repr\<close> of a dictionary),
  is told by the prompt to return it unchanged, and \<^verbatim>\<open>agent.py\<close> (line 127)
  reads the answer back with \<^verbatim>\<open>ast.literal_eval\<close>.

  \<^verbatim>\<open>repr\<close> follows CPython's \<^verbatim>\<open>unicode_repr\<close>: single quotes unless the
  string has a single and no double quote, the quote and the backslash escaped,
  \<^verbatim>\<open>\t \n \r\<close> as such, other non-printable characters as \<^verbatim>\<open>\xhh\<close> (on the
  eight-bit characters of HOL: the controls, \<^verbatim>\<open>\x7f\<close>--\<^verbatim>\<open>\xa0\<close> and the soft
  hyphen \<^verbatim>\<open>\xad\<close>).  The text of a float is a parameter: floats are reals
  in the model, and the shortest round-trip digits of a double are not.

  \<^verbatim>\<open>ast.literal_eval\<close> is modelled in its two stages: \<^verbatim>\<open>ast.parse\<close> of the
  text (after stripping leading blanks and tabs) into a syntax tree \<open>lit\<close>, with
  the tokenizer's limit of 200 nested brackets, and \<^verbatim>\<open>_convert\<close> of the tree,
  which raises \<^verbatim>\<open>ValueError\<close> on a name or a sign before a non-number and
  \<^verbatim>\<open>TypeError\<close> on an unhashable dictionary key.  The grammar is that of the
  displays of \<^verbatim>\<open>None\<close>, booleans, decimal numbers, one-line strings, lists and
  dictionaries, with blanks between tokens and line breaks inside brackets.
\<close>

subsection \<open>Characters\<close>

definition bslash :: char where
  "bslash = CHR 0x5C"

definition squote :: char where
  "squote = CHR 0x27"

definition dquote :: char where
  "dquote = CHR 0x22"

definition hex_digit :: "nat \<Rightarrow> char" where
  "hex_digit n = (if n < 10 then char_of (48 + n) else char_of (87 + n))"

definition is_digit :: "char \<Rightarrow> bool" where
  "is_digit c = (let n = (of_char c :: nat) in 48 \<le> n \<and> n \<le> 57)"

definition is_octal :: "char \<Rightarrow> bool" where
  "is_octal c = (let n = (of_char c :: nat) in 48 \<le> n \<and> n \<le> 55)"

definition hex_val :: "char \<Rightarrow> nat option" where
  "hex_val c =
     (let n = (of_char c :: nat) in
      if 48 \<le> n \<and> n \<le> 57 then Some (n - 48)
      else if 97 \<le> n \<and> n \<le> 102 then Some (n - 87)
      else if 65 \<le> n \<and> n \<le> 70 then Some (n - 55) else None)"

definition is_ident_start :: "char \<Rightarrow> bool" where
  "is_ident_start c =
     (let n = (of_char c :: nat) in (65 \<le> n \<and> n \<le> 90) \<or> (97 \<le> n \<and> n \<le> 122) \<or> n = 95)"

definition is_ident_char :: "char \<Rightarrow> bool" where
  "is_ident_char c = (is_ident_start c \<or> is_digit c)"

definition digits_val :: "pystr \<Rightarrow> nat" where
  "digits_val ds = foldl (\<lambda>n c. 10 * n + (of_char c - 48)) 0 ds"

subsection \<open>\<^verbatim>\<open>repr\<close>\<close>

definition char_escape :: "char \<Rightarrow> char \<Rightarrow> pystr" where
  "char_escape q c =
     (let n = (of_char c :: nat) in
      if c = q \<or> c = bslash then [bslash, c]
      else if n = 9 then [bslash, CHR ''t'']
      else if n = 10 then [bslash, CHR ''n'']
      else if n = 13 then [bslash, CHR ''r'']
      else if n < 32 \<or> n = 127 \<or> (128 \<le> n \<and> n \<le> 160) \<or> n = 173 then
        [bslash, CHR ''x'', hex_digit (n div 16), hex_digit (n mod 16)]
      else [c])"

definition str_repr :: "pystr \<Rightarrow> pystr" where
  "str_repr s =
     (let q = (if squote \<in> set s \<and> dquote \<notin> set s then dquote else squote)
      in q # concat (map (char_escape q) s) @ [q])"

definition int_repr :: "int \<Rightarrow> pystr" where
  "int_repr i = (if i < 0 then CHR ''-'' # nat_str (nat (- i)) else nat_str (nat i))"

fun py_repr :: "(real \<Rightarrow> pystr) \<Rightarrow> pyval \<Rightarrow> pystr" where
  "py_repr fr PNone = ''None''"
| "py_repr fr (PBool b) = (if b then ''True'' else ''False'')"
| "py_repr fr (PInt i) = int_repr i"
| "py_repr fr (PFloat r) = fr r"
| "py_repr fr (PStr s) = str_repr s"
| "py_repr fr (PList xs) = CHR ''['' # join_sep '', '' (map (py_repr fr) xs) @ '']''"
| "py_repr fr (PDict d) =
     CHR ''{'' # join_sep '', '' (map (\<lambda>(k, v). str_repr k @ '': '' @ py_repr fr v) d) @ ''}''"

subsection \<open>\<^verbatim>\<open>ast.parse\<close>\<close>

datatype lit =
    LName pystr
  | LInt nat
  | LFloat real
  | LStr pystr
  | LUnary char lit
  | LList "lit list"
  | LDict "(lit \<times> lit) list"

text \<open>Blanks between tokens; inside brackets line breaks too.\<close>

definition py_ws :: "bool \<Rightarrow> char \<Rightarrow> bool" where
  "py_ws nested c = (c = CHR '' '' \<or> c = CHR 0x09 \<or> (nested \<and> (c = CHR 0x0A \<or> c = CHR 0x0D)))"

definition skip_ws :: "bool \<Rightarrow> pystr \<Rightarrow> pystr" where
  "skip_ws nested s = dropWhile (py_ws nested) s"

definition simple_escape :: "char \<Rightarrow> char option" where
  "simple_escape e =
     map_of [(bslash, bslash), (squote, squote), (dquote, dquote), (CHR ''a'', CHR 0x07),
             (CHR ''b'', CHR 0x08), (CHR ''f'', CHR 0x0C), (CHR ''n'', CHR 0x0A),
             (CHR ''r'', CHR 0x0D), (CHR ''t'', CHR 0x09), (CHR ''v'', CHR 0x0B)] e"

text \<open>The body of a one-line string literal after its opening quote \<open>q\<close>: escapes,
  a backslash before a line break joins the lines, an unknown escape keeps its
  backslash.  Octal escapes above \<^verbatim>\<open>\377\<close> and the escapes \<^verbatim>\<open>\N \u \U\<close>
  denote characters beyond the eight-bit characters of HOL and are not modelled
  (\<open>ValueError\<close>).\<close>

fun parse_str_body :: "char \<Rightarrow> pystr \<Rightarrow> pystr \<Rightarrow> (pystr \<times> pystr) res" where
  "parse_str_body q acc [] = Inl SyntaxError"
| "parse_str_body q acc (c # s) =
     (if c = q then Inr (acc, s)
      else if c = CHR 0x0A then Inl SyntaxError
      else if c \<noteq> bslash then parse_str_body q (acc @ [c]) s
      else (case s of
              [] \<Rightarrow> Inl SyntaxError
            | e # s' \<Rightarrow>
                (if e = CHR 0x0A then parse_str_body q acc s'
                 else (case simple_escape e of
                         Some x \<Rightarrow> parse_str_body q (acc @ [x]) s'
                       | None \<Rightarrow>
                           (if e = CHR ''x'' then
                              (case s' of
                                 h1 # h2 # s'' \<Rightarrow>
                                   (case (hex_val h1, hex_val h2) of
                                      (Some a, Some b) \<Rightarrow> parse_str_body q (acc @ [char_of (16 * a + b)]) s''
                                    | _ \<Rightarrow> Inl SyntaxError)
                               | _ \<Rightarrow> Inl SyntaxError)
                            else if is_octal e then
                              (let ds = e # takeWhile is_octal (take 2 s');
                                   n = foldl (\<lambda>n c. 8 * n + (of_char c - 48)) (0 :: nat) ds
                               in if n < 256 then parse_str_body q (acc @ [char_of n]) (drop (length ds - 1) s')
                                  else Inl ValueError)
                            else if e = CHR ''N'' \<or> e = CHR ''u'' \<or> e = CHR ''U'' then Inl ValueError
                            else parse_str_body q (acc @ [bslash, e]) s')))))"

text \<open>A decimal integer or float literal; leading zeros are refused in a nonzero
  integer, and a literal may not run into a name.\<close>

definition decimal_value :: "pystr \<Rightarrow> nat \<Rightarrow> int \<Rightarrow> real" where
  "decimal_value ds k e =
     (if int k \<le> e then of_nat (digits_val ds) * 10 ^ nat (e - int k)
      else of_nat (digits_val ds) / 10 ^ nat (int k - e))"

definition lex_digits :: "pystr \<Rightarrow> pystr \<times> pystr" where
  "lex_digits s = (takeWhile is_digit s, dropWhile is_digit s)"

definition lex_fraction :: "pystr \<Rightarrow> bool \<times> pystr \<times> pystr" where
  "lex_fraction s =
     (if s \<noteq> [] \<and> hd s = CHR ''.'' then (True, lex_digits (tl s)) else (False, [], s))"

definition lex_exponent :: "pystr \<Rightarrow> bool \<times> bool \<times> pystr \<times> pystr" where
  "lex_exponent s =
     (if s \<noteq> [] \<and> (hd s = CHR ''e'' \<or> hd s = CHR ''E'') then
        (let t = tl s;
             neg = (t \<noteq> [] \<and> hd t = CHR ''-'');
             t' = (if t \<noteq> [] \<and> (hd t = CHR ''-'' \<or> hd t = CHR ''+'') then tl t else t)
         in (True, neg, lex_digits t'))
      else (False, False, [], s))"

definition parse_number :: "pystr \<Rightarrow> (lit \<times> pystr) res" where
  "parse_number s =
     (case lex_digits s of
        (ip, r1) \<Rightarrow>
          (case lex_fraction r1 of
             (has_frac, fp, r2) \<Rightarrow>
               (case lex_exponent r2 of
                  (has_exp, neg, ed, r) \<Rightarrow>
                    (if (ip = [] \<and> fp = []) \<or> (has_exp \<and> ed = []) \<or> (r \<noteq> [] \<and> is_ident_char (hd r)) then
                       Inl SyntaxError
                     else if has_frac \<or> has_exp then
                       Inr (LFloat (decimal_value (ip @ fp) (length fp)
                                      (if neg then - int (digits_val ed) else int (digits_val ed))), r)
                     else if hd ip = CHR ''0'' \<and> list_ex (\<lambda>c. c \<noteq> CHR ''0'') ip then Inl SyntaxError
                     else Inr (LInt (digits_val ip), r)))))"

text \<open>One literal at bracket depth \<open>d\<close>, the elements of a list and the entries of a
  dictionary display after the opening bracket.  The length tests in the loops
  always hold (a literal consumes input) and only serve termination.\<close>

function parse_lit :: "nat \<Rightarrow> pystr \<Rightarrow> (lit \<times> pystr) res"
  and parse_elems :: "nat \<Rightarrow> lit list \<Rightarrow> pystr \<Rightarrow> (lit list \<times> pystr) res"
  and parse_pairs :: "nat \<Rightarrow> (lit \<times> lit) list \<Rightarrow> pystr \<Rightarrow> ((lit \<times> lit) list \<times> pystr) res"
where
  "parse_lit d [] = Inl SyntaxError"
| "parse_lit d (c # s) =
     (if c = CHR ''['' then
        (if 200 \<le> d then Inl SyntaxError
         else (case parse_elems (Suc d) [] (skip_ws True s) of
                 Inl e \<Rightarrow> Inl e
               | Inr (xs, r) \<Rightarrow> Inr (LList xs, r)))
      else if c = CHR ''{'' then
        (if 200 \<le> d then Inl SyntaxError
         else (case parse_pairs (Suc d) [] (skip_ws True s) of
                 Inl e \<Rightarrow> Inl e
               | Inr (ps, r) \<Rightarrow> Inr (LDict ps, r)))
      else if c = CHR ''-'' \<or> c = CHR ''+'' then
        (case parse_lit d (skip_ws (0 < d) s) of
           Inl e \<Rightarrow> Inl e
         | Inr (x, r) \<Rightarrow> Inr (LUnary c x, r))
      else if c = squote \<or> c = dquote then
        (case parse_str_body c [] s of
           Inl e \<Rightarrow> Inl e
         | Inr (str, r) \<Rightarrow> Inr (LStr str, r))
      else if is_digit c \<or> c = CHR ''.'' then parse_number (c # s)
      else if is_ident_start c then
        Inr (LName (takeWhile is_ident_char (c # s)), dropWhile is_ident_char (c # s))
      else Inl SyntaxError)"
| "parse_elems d acc s =
     (if s \<noteq> [] \<and> hd s = CHR '']'' then Inr (acc, tl s)
      else (case parse_lit d s of
              Inl e \<Rightarrow> Inl e
            | Inr (x, r) \<Rightarrow>
                (let r' = skip_ws True r in
                 if r' \<noteq> [] \<and> hd r' = CHR '']'' then Inr (acc @ [x], tl r')
                 else if r' \<noteq> [] \<and> hd r' = CHR '','' \<and> length r' < length s then
                   parse_elems d (acc @ [x]) (skip_ws True (tl r'))
                 else Inl SyntaxError)))"
| "parse_pairs d acc s =
     (if s \<noteq> [] \<and> hd s = CHR ''}'' then Inr (acc, tl s)
      else (case parse_lit d s of
              Inl e \<Rightarrow> Inl e
            | Inr (k, r) \<Rightarrow>
                (let r' = skip_ws True r in
                 if r' \<noteq> [] \<and> hd r' = CHR '':'' \<and> length r' < length s then
                   (case parse_lit d (skip_ws True (tl r')) of
                      Inl e \<Rightarrow> Inl e
                    | Inr (v, r2) \<Rightarrow>
                        (let r2' = skip_ws True r2 in
                         if r2' \<noteq> [] \<and> hd r2' = CHR ''}'' then Inr (acc @ [(k, v)], tl r2')
                         else if r2' \<noteq> [] \<and> hd r2' = CHR '','' \<and> length r2' < length s then
                           parse_pairs d (acc @ [(k, v)]) (skip_ws True (tl r2'))
                         else Inl SyntaxError))
                 else Inl SyntaxError)))"
  by pat_completeness auto
termination
  by (relation "measure (\<lambda>x. case x of Inl (d, s) \<Rightarrow> 2 * length s + 1
                                   | Inr (Inl (d, acc, s)) \<Rightarrow> 2 * length s + 2
                                   | Inr (Inr (d, acc, s)) \<Rightarrow> 2 * length s + 2)")
     (auto simp: skip_ws_def length_dropWhile_eq)

subsection \<open>\<^verbatim>\<open>_convert\<close> and \<^verbatim>\<open>ast.literal_eval\<close>\<close>

text \<open>A dictionary display is built as \<^verbatim>\<open>dict(zip(keys, values))\<close>: for each entry
  the key, then the value, then the insertion, which raises \<^verbatim>\<open>TypeError\<close> for a
  list or dictionary key.  Keys of other types than strings are outside the
  model's dictionaries and not modelled (\<open>ValueError\<close>).\<close>

function lit_value :: "lit \<Rightarrow> pyval res"
  and lit_values :: "lit list \<Rightarrow> pyval list res"
  and lit_pairs :: "pydict \<Rightarrow> (lit \<times> lit) list \<Rightarrow> pydict res"
where
  "lit_value (LName n) =
     (if n = ''None'' then Inr PNone
      else if n = ''True'' then Inr (PBool True)
      else if n = ''False'' then Inr (PBool False) else Inl ValueError)"
| "lit_value (LInt n) = Inr (PInt (int n))"
| "lit_value (LFloat r) = Inr (PFloat r)"
| "lit_value (LStr s) = Inr (PStr s)"
| "lit_value (LUnary c x) =
     (case x of
        LInt n \<Rightarrow> Inr (PInt (if c = CHR ''-'' then - int n else int n))
      | LFloat r \<Rightarrow> Inr (PFloat (if c = CHR ''-'' then - r else r))
      | _ \<Rightarrow> Inl ValueError)"
| "lit_value (LList xs) = (case lit_values xs of Inl e \<Rightarrow> Inl e | Inr vs \<Rightarrow> Inr (PList vs))"
| "lit_value (LDict ps) = (case lit_pairs [] ps of Inl e \<Rightarrow> Inl e | Inr d \<Rightarrow> Inr (PDict d))"
| "lit_values [] = Inr []"
| "lit_values (x # xs) =
     (case lit_value x of
        Inl e \<Rightarrow> Inl e
      | Inr v \<Rightarrow> (case lit_values xs of Inl e \<Rightarrow> Inl e | Inr vs \<Rightarrow> Inr (v # vs)))"
| "lit_pairs d [] = Inr d"
| "lit_pairs d ((k, v) # ps) =
     (case lit_value k of
        Inl e \<Rightarrow> Inl e
      | Inr kv \<Rightarrow>
          (case lit_value v of
             Inl e \<Rightarrow> Inl e
           | Inr vv \<Rightarrow>
               (case kv of
                  PStr s \<Rightarrow> lit_pairs (dict_set d s vv) ps
                | PList _ \<Rightarrow> Inl TypeError
                | PDict _ \<Rightarrow> Inl TypeError
                | _ \<Rightarrow> Inl ValueError)))"
  by pat_completeness auto
termination
  by (relation "measure (\<lambda>x. case x of Inl l \<Rightarrow> size l
                                   | Inr (Inl xs) \<Rightarrow> size_list size xs
                                   | Inr (Inr (d, ps)) \<Rightarrow> size_list (size_prod size size) ps)") auto

definition py_literal_eval :: "pystr \<Rightarrow> pyval res" where
  "py_literal_eval s =
     (case parse_lit 0 (dropWhile (\<lambda>c. c = CHR '' '' \<or> c = CHR 0x09) s) of
        Inl e \<Rightarrow> Inl e
      | Inr (x, r) \<Rightarrow> (if list_all (py_ws True) r then lit_value x else Inl SyntaxError))"


subsection \<open>The text of a float\<close>

text \<open>What the round trip needs of the parameter giving a float's text: an optional
  minus sign and a decimal literal, as Python writes a finite float, denoting the
  number.\<close>

definition num_char :: "char \<Rightarrow> bool" where
  "num_char c = (is_digit c \<or> c = CHR ''.'' \<or> c = CHR ''e'' \<or> c = CHR ''E'' \<or> c = CHR ''+'' \<or> c = CHR ''-'')"

definition float_text :: "pystr \<Rightarrow> real option" where
  "float_text t =
     (let neg = (t \<noteq> [] \<and> hd t = CHR ''-''); u = (if neg then tl t else t) in
      if u \<noteq> [] \<and> is_digit (hd u) \<and> list_all num_char u then
        (case parse_number u of
           Inr (LFloat x, []) \<Rightarrow> Some (if neg then - x else x)
         | _ \<Rightarrow> None)
      else None)"


text \<open>The values the round trip holds for: floats written as above, dictionaries
  without repeated keys (a Python dictionary has none), and at most \<open>n\<close> nested
  brackets.\<close>

function repr_ok :: "(real \<Rightarrow> pystr) \<Rightarrow> nat \<Rightarrow> pyval \<Rightarrow> bool" where
  "repr_ok fr n (PFloat r) = (float_text (fr r) = Some r)"
| "repr_ok fr n (PList xs) = (0 < n \<and> list_all (repr_ok fr (n - 1)) xs)"
| "repr_ok fr n (PDict d) =
     (0 < n \<and> distinct (map fst d) \<and> list_all (\<lambda>(k, v). repr_ok fr (n - 1) v) d)"
| "repr_ok fr n PNone = True"
| "repr_ok fr n (PBool b) = True"
| "repr_ok fr n (PInt i) = True"
| "repr_ok fr n (PStr s) = True"
  by pat_completeness auto
termination
  by (relation "measure (\<lambda>(fr, n, v). size v)") (auto simp: less_Suc_eq_le intro!: size_list_estimation')

text \<open>Where a literal may end: at the end of the text, or before a comma or a
  closing bracket.\<close>

definition delim_ok :: "pystr \<Rightarrow> bool" where
  "delim_ok rest = (case rest of [] \<Rightarrow> True | c # _ \<Rightarrow> c = CHR '','' \<or> c = CHR '']'' \<or> c = CHR ''}'')"

end
