(* ===== verification/Literal_Roundtrip.thy ===== *)
theory Literal_Roundtrip
  imports Literal
begin

text \<open>
  The round trip of the literal protocol: \<^verbatim>\<open>ast.literal_eval\<close> reads back the
  \<^verbatim>\<open>repr\<close> of every value whose floats print as decimal literals, whose
  dictionaries have distinct keys and whose nesting stays within the tokenizer's
  200 brackets, and it refuses one bracket more.  The proof follows the parser: a
  lemma per token (numbers, names, strings, the first character of a \<^verbatim>\<open>repr\<close>),
  then lists and dictionaries by induction on their elements, then
  \<open>repr_parse\<close> by induction on the value, for a \<^verbatim>\<open>repr\<close> followed by any text
  that may end a literal.
\<close>

text \<open>The value with \<open>k\<close> lists nested in a list.\<close>

fun nest :: "nat \<Rightarrow> pyval" where
  "nest 0 = PList []"
| "nest (Suc k) = PList [nest k]"

declare nat_str.simps [simp del]


lemma takeWhile_append_Cons_stop: "\<not> P c \<Longrightarrow> takeWhile P (u @ c # w) = takeWhile P u"
  by (induction u) auto

lemma dropWhile_append_Cons_stop: "\<not> P c \<Longrightarrow> dropWhile P (u @ c # w) = dropWhile P u @ c # w"
  by (induction u) auto

lemma lex_digits_append:
  "\<not> is_digit c \<Longrightarrow> lex_digits (u @ c # w) = (fst (lex_digits u), snd (lex_digits u) @ c # w)"
  by (simp add: lex_digits_def takeWhile_append_Cons_stop dropWhile_append_Cons_stop)

lemma lex_fraction_append:
  assumes "\<not> num_char c"
  shows "lex_fraction (u @ c # w) =
           (case lex_fraction u of (has_frac, fp, r) \<Rightarrow> (has_frac, fp, r @ c # w))"
proof (cases u)
  case Nil
  with assms show ?thesis by (simp add: lex_fraction_def num_char_def)
next
  case (Cons x u')
  with assms show ?thesis by (simp add: lex_fraction_def lex_digits_append num_char_def split: prod.split)
qed

lemma lex_exponent_append:
  assumes "\<not> num_char c" "lex_exponent u = (has_exp, neg, ed, [])"
  shows "lex_exponent (u @ c # w) = (has_exp, neg, ed, c # w)"
proof (cases "u \<noteq> [] \<and> (hd u = CHR ''e'' \<or> hd u = CHR ''E'')")
  case False
  with assms show ?thesis by (cases u) (auto simp: lex_exponent_def num_char_def)
next
  case True
  then obtain t where u: "u = hd u # t" by (cases u) auto
  show ?thesis
  proof (cases "t \<noteq> [] \<and> (hd t = CHR ''-'' \<or> hd t = CHR ''+'')")
    case True
    then obtain t' where "t = hd t # t'" by (cases t) auto
    with u True \<open>u \<noteq> [] \<and> _\<close> assms show ?thesis
      by (auto simp: lex_exponent_def Let_def lex_digits_append num_char_def
          simp del: list.collapse intro: sym)
  next
    case False
    with u \<open>u \<noteq> [] \<and> _\<close> assms show ?thesis
      by (cases t) (auto simp: lex_exponent_def Let_def lex_digits_append num_char_def)
  qed
qed


lemma parse_number_append:
  assumes "parse_number u = Inr (l, [])" "list_all num_char u" "\<not> num_char c" "\<not> is_ident_char c"
  shows "parse_number (u @ c # w) = Inr (l, c # w)"
proof -
  have nd: "\<not> is_digit c" using assms(3) by (simp add: num_char_def)
  obtain ip r1 where d: "lex_digits u = (ip, r1)" by fastforce
  obtain hf fp r2 where f: "lex_fraction r1 = (hf, fp, r2)" by (cases "lex_fraction r1") auto
  obtain he ng ed r where e: "lex_exponent r2 = (he, ng, ed, r)" by (cases "lex_exponent r2") auto
  from assms(1) have r: "r = []"
    by (auto simp: parse_number_def d f e split: if_splits)
  have d': "lex_digits (u @ c # w) = (ip, r1 @ c # w)" using lex_digits_append [OF nd] d by simp
  have f': "lex_fraction (r1 @ c # w) = (hf, fp, r2 @ c # w)" using lex_fraction_append [OF assms(3)] f by simp
  have e': "lex_exponent (r2 @ c # w) = (he, ng, ed, c # w)" using lex_exponent_append [OF assms(3)] e r by simp
  show ?thesis
    using assms(1,4) by (auto simp: parse_number_def d f e d' f' e' r split: if_splits)
qed


lemma delim_ok_cases: "delim_ok rest \<Longrightarrow> rest = [] \<or> (\<exists>c w. rest = c # w \<and> \<not> num_char c \<and> \<not> is_ident_char c \<and> \<not> py_ws True c)"
  by (cases rest) (auto simp: delim_ok_def num_char_def is_ident_char_def is_ident_start_def is_digit_def py_ws_def)

lemma parse_number_delim:
  assumes "parse_number u = Inr (l, [])" "list_all num_char u" "delim_ok rest"
  shows "parse_number (u @ rest) = Inr (l, rest)"
  using delim_ok_cases [OF assms(3)] assms(1,2) parse_number_append by auto

lemma digits_val_snoc [simp]: "digits_val (xs @ [c]) = 10 * digits_val xs + (of_char c - 48)"
  by (simp add: digits_val_def)

lemma nat_str_facts: "nat_str n \<noteq> [] \<and> list_all is_digit (nat_str n) \<and> digits_val (nat_str n) = n"
proof (induction n rule: nat_str.induct)
  case (1 n)
  show ?case
  proof (cases "n < 10")
    case True
    then show ?thesis by (simp add: nat_str.simps [of n] is_digit_def digits_val_def)
  next
    case False
    have d: "of_char (char_of (48 + n mod 10) :: char) = (48 + n mod 10 :: nat)" by simp
    from False "1.IH" show ?thesis
      by (simp add: nat_str.simps [of n] is_digit_def d)
  qed
qed

lemma nat_str_hd: "0 < n \<Longrightarrow> hd (nat_str n) \<noteq> CHR ''0''"
proof (induction n rule: nat_str.induct)
  case (1 n)
  show ?case
  proof (cases "n < 10")
    case True
    show ?thesis
    proof
      assume "hd (nat_str n) = CHR ''0''"
      with True have "(of_char (char_of (48 + n) :: char) :: nat) = of_char (CHR ''0'')"
        by (simp add: nat_str.simps [of n])
      with True "1.prems" show False by simp
    qed
  next
    case False
    with "1.IH" have "hd (nat_str (n div 10)) \<noteq> CHR ''0''" by simp
    with False nat_str_facts [of "n div 10"] show ?thesis by (simp add: nat_str.simps [of n])
  qed
qed

lemma parse_number_nat_str: "parse_number (nat_str n) = Inr (LInt n, [])"
proof -
  have t: "takeWhile is_digit (nat_str n) = nat_str n" "dropWhile is_digit (nat_str n) = []"
    using nat_str_facts [of n] by (simp_all add: list_all_iff)
  show ?thesis
  proof (cases "n = 0")
    case True
    then show ?thesis
      by (simp add: nat_str.simps [of 0] parse_number_def lex_digits_def lex_fraction_def lex_exponent_def
          digits_val_def is_digit_def)
  next
    case False
    then show ?thesis
      using nat_str_facts [of n] nat_str_hd [of n]
      by (simp add: parse_number_def lex_digits_def lex_fraction_def lex_exponent_def t)
  qed
qed

lemma nat_str_num: "list_all num_char (nat_str n)"
  using nat_str_facts [of n] by (simp add: list_all_iff num_char_def)


lemma hex_val_digit: "n < 16 \<Longrightarrow> hex_val (hex_digit n) = Some n"
  by (auto simp: hex_val_def hex_digit_def Let_def)

lemma quote_facts:
  "squote \<noteq> bslash" "dquote \<noteq> bslash" "squote \<noteq> CHR 0x0A" "dquote \<noteq> CHR 0x0A" "bslash \<noteq> CHR 0x0A"
  "simple_escape bslash = Some bslash" "simple_escape squote = Some squote" "simple_escape dquote = Some dquote"
  "simple_escape CHR ''t'' = Some CHR 0x09" "simple_escape CHR ''n'' = Some CHR 0x0A"
  "simple_escape CHR ''r'' = Some CHR 0x0D" "simple_escape CHR ''x'' = None"
  by (simp_all add: bslash_def squote_def dquote_def simple_escape_def)

lemma char_code_eq: "(of_char c :: nat) = of_char d \<Longrightarrow> c = d"
  by (metis char_of_char)

lemma char_escape_parse:
  assumes q: "q = squote \<or> q = dquote"
  shows "parse_str_body q acc (char_escape q c @ w) = parse_str_body q (acc @ [c]) w"
proof -
  define n where "n = (of_char c :: nat)"
  have n256: "n < 256" by (simp add: n_def)
  have qb: "q \<noteq> bslash" "q \<noteq> CHR 0x0A" using q quote_facts by auto
  consider (esc) "c = q \<or> c = bslash"
    | (tab) "\<not> (c = q \<or> c = bslash)" "n = 9"
    | (lf) "\<not> (c = q \<or> c = bslash)" "n = 10"
    | (cr) "\<not> (c = q \<or> c = bslash)" "n = 13"
    | (hex) "\<not> (c = q \<or> c = bslash)" "n \<noteq> 9" "n \<noteq> 10" "n \<noteq> 13"
        "n < 32 \<or> n = 127 \<or> (128 \<le> n \<and> n \<le> 160) \<or> n = 173"
    | (plain) "\<not> (c = q \<or> c = bslash)" "n \<noteq> 9" "n \<noteq> 10" "n \<noteq> 13"
        "\<not> (n < 32 \<or> n = 127 \<or> (128 \<le> n \<and> n \<le> 160) \<or> n = 173)"
    by blast
  then show ?thesis
  proof cases
    case esc
    have "simple_escape c = Some c" using esc q quote_facts by auto
    with esc qb quote_facts show ?thesis by (auto simp: char_escape_def Let_def n_def [symmetric])
  next
    case tab
    then have "c = CHR 0x09" by (intro char_code_eq) (simp add: n_def [symmetric])
    with tab qb quote_facts show ?thesis by (simp add: char_escape_def Let_def n_def [symmetric])
  next
    case lf
    then have "c = CHR 0x0A" by (intro char_code_eq) (simp add: n_def [symmetric])
    with lf qb quote_facts show ?thesis by (simp add: char_escape_def Let_def n_def [symmetric])
  next
    case cr
    then have "c = CHR 0x0D" by (intro char_code_eq) (simp add: n_def [symmetric])
    with cr qb quote_facts show ?thesis by (simp add: char_escape_def Let_def n_def [symmetric])
  next
    case hex
    have h: "hex_val (hex_digit (n div 16)) = Some (n div 16)" "hex_val (hex_digit (n mod 16)) = Some (n mod 16)"
      using n256 by (simp_all add: hex_val_digit less_mult_imp_div_less)
    have "char_of (16 * (n div 16) + n mod 16) = c" by (simp add: n_def)
    with hex qb quote_facts h show ?thesis by (simp add: char_escape_def Let_def n_def [symmetric])
  next
    case plain
    have "c \<noteq> CHR 0x0A" using plain n_def by auto
    moreover have "char_escape q c = [c]"
      using plain by (auto simp: char_escape_def Let_def n_def [symmetric])
    ultimately show ?thesis using plain qb by simp
  qed
qed

lemma parse_str_body_repr:
  "q = squote \<or> q = dquote \<Longrightarrow>
   parse_str_body q acc (concat (map (char_escape q) s) @ q # rest) = Inr (acc @ s, rest)"
  by (induction s arbitrary: acc) (simp_all add: char_escape_parse [simplified])


lemma nat_str_hd_digit: "nat_str m \<noteq> [] \<and> is_digit (hd (nat_str m))"
proof -
  have "nat_str m \<noteq> []" "list_all is_digit (nat_str m)" using nat_str_facts [of m] by simp_all
  then show ?thesis by (cases "nat_str m") simp_all
qed

lemma parse_lit_digit:
  assumes "is_digit c"
  shows "parse_lit d (c # s) = parse_number (c # s)"
proof -
  have "c \<noteq> CHR ''[''" "c \<noteq> CHR ''{''" "c \<noteq> CHR ''-''" "c \<noteq> CHR ''+''" "c \<noteq> squote" "c \<noteq> dquote"
    using assms by (auto simp: is_digit_def squote_def dquote_def)
  with assms show ?thesis by simp
qed

lemma parse_lit_name:
  assumes "is_ident_start c"
  shows "parse_lit d (c # s) = Inr (LName (takeWhile is_ident_char (c # s)), dropWhile is_ident_char (c # s))"
proof -
  have "c \<noteq> CHR ''[''" "c \<noteq> CHR ''{''" "c \<noteq> CHR ''-''" "c \<noteq> CHR ''+''" "c \<noteq> squote" "c \<noteq> dquote"
    "\<not> is_digit c" "c \<noteq> CHR ''.''"
    using assms by (auto simp: is_ident_start_def is_digit_def squote_def dquote_def Let_def)
  with assms show ?thesis by simp
qed

lemma parse_lit_quote:
  assumes "q = squote \<or> q = dquote"
  shows "parse_lit d (q # s) = (case parse_str_body q [] s of Inl e \<Rightarrow> Inl e | Inr (str, r) \<Rightarrow> Inr (LStr str, r))"
proof -
  have "q \<noteq> CHR ''[''" "q \<noteq> CHR ''{''" "q \<noteq> CHR ''-''" "q \<noteq> CHR ''+''"
    using assms by (auto simp: squote_def dquote_def)
  with assms show ?thesis by (simp del: parse_str_body.simps)
qed

lemma skip_ws_Cons: "\<not> py_ws b c \<Longrightarrow> skip_ws b (c # s) = c # s"
  by (simp add: skip_ws_def)

lemma skip_ws_blank: "\<not> py_ws True c \<Longrightarrow> skip_ws True (CHR '' '' # c # s) = c # s"
  by (simp add: skip_ws_def py_ws_def)

lemma digit_not_ws: "is_digit c \<Longrightarrow> \<not> py_ws b c"
  by (auto simp: is_digit_def py_ws_def)

lemma float_text_Some:
  assumes "float_text t = Some r"
  obtains u x where "u \<noteq> []" "is_digit (hd u)" "list_all num_char u" "parse_number u = Inr (LFloat x, [])"
    "(t = u \<and> r = x) \<or> (t = CHR ''-'' # u \<and> r = - x)"
proof -
  let ?neg = "t \<noteq> [] \<and> hd t = CHR ''-''"
  let ?u = "if ?neg then tl t else t"
  from assms have u: "?u \<noteq> []" "is_digit (hd ?u)" "list_all num_char ?u"
    by (auto simp: float_text_def Let_def split: if_splits)
  from assms u obtain x where x: "parse_number ?u = Inr (LFloat x, [])" "r = (if ?neg then - x else x)"
    by (auto simp: float_text_def Let_def split: sum.splits lit.splits list.splits prod.splits)
  have "(t = ?u \<and> r = x) \<or> (t = CHR ''-'' # ?u \<and> r = - x)"
    using x(2) by (cases t) auto
  with u x(1) that show ?thesis by blast
qed

lemma digit_facts: "is_digit c \<Longrightarrow> c \<noteq> CHR '']'' \<and> c \<noteq> CHR ''}'' \<and> c \<noteq> CHR ''-''"
  by (auto simp: is_digit_def)

lemma repr_first:
  assumes ok: "repr_ok fr n v"
  shows "py_repr fr v \<noteq> [] \<and> \<not> py_ws True (hd (py_repr fr v)) \<and>
         hd (py_repr fr v) \<noteq> CHR '']'' \<and> hd (py_repr fr v) \<noteq> CHR ''}''"
proof (cases v)
  case (PFloat r)
  with ok have "float_text (fr r) = Some r" by simp
  then obtain u x where "u \<noteq> []" "is_digit (hd u)" "(fr r = u \<and> r = x) \<or> (fr r = CHR ''-'' # u \<and> r = - x)"
    by (rule float_text_Some)
  with PFloat show ?thesis by (auto simp: digit_not_ws is_digit_def py_ws_def)
next
  case (PInt i)
  have r: "py_repr fr v = (if i < 0 then CHR ''-'' # nat_str (nat (- i)) else nat_str (nat i))"
    using PInt by (simp add: int_repr_def)
  show ?thesis
  proof (cases "i < 0")
    case True
    with r show ?thesis by (simp add: py_ws_def)
  next
    case False
    have "\<not> py_ws True (hd (nat_str (nat i)))" "hd (nat_str (nat i)) \<noteq> CHR '']''" "hd (nat_str (nat i)) \<noteq> CHR ''}''"
      using nat_str_hd_digit [of "nat i"] digit_not_ws digit_facts by blast+
    with False r nat_str_hd_digit [of "nat i"] show ?thesis by simp
  qed
next
  case (PStr s)
  then show ?thesis by (simp add: str_repr_def Let_def squote_def dquote_def py_ws_def)
next
  case PNone
  then show ?thesis by (simp add: py_ws_def)
next
  case (PBool b)
  then show ?thesis by (simp add: py_ws_def)
next
  case (PList xs)
  then show ?thesis by (simp add: py_ws_def)
next
  case (PDict d)
  then show ?thesis by (simp add: py_ws_def)
qed


lemma takeWhile_delim:
  assumes "list_all P u" "delim_ok rest" "\<And>c. \<not> num_char c \<Longrightarrow> \<not> is_ident_char c \<Longrightarrow> \<not> P c"
  shows "takeWhile P (u @ rest) = u \<and> dropWhile P (u @ rest) = rest"
  using delim_ok_cases [OF assms(2)] assms(1,3)
  by (auto simp: takeWhile_append_Cons_stop dropWhile_append_Cons_stop list_all_iff)

lemma parse_name_delim:
  assumes "u \<noteq> []" "is_ident_start (hd u)" "list_all is_ident_char u" "delim_ok rest"
  shows "parse_lit d (u @ rest) = Inr (LName u, rest)"
proof -
  obtain c u' where u: "u = c # u'" using assms(1) by (cases u) auto
  have "takeWhile is_ident_char (u @ rest) = u \<and> dropWhile is_ident_char (u @ rest) = rest"
    using assms(3,4) by (rule takeWhile_delim) simp
  moreover have "parse_lit d (c # (u' @ rest)) =
      Inr (LName (takeWhile is_ident_char (c # (u' @ rest))), dropWhile is_ident_char (c # (u' @ rest)))"
    using assms(2) u by (intro parse_lit_name) simp
  ultimately show ?thesis using u by (simp del: parse_lit.simps)
qed

lemma parse_num_delim:
  assumes "u \<noteq> []" "is_digit (hd u)" "list_all num_char u" "parse_number u = Inr (l, [])" "delim_ok rest"
  shows "parse_lit d (u @ rest) = Inr (l, rest)"
proof -
  obtain c u' where u: "u = c # u'" using assms(1) by (cases u) auto
  with assms(2) have "parse_lit d (u @ rest) = parse_number (u @ rest)"
    using parse_lit_digit [of c d "u' @ rest"] by (simp del: parse_lit.simps)
  with parse_number_delim [OF assms(4,3,5)] show ?thesis by simp
qed

lemma parse_neg_delim:
  assumes "u \<noteq> []" "is_digit (hd u)" "list_all num_char u" "parse_number u = Inr (l, [])" "delim_ok rest"
  shows "parse_lit d (CHR ''-'' # u @ rest) = Inr (LUnary CHR ''-'' l, rest)"
proof -
  obtain c u' where u: "u = c # u'" using assms(1) by (cases u) auto
  with assms(2) have "skip_ws (0 < d) (u @ rest) = u @ rest" by (simp add: skip_ws_Cons digit_not_ws)
  with parse_num_delim [OF assms] show ?thesis by simp
qed

lemma ident_words:
  "list_all is_ident_char ''None''" "list_all is_ident_char ''True''" "list_all is_ident_char ''False''"
  "is_ident_start CHR ''N''" "is_ident_start CHR ''T''" "is_ident_start CHR ''F''"
  by (simp_all add: is_ident_char_def is_ident_start_def)

lemma parse_str_repr: "parse_lit d (str_repr s @ rest) = Inr (LStr s, rest)"
proof -
  define q where "q = (if squote \<in> set s \<and> dquote \<notin> set s then dquote else squote)"
  have q: "q = squote \<or> q = dquote" by (simp add: q_def)
  have "str_repr s @ rest = q # (concat (map (char_escape q) s) @ q # rest)"
    by (simp add: str_repr_def q_def Let_def)
  moreover have "parse_lit d (q # (concat (map (char_escape q) s) @ q # rest)) = Inr (LStr s, rest)"
    using parse_lit_quote [OF q, of d] parse_str_body_repr [OF q, of "[]" s rest]
    by (simp del: parse_lit.simps parse_str_body.simps)
  ultimately show ?thesis by (simp del: parse_lit.simps)
qed

lemma join_sep_Cons: "join_sep sep (y # zs) = y @ (if zs = [] then [] else sep @ join_sep sep zs)"
  by (cases zs) simp_all


lemma delim_ok_simps [simp]:
  "delim_ok (CHR '','' # w)" "delim_ok (CHR '']'' # w)" "delim_ok (CHR ''}'' # w)" "delim_ok []"
  by (simp_all add: delim_ok_def)

lemma not_ws_simps [simp]:
  "\<not> py_ws b CHR '',''" "\<not> py_ws b CHR '']''" "\<not> py_ws b CHR ''}''" "\<not> py_ws b CHR '':''"
  by (simp_all add: py_ws_def)

lemma parse_elems_repr:
  assumes IH: "\<And>x rest. x \<in> set xs \<Longrightarrow> delim_ok rest \<Longrightarrow>
                 \<exists>l. parse_lit d (py_repr fr x @ rest) = Inr (l, rest) \<and> lit_value l = Inr x"
    and first: "\<And>x. x \<in> set xs \<Longrightarrow>
                 py_repr fr x \<noteq> [] \<and> \<not> py_ws True (hd (py_repr fr x)) \<and> hd (py_repr fr x) \<noteq> CHR '']''"
  shows "\<exists>ls. parse_elems d acc (join_sep '', '' (map (py_repr fr) xs) @ CHR '']'' # rest) = Inr (acc @ ls, rest)
              \<and> lit_values ls = Inr xs"
  using IH first
proof (induction xs arbitrary: acc rule: induct_list012)
  case 1
  show ?case by (subst parse_elems.simps) simp
next
  case (2 x)
  obtain l where l: "parse_lit d (py_repr fr x @ CHR '']'' # rest) = Inr (l, CHR '']'' # rest)" "lit_value l = Inr x"
    using "2.prems"(1) [of x "CHR '']'' # rest"] by auto
  have f: "py_repr fr x \<noteq> []" "hd (py_repr fr x) \<noteq> CHR '']''" using "2.prems"(2) [of x] by auto
  have "parse_elems d acc (py_repr fr x @ CHR '']'' # rest) = Inr (acc @ [l], rest)"
    by (subst parse_elems.simps) (simp add: l(1) f skip_ws_Cons del: parse_lit.simps parse_elems.simps)
  with l(2) show ?case by (intro exI [of _ "[l]"]) simp
next
  case (3 x y zs)
  define T where "T = join_sep '', '' (map (py_repr fr) (y # zs)) @ CHR '']'' # rest"
  obtain l where l: "parse_lit d (py_repr fr x @ CHR '','' # CHR '' '' # T) = Inr (l, CHR '','' # CHR '' '' # T)"
      "lit_value l = Inr x"
    using "3.prems"(1) [of x "CHR '','' # CHR '' '' # T"] by auto
  have f: "py_repr fr x \<noteq> []" "hd (py_repr fr x) \<noteq> CHR '']''" using "3.prems"(2) [of x] by auto
  have fy: "py_repr fr y \<noteq> []" "\<not> py_ws True (hd (py_repr fr y))" using "3.prems"(2) [of y] by auto
  then obtain c T' where T: "T = c # T'" "\<not> py_ws True c"
    by (cases "py_repr fr y") (auto simp: T_def join_sep_Cons)
  have "parse_elems d acc (py_repr fr x @ CHR '','' # CHR '' '' # T) = parse_elems d (acc @ [l]) T"
  proof -
    have sk: "skip_ws True (CHR '' '' # T) = T" using T skip_ws_blank by simp
    show ?thesis
      by (subst parse_elems.simps) (simp add: l(1) f skip_ws_Cons sk del: parse_lit.simps parse_elems.simps)
  qed
  moreover obtain ls where ls: "parse_elems d (acc @ [l]) T = Inr (acc @ [l] @ ls, rest)" "lit_values ls = Inr (y # zs)"
    using "3.IH" [of "acc @ [l]"] "3.prems" unfolding T_def by auto
  ultimately show ?case using l(2)
    by (intro exI [of _ "l # ls"]) (simp add: T_def del: parse_elems.simps)
qed


lemma dict_set_new: "k \<notin> set (map fst d) \<Longrightarrow> dict_set d k v = d @ [(k, v)]"
  by (simp add: dict_set_def dict_has_def)

lemma str_repr_first: "str_repr k \<noteq> [] \<and> hd (str_repr k) \<noteq> CHR ''}'' \<and> \<not> py_ws True (hd (str_repr k))"
  by (simp add: str_repr_def Let_def squote_def dquote_def py_ws_def)

lemma lit_pairs_str:
  "lit_value lv = Inr v \<Longrightarrow> lit_pairs dacc ((LStr k, lv) # ps) = lit_pairs (dict_set dacc k v) ps"
  by simp

lemma parse_pairs_repr:
  assumes IH: "\<And>kv rest. kv \<in> set d \<Longrightarrow> delim_ok rest \<Longrightarrow>
                 \<exists>l. parse_lit dd (py_repr fr (snd kv) @ rest) = Inr (l, rest) \<and> lit_value l = Inr (snd kv)"
    and first: "\<And>kv. kv \<in> set d \<Longrightarrow> py_repr fr (snd kv) \<noteq> [] \<and> \<not> py_ws True (hd (py_repr fr (snd kv)))"
  shows "\<exists>ps. parse_pairs dd acc (join_sep '', '' (map (\<lambda>(k, v). str_repr k @ '': '' @ py_repr fr v) d)
                                   @ CHR ''}'' # rest) = Inr (acc @ ps, rest) \<and>
              (\<forall>dacc. distinct (map fst (dacc @ d)) \<longrightarrow> lit_pairs dacc ps = Inr (dacc @ d))"
  using IH first
proof (induction d arbitrary: acc rule: induct_list012)
  case 1
  show ?case by (subst parse_pairs.simps) simp
next
  case (2 kv)
  obtain k v where kv: "kv = (k, v)" by fastforce
  obtain lv where lv: "parse_lit dd (py_repr fr v @ CHR ''}'' # rest) = Inr (lv, CHR ''}'' # rest)"
      "lit_value lv = Inr v"
    using "2.prems"(1) [of kv "CHR ''}'' # rest"] kv by auto
  have fv: "py_repr fr v \<noteq> []" "\<not> py_ws True (hd (py_repr fr v))" using "2.prems"(2) [of kv] kv by auto
  have sk: "skip_ws True (CHR '' '' # py_repr fr v @ CHR ''}'' # rest) = py_repr fr v @ CHR ''}'' # rest"
    using fv by (cases "py_repr fr v") (simp_all add: skip_ws_blank)
  have pk: "parse_lit dd (str_repr k @ CHR '':'' # CHR '' '' # py_repr fr v @ CHR ''}'' # rest) =
      Inr (LStr k, CHR '':'' # CHR '' '' # py_repr fr v @ CHR ''}'' # rest)"
    by (rule parse_str_repr)
  have "parse_pairs dd acc (str_repr k @ CHR '':'' # CHR '' '' # py_repr fr v @ CHR ''}'' # rest) =
      Inr (acc @ [(LStr k, lv)], rest)"
    using str_repr_first [of k]
    by (subst parse_pairs.simps) (simp add: pk sk lv(1) skip_ws_Cons del: parse_lit.simps parse_pairs.simps)
  moreover have "\<forall>dacc. distinct (map fst (dacc @ [kv])) \<longrightarrow> lit_pairs dacc [(LStr k, lv)] = Inr (dacc @ [kv])"
    using lv(2) kv by (simp add: dict_set_new)
  ultimately show ?case using kv by (intro exI [of _ "[(LStr k, lv)]"]) simp
next
  case (3 kv kv' ds)
  obtain k v where kv: "kv = (k, v)" by fastforce
  define T where "T = join_sep '', '' (map (\<lambda>(k, v). str_repr k @ '': '' @ py_repr fr v) (kv' # ds)) @ CHR ''}'' # rest"
  obtain lv where lv: "parse_lit dd (py_repr fr v @ CHR '','' # CHR '' '' # T) = Inr (lv, CHR '','' # CHR '' '' # T)"
      "lit_value lv = Inr v"
    using "3.prems"(1) [of kv "CHR '','' # CHR '' '' # T"] kv by auto
  have fv: "py_repr fr v \<noteq> []" "\<not> py_ws True (hd (py_repr fr v))" using "3.prems"(2) [of kv] kv by auto
  have sk: "skip_ws True (CHR '' '' # py_repr fr v @ CHR '','' # CHR '' '' # T) = py_repr fr v @ CHR '','' # CHR '' '' # T"
    using fv by (cases "py_repr fr v") (simp_all add: skip_ws_blank)
  obtain k' v' where kv': "kv' = (k', v')" by fastforce
  have skT: "skip_ws True (CHR '' '' # T) = T"
    using str_repr_first [of k'] kv' by (cases "str_repr k'") (simp_all add: T_def join_sep_Cons skip_ws_blank)
  have pk: "parse_lit dd (str_repr k @ CHR '':'' # CHR '' '' # py_repr fr v @ CHR '','' # CHR '' '' # T) =
      Inr (LStr k, CHR '':'' # CHR '' '' # py_repr fr v @ CHR '','' # CHR '' '' # T)"
    by (rule parse_str_repr)
  have step: "parse_pairs dd acc (str_repr k @ CHR '':'' # CHR '' '' # py_repr fr v @ CHR '','' # CHR '' '' # T) =
      parse_pairs dd (acc @ [(LStr k, lv)]) T"
    using str_repr_first [of k]
    by (subst parse_pairs.simps) (simp add: pk sk skT lv(1) skip_ws_Cons del: parse_lit.simps parse_pairs.simps)
  have "\<exists>ps. parse_pairs dd (acc @ [(LStr k, lv)]) T = Inr ((acc @ [(LStr k, lv)]) @ ps, rest) \<and>
      (\<forall>dacc. distinct (map fst (dacc @ kv' # ds)) \<longrightarrow> lit_pairs dacc ps = Inr (dacc @ kv' # ds))"
    unfolding T_def
  proof (rule "3.IH")
    fix kv0 rest assume "kv0 \<in> set (kv' # ds)" "delim_ok rest"
    then show "\<exists>l. parse_lit dd (py_repr fr (snd kv0) @ rest) = Inr (l, rest) \<and> lit_value l = Inr (snd kv0)"
      using "3.prems"(1) by auto
  next
    fix kv0 assume "kv0 \<in> set (kv' # ds)"
    then show "py_repr fr (snd kv0) \<noteq> [] \<and> \<not> py_ws True (hd (py_repr fr (snd kv0)))" using "3.prems"(2) by auto
  qed
  then obtain ps where ps: "parse_pairs dd (acc @ [(LStr k, lv)]) T = Inr ((acc @ [(LStr k, lv)]) @ ps, rest)"
      "\<forall>dacc. distinct (map fst (dacc @ kv' # ds)) \<longrightarrow> lit_pairs dacc ps = Inr (dacc @ kv' # ds)"
    by blast
  have "\<forall>dacc. distinct (map fst (dacc @ kv # kv' # ds)) \<longrightarrow>
      lit_pairs dacc ((LStr k, lv) # ps) = Inr (dacc @ kv # kv' # ds)"
  proof (intro allI impI)
    fix dacc assume dist: "distinct (map fst (dacc @ kv # kv' # ds))"
    then have ds: "dict_set dacc k v = dacc @ [kv]" using kv by (simp add: dict_set_new)
    have "distinct (map fst ((dacc @ [kv]) @ kv' # ds))" using dist by simp
    with ps(2) have "lit_pairs (dacc @ [kv]) ps = Inr ((dacc @ [kv]) @ kv' # ds)" by blast
    then show "lit_pairs dacc ((LStr k, lv) # ps) = Inr (dacc @ kv # kv' # ds)"
      using lit_pairs_str [OF lv(2), of dacc k ps] ds by simp
  qed
  with step ps(1) kv show ?case
    by (intro exI [of _ "(LStr k, lv) # ps"]) (simp add: T_def del: parse_pairs.simps)
qed


lemma skip_join:
  assumes "\<And>x. x \<in> set xs \<Longrightarrow> f x \<noteq> [] \<and> \<not> py_ws True (hd (f x))" "\<not> py_ws True c"
  shows "skip_ws True (join_sep sep (map f xs) @ c # rest) = join_sep sep (map f xs) @ c # rest"
proof (cases xs)
  case Nil
  with assms(2) show ?thesis by (simp add: skip_ws_Cons)
next
  case (Cons x xs')
  with assms(1) [of x] obtain c' w where "f x = c' # w" "\<not> py_ws True c'" by (cases "f x") auto
  with Cons show ?thesis by (simp add: join_sep_Cons skip_ws_Cons)
qed

lemma repr_parse:
  "repr_ok fr n v \<Longrightarrow> d + n \<le> 200 \<Longrightarrow> delim_ok rest \<Longrightarrow>
   \<exists>l. parse_lit d (py_repr fr v @ rest) = Inr (l, rest) \<and> lit_value l = Inr v"
proof (induction v arbitrary: n d rest)
  case PNone
  then show ?case
    using parse_name_delim [of "''None''" rest d] ident_words by (simp del: parse_lit.simps)
next
  case (PBool b)
  then show ?case
    using parse_name_delim [of "''True''" rest d] parse_name_delim [of "''False''" rest d] ident_words
    by (cases b) (simp_all del: parse_lit.simps)
next
  case (PInt i)
  note nd = nat_str_hd_digit nat_str_num parse_number_nat_str
  show ?case
  proof (cases "i < 0")
    case True
    with PInt.prems(3) show ?thesis
      using parse_neg_delim [of "nat_str (nat (- i))" "LInt (nat (- i))" rest d] nd
      by (simp add: int_repr_def del: parse_lit.simps)
  next
    case False
    with PInt.prems(3) show ?thesis
      using parse_num_delim [of "nat_str (nat i)" "LInt (nat i)" rest d] nd
      by (simp add: int_repr_def del: parse_lit.simps)
  qed
next
  case (PFloat r)
  then have "float_text (fr r) = Some r" by simp
  then obtain u x where u: "u \<noteq> []" "is_digit (hd u)" "list_all num_char u" "parse_number u = Inr (LFloat x, [])"
      and t: "(fr r = u \<and> r = x) \<or> (fr r = CHR ''-'' # u \<and> r = - x)"
    by (rule float_text_Some)
  from t show ?case
  proof
    assume "fr r = u \<and> r = x"
    then have "py_repr fr (PFloat r) = u" "r = x" by auto
    with parse_num_delim [OF u PFloat.prems(3), of d] show ?thesis
      by (intro exI [of _ "LFloat x"]) (simp del: parse_lit.simps)
  next
    assume "fr r = CHR ''-'' # u \<and> r = - x"
    then have "py_repr fr (PFloat r) = CHR ''-'' # u" "r = - x" by auto
    with parse_neg_delim [OF u PFloat.prems(3), of d] show ?thesis
      by (intro exI [of _ "LUnary CHR ''-'' (LFloat x)"]) (simp del: parse_lit.simps)
  qed
next
  case (PStr s)
  then show ?case using parse_str_repr [of d s rest] by (simp del: parse_lit.simps)
next
  case (PList xs)
  from PList.prems have n: "0 < n" "d < 200" "list_all (repr_ok fr (n - 1)) xs" by auto
  have IH: "\<And>x rest. x \<in> set xs \<Longrightarrow> delim_ok rest \<Longrightarrow>
      \<exists>l. parse_lit (Suc d) (py_repr fr x @ rest) = Inr (l, rest) \<and> lit_value l = Inr x"
  proof -
    fix x rest assume x: "x \<in> set xs" and dl: "delim_ok rest"
    from x n(3) have "repr_ok fr (n - 1) x" by (simp add: list_all_iff)
    moreover have "Suc d + (n - 1) \<le> 200" using n(1) PList.prems(2) by simp
    ultimately show "\<exists>l. parse_lit (Suc d) (py_repr fr x @ rest) = Inr (l, rest) \<and> lit_value l = Inr x"
      using PList.IH [OF x] dl by blast
  qed
  have first: "\<And>x. x \<in> set xs \<Longrightarrow>
      py_repr fr x \<noteq> [] \<and> \<not> py_ws True (hd (py_repr fr x)) \<and> hd (py_repr fr x) \<noteq> CHR '']''"
    using n(3) repr_first by (auto simp: list_all_iff)
  obtain ls where ls: "parse_elems (Suc d) [] (join_sep '', '' (map (py_repr fr) xs) @ CHR '']'' # rest) = Inr (ls, rest)"
      "lit_values ls = Inr xs"
    using parse_elems_repr [OF IH first, where acc = "[]" and rest = rest] by auto
  have sk: "skip_ws True (join_sep '', '' (map (py_repr fr) xs) @ CHR '']'' # rest) =
      join_sep '', '' (map (py_repr fr) xs) @ CHR '']'' # rest"
    using first by (intro skip_join) auto
  have "parse_lit d (py_repr fr (PList xs) @ rest) = Inr (LList ls, rest)"
    using n(2) by (simp add: sk ls(1) del: parse_elems.simps)
  with ls(2) show ?case by simp
next
  case (PDict dc)
  from PDict.prems have n: "0 < n" "d < 200" "distinct (map fst dc)"
      "list_all (\<lambda>(k, v). repr_ok fr (n - 1) v) dc" by auto
  have IH: "\<And>kv rest. kv \<in> set dc \<Longrightarrow> delim_ok rest \<Longrightarrow>
      \<exists>l. parse_lit (Suc d) (py_repr fr (snd kv) @ rest) = Inr (l, rest) \<and> lit_value l = Inr (snd kv)"
  proof -
    fix kv rest assume kv: "kv \<in> set dc" and dl: "delim_ok rest"
    from kv n(4) have ok: "repr_ok fr (n - 1) (snd kv)" by (auto simp: list_all_iff)
    have "Suc d + (n - 1) \<le> 200" using n(1) PDict.prems(2) by simp
    with PDict.IH [of kv "snd kv"] kv dl ok
    show "\<exists>l. parse_lit (Suc d) (py_repr fr (snd kv) @ rest) = Inr (l, rest) \<and> lit_value l = Inr (snd kv)"
      by (cases kv) auto
  qed
  have first: "\<And>kv. kv \<in> set dc \<Longrightarrow> py_repr fr (snd kv) \<noteq> [] \<and> \<not> py_ws True (hd (py_repr fr (snd kv)))"
  proof -
    fix kv assume "kv \<in> set dc"
    with n(4) have "repr_ok fr (n - 1) (snd kv)" by (auto simp: list_all_iff)
    from repr_first [OF this]
    show "py_repr fr (snd kv) \<noteq> [] \<and> \<not> py_ws True (hd (py_repr fr (snd kv)))" by blast
  qed
  obtain ps where ps: "parse_pairs (Suc d) [] (join_sep '', '' (map (\<lambda>(k, v). str_repr k @ '': '' @ py_repr fr v) dc)
                                          @ CHR ''}'' # rest) = Inr (ps, rest)"
      "\<forall>dacc. distinct (map fst (dacc @ dc)) \<longrightarrow> lit_pairs dacc ps = Inr (dacc @ dc)"
    using parse_pairs_repr [where d = dc and dd = "Suc d" and fr = fr and acc = "[]" and rest = rest, OF IH first]
    by (simp del: parse_pairs.simps) blast
  define J where "J = join_sep '', '' (map (\<lambda>(k, v). str_repr k @ '': '' @ py_repr fr v) dc)"
  have sk: "skip_ws True (J @ CHR ''}'' # rest) = J @ CHR ''}'' # rest"
    unfolding J_def using str_repr_first by (intro skip_join) auto
  have p: "parse_pairs (Suc d) [] (J @ CHR ''}'' # rest) = Inr (ps, rest)"
    unfolding J_def by (rule ps(1))
  have r: "py_repr fr (PDict dc) @ rest = CHR ''{'' # J @ CHR ''}'' # rest"
    unfolding J_def by simp
  have "parse_lit d (py_repr fr (PDict dc) @ rest) = Inr (LDict ps, rest)"
    unfolding r using n(2) by (simp add: sk p del: parse_pairs.simps)
  moreover have "lit_pairs [] ps = Inr dc" using ps(2) n(3) by auto
  ultimately show ?case by simp
qed


lemma literal_eval_py_repr:
  assumes "repr_ok fr 200 v"
  shows "py_literal_eval (py_repr fr v) = Inr v"
proof -
  obtain l where l: "parse_lit 0 (py_repr fr v @ []) = Inr (l, [])" "lit_value l = Inr v"
    using repr_parse [OF assms, of 0 "[]"] by auto
  from repr_first [OF assms] obtain c w where cw: "py_repr fr v = c # w" "\<not> py_ws True c"
    by (cases "py_repr fr v") auto
  then have "dropWhile (\<lambda>c. c = CHR '' '' \<or> c = CHR 0x09) (py_repr fr v) = py_repr fr v"
    by (simp add: py_ws_def)
  with l show ?thesis by (simp add: py_literal_eval_def del: parse_lit.simps)
qed

lemma str_repr_plain:
  assumes "list_all (\<lambda>c. c \<noteq> squote \<and> c \<noteq> dquote \<and> c \<noteq> bslash \<and> 32 \<le> (of_char c :: nat) \<and> of_char c < (127 :: nat)) s"
  shows "str_repr s = squote # s @ [squote]"
proof -
  have "concat (map (char_escape squote) s) = s"
    using assms by (induction s) (auto simp: char_escape_def Let_def)
  moreover have "squote \<notin> set s" using assms by (auto simp: list_all_iff)
  ultimately show ?thesis by (simp add: str_repr_def)
qed

lemma float_text_decimal: "float_text ''0.2'' = Some (1 / 5)"
  by (simp add: float_text_def parse_number_def lex_digits_def lex_fraction_def lex_exponent_def
      decimal_value_def digits_val_def num_char_def is_digit_def is_ident_char_def is_ident_start_def)

lemma repr_ok_nest: "repr_ok fr n (nest k) \<longleftrightarrow> k < n"
proof (induction k arbitrary: n)
  case 0
  then show ?case by simp
next
  case (Suc k)
  then show ?case by (cases n) simp_all
qed
lemma py_repr_nest: "py_repr fr (nest k) = replicate (Suc k) (CHR ''['') @ replicate (Suc k) (CHR '']'')"
proof (induction k)
  case 0
  then show ?case by simp
next
  case (Suc k)
  then show ?case by (simp add: replicate_app_Cons_same)
qed
lemma parse_lit_too_deep:
  "200 \<le> d + k \<Longrightarrow> parse_lit d (replicate (Suc k) (CHR ''['') @ s) = Inl SyntaxError"
proof (induction k arbitrary: d)
  case 0
  then show ?case by simp
next
  case (Suc k)
  show ?case
  proof (cases "200 \<le> d")
    case True
    then show ?thesis by simp
  next
    case False
    let ?t = "replicate (Suc k) (CHR ''['') @ s"
    have ws: "skip_ws True ?t = ?t" by (simp add: skip_ws_def py_ws_def)
    have inner: "parse_lit (Suc d) ?t = Inl SyntaxError"
      by (rule Suc.IH) (use Suc.prems in simp)
    have "parse_elems (Suc d) [] ?t = Inl SyntaxError"
      by (subst parse_elems.simps) (simp only: inner, simp)
    moreover have "replicate (Suc (Suc k)) (CHR ''['') @ s = CHR ''['' # ?t" by simp
    ultimately show ?thesis using False ws
      by (simp only: parse_lit.simps(2) [of d]) simp
  qed
qed

text \<open>A dictionary display with a list as key parses, and \<^verbatim>\<open>_convert\<close> raises
  \<^verbatim>\<open>TypeError\<close> on it (the key is unhashable).\<close>

lemma literal_eval_unhashable: "py_literal_eval ''{[]: 1}'' = Inl TypeError"
  by (simp add: py_literal_eval_def skip_ws_def py_ws_def parse_number_def lex_digits_def lex_fraction_def
      lex_exponent_def is_digit_def is_ident_char_def is_ident_start_def decimal_value_def digits_val_def bslash_def squote_def dquote_def)

declare nat_str.simps [simp]

text \<open>The nesting bound of \<^verbatim>\<open>ast.literal_eval\<close>: a text of \<open>k + 1\<close> nested
  empty lists is read as that value exactly when \<open>k < 200\<close>, and otherwise raises
  \<^verbatim>\<open>SyntaxError\<close> (CPython's tokenizer refuses the 201st open bracket).\<close>

lemma literal_eval_depth:
  "py_literal_eval (replicate (Suc k) (CHR ''['') @ replicate (Suc k) (CHR '']'')) =
     (if k < 200 then Inr (nest k) else Inl SyntaxError)"
proof (cases "k < 200")
  case True
  then have "repr_ok (\<lambda>r. []) 200 (nest k)" by (simp add: repr_ok_nest)
  from literal_eval_py_repr [OF this] True show ?thesis by (simp add: py_repr_nest)
next
  case False
  let ?t = "replicate (Suc k) (CHR ''['') @ replicate (Suc k) (CHR '']'')"
  have "parse_lit 0 ?t = Inl SyntaxError"
    using False by (intro parse_lit_too_deep) simp
  moreover have "dropWhile (\<lambda>c. c = CHR '' '' \<or> c = CHR 0x09) ?t = ?t" by simp
  ultimately show ?thesis using False by (simp only: py_literal_eval_def) simp
qed

end
