(* ===== verification/Paths.thy ===== *)
theory Paths
  imports Prelude
begin

text \<open>
  Where the modules put their data.  Each module computes its directories at import
  time from its own \<^verbatim>\<open>__file__\<close> with \<^verbatim>\<open>os.path\<close>, which is
  \<^verbatim>\<open>posixpath\<close> here: \<^verbatim>\<open>join\<close> (\<open>path_join\<close> of the prelude, folded over
  the arguments), \<^verbatim>\<open>normpath\<close>, \<^verbatim>\<open>abspath\<close> and \<^verbatim>\<open>dirname\<close>, written
  after CPython's \<^verbatim>\<open>Lib/posixpath.py\<close>.  The installation is described by
  the directory \<open>root\<close> that \<^verbatim>\<open>run.py\<close> puts on \<^verbatim>\<open>sys.path\<close> (the
  parent of \<^verbatim>\<open>backend\<close>); a module's \<^verbatim>\<open>__file__\<close> is its path below it.
\<close>

subsection \<open>\<^verbatim>\<open>posixpath\<close>\<close>

text \<open>\<^verbatim>\<open>str.split(sep)\<close>: the pieces between the separators, one more than
  there are separators.\<close>

fun split_sep :: "char \<Rightarrow> pystr \<Rightarrow> pystr list" where
  "split_sep c [] = [[]]"
| "split_sep c (x # xs) =
     (if x = c then [] # split_sep c xs
      else (case split_sep c xs of [] \<Rightarrow> [[x]] | w # ws \<Rightarrow> (x # w) # ws))"

definition py_isabs :: "pystr \<Rightarrow> bool" where
  "py_isabs s = starts_with ''/'' s"

text \<open>\<^verbatim>\<open>os.path.join(a, *p)\<close>.\<close>

definition py_join :: "pystr \<Rightarrow> pystr list \<Rightarrow> pystr" where
  "py_join a ps = foldl path_join a ps"

text \<open>\<^verbatim>\<open>normpath\<close>: the number of initial slashes kept (one, or two exactly when
  the path starts with two and not three), and the loop over the components, whose
  list \<^verbatim>\<open>new_comps\<close> is kept reversed as a stack.\<close>

definition initial_slashes :: "pystr \<Rightarrow> nat" where
  "initial_slashes p =
     (if starts_with ''//'' p \<and> \<not> starts_with ''///'' p then 2 else if starts_with ''/'' p then 1 else 0)"

definition norm_step :: "nat \<Rightarrow> pystr list \<Rightarrow> pystr \<Rightarrow> pystr list" where
  "norm_step ini st c =
     (if c = [] \<or> c = ''.'' then st
      else if c = ''..'' then
        (case st of
           [] \<Rightarrow> (if ini = 0 then [c] else [])
         | h # t \<Rightarrow> (if h = ''..'' then c # st else t))
      else c # st)"

definition py_normpath :: "pystr \<Rightarrow> pystr" where
  "py_normpath p =
     (if p = [] then ''.''
      else (let ini = initial_slashes p;
                comps = rev (foldl (norm_step ini) [] (split_sep (CHR ''/'') p));
                q = replicate ini (CHR ''/'') @ join_sep ''/'' comps
            in if q = [] then ''.'' else q))"

definition py_abspath :: "pystr \<Rightarrow> pystr \<Rightarrow> pystr" where
  "py_abspath cwd p = py_normpath (if py_isabs p then p else path_join cwd p)"

text \<open>\<^verbatim>\<open>dirname\<close>: the text up to the last slash, trailing slashes removed
  unless it is all slashes.\<close>

definition py_dirname :: "pystr \<Rightarrow> pystr" where
  "py_dirname p =
     (let head = rev (dropWhile (\<lambda>c. c \<noteq> CHR ''/'') (rev p))
      in if head \<noteq> [] \<and> \<not> list_all (\<lambda>c. c = CHR ''/'') head
         then rev (dropWhile (\<lambda>c. c = CHR ''/'') (rev head)) else head)"


text \<open>The absolute directory a path below \<open>d\<close> is resolved in by
  \<^verbatim>\<open>abspath\<close>.\<close>

definition abs_base :: "pystr \<Rightarrow> pystr \<Rightarrow> pystr" where
  "abs_base cwd d = (if py_isabs d then d else path_join cwd d)"

subsection \<open>The directories of the modules\<close>

text \<open>\<^verbatim>\<open>run.py\<close>, line 11: the entry put on \<^verbatim>\<open>sys.path\<close>, the parent of the
  directory of \<^verbatim>\<open>run.py\<close>, under which \<^verbatim>\<open>backend.app\<close> is imported.\<close>

definition sys_path_entry :: "pystr \<Rightarrow> pystr \<Rightarrow> pystr" where
  "sys_path_entry cwd run_file = py_abspath cwd (py_join (py_dirname run_file) [''..''])"

text \<open>\<^verbatim>\<open>agent.py\<close>, lines 33--34.\<close>

definition agent_persistent_directory :: "pystr \<Rightarrow> pystr \<Rightarrow> pystr" where
  "agent_persistent_directory cwd file =
     (let current_dir = py_dirname (py_abspath cwd file)
      in py_abspath cwd (py_join current_dir [''..'', ''..'', ''data'', ''vector_database'']))"

text \<open>\<^verbatim>\<open>agent_tools/search.py\<close>, lines 8--9: one level deeper, one more
  \<^verbatim>\<open>..\<close>.\<close>

definition search_persistent_directory :: "pystr \<Rightarrow> pystr \<Rightarrow> pystr" where
  "search_persistent_directory cwd file =
     (let current_dir = py_dirname (py_abspath cwd file)
      in py_abspath cwd (py_join current_dir [''..'', ''..'', ''..'', ''data'', ''vector_database'']))"

text \<open>\<^verbatim>\<open>vectordb_generator.py\<close>, lines 21--23.\<close>

definition vg_json_dir :: "pystr \<Rightarrow> pystr \<Rightarrow> pystr" where
  "vg_json_dir cwd file =
     (let current_dir = py_dirname (py_abspath cwd file)
      in py_abspath cwd (py_join current_dir [''..'', ''..'', ''data'', ''clean_data'']))"

definition vg_persistent_directory :: "pystr \<Rightarrow> pystr \<Rightarrow> pystr" where
  "vg_persistent_directory cwd file =
     (let current_dir = py_dirname (py_abspath cwd file)
      in py_abspath cwd (py_join current_dir [''..'', ''..'', ''data'', ''vector_database'']))"

text \<open>\<^verbatim>\<open>utils/finalizer.py\<close>, lines 4--5.\<close>

definition finalizer_json_dir :: "pystr \<Rightarrow> pystr \<Rightarrow> pystr" where
  "finalizer_json_dir cwd file =
     (let current_dir = py_dirname (py_abspath cwd file)
      in py_abspath cwd (py_join current_dir [''..'', ''..'', ''data'', ''clean_data'']))"

text \<open>\<^verbatim>\<open>data/preprocessing/redundant.py\<close>, lines 7--8, and
  \<^verbatim>\<open>api/__init__.py\<close>, line 8: paths relative to the working directory of the
  process, which the operating system resolves against it.\<close>

definition input_folder :: pystr where
  "input_folder = ''../raw_data''"

definition output_folder :: pystr where
  "output_folder = ''../clean_data''"

definition firebase_certificate :: pystr where
  "firebase_certificate = ''app/utils/service-account.json''"

text \<open>\<^verbatim>\<open>api/__init__.py\<close>, lines 7--9: the default Firebase app is created
  only when none exists.  \<^verbatim>\<open>credentials.Certificate\<close> reads the JSON file
  (\<^verbatim>\<open>FileNotFoundError\<close> when it is missing) and raises \<^verbatim>\<open>ValueError\<close> unless
  it holds an object whose \<^verbatim>\<open>type\<close> is \<^verbatim>\<open>service_account\<close>; the state is the
  list of initialised app names.\<close>

definition firebase_certificate_ok :: "fsys \<Rightarrow> pystr \<Rightarrow> unit res" where
  "firebase_certificate_ok fs path =
     (case read_json fs path of
        Inl FileNotFoundError \<Rightarrow> Inl FileNotFoundError
      | Inl e \<Rightarrow> Inl ValueError
      | Inr (PDict d) \<Rightarrow> (if dict_get d ''type'' PNone = PStr ''service_account'' then Inr () else Inl ValueError)
      | Inr v \<Rightarrow> Inl ValueError)"

definition firebase_init :: "fsys \<Rightarrow> pystr \<Rightarrow> pystr list \<Rightarrow> pystr list res" where
  "firebase_init fs cwd apps =
     (if apps \<noteq> [] then Inr apps
      else (case firebase_certificate_ok fs (py_abspath cwd firebase_certificate) of
              Inl e \<Rightarrow> Inl e
            | Inr u \<Rightarrow> Inr [''[DEFAULT]'']))"


subsection \<open>Normalised paths as stacks of names\<close>

text \<open>A normalised absolute path is its initial slashes and the stack of its
  names (the reversed \<^verbatim>\<open>new_comps\<close> of \<^verbatim>\<open>normpath\<close>); a plain name is
  one that \<^verbatim>\<open>normpath\<close> keeps and that has no separator.  These are the
  notions the proofs below work with.\<close>

definition plain :: "pystr \<Rightarrow> bool" where
  "plain w = (w \<noteq> [] \<and> w \<noteq> ''.'' \<and> w \<noteq> ''..'' \<and> CHR ''/'' \<notin> set w)"

definition render :: "nat \<Rightarrow> pystr list \<Rightarrow> pystr" where
  "render ini st = replicate ini (CHR ''/'') @ join_sep ''/'' (rev st)"

definition path_stack :: "pystr \<Rightarrow> pystr list" where
  "path_stack p = foldl (norm_step (initial_slashes p)) [] (split_sep (CHR ''/'') p)"


subsection \<open>Splitting and joining\<close>

lemma split_sep_ne [simp]: "split_sep c s \<noteq> []"
  by (induction s) (auto split: list.split)

lemma split_sep_append: "split_sep c (xs @ c # ys) = split_sep c xs @ split_sep c ys"
proof (induction xs)
  case Nil
  then show ?case by simp
next
  case (Cons x xs)
  then show ?case by (cases "split_sep c xs") (auto split: list.split)
qed

lemma split_sep_no_sep: "c \<notin> set s \<Longrightarrow> split_sep c s = [s]"
  by (induction s) auto

lemma split_sep_comps: "list_all (\<lambda>w. c \<notin> set w) (split_sep c s)"
  by (induction s) (auto split: list.split)

lemma join_sep_snoc: "xs \<noteq> [] \<Longrightarrow> join_sep sep (xs @ [x]) = join_sep sep xs @ sep @ x"
  by (induction sep xs rule: join_sep.induct) auto

lemma split_join_sep:
  "cs \<noteq> [] \<Longrightarrow> list_all (\<lambda>w. c \<notin> set w) cs \<Longrightarrow> split_sep c (join_sep [c] cs) = cs"
  by (induction "[c]" cs rule: join_sep.induct) (auto simp: split_sep_no_sep split_sep_append)


lemma norm_step_empty [simp]: "norm_step ini st [] = st"
  by (simp add: norm_step_def)

lemma norm_step_plain: "plain w \<Longrightarrow> norm_step ini st w = w # st"
  by (simp add: norm_step_def plain_def)

lemma norm_step_up: "w \<noteq> ''..'' \<Longrightarrow> norm_step ini (w # st) ''..'' = st"
  by (simp add: norm_step_def)

lemma foldl_norm_push: "list_all plain ws \<Longrightarrow> foldl (norm_step ini) st ws = rev ws @ st"
  by (induction ws arbitrary: st) (simp_all add: norm_step_plain)

lemma foldl_norm_plain:
  "0 < ini \<Longrightarrow> list_all plain st \<Longrightarrow> list_all (\<lambda>w. CHR ''/'' \<notin> set w) ws \<Longrightarrow>
   list_all plain (foldl (norm_step ini) st ws)"
proof (induction ws arbitrary: st)
  case Nil
  then show ?case by simp
next
  case (Cons w ws)
  have "list_all plain (norm_step ini st w)"
    using Cons.prems by (cases st) (auto simp: norm_step_def plain_def list_all_iff)
  with Cons show ?case by simp
qed

lemma path_join_rel: "\<not> starts_with ''/'' q \<Longrightarrow>
  path_join p q = (if p = [] \<or> last p = CHR ''/'' then p @ q else p @ CHR ''/'' # q)"
  by (simp add: path_join_def)

lemma foldl_split_join:
  assumes "p \<noteq> []" "\<not> starts_with ''/'' q"
  shows "foldl (norm_step i) st (split_sep (CHR ''/'') (path_join p q)) =
         foldl (norm_step i) (foldl (norm_step i) st (split_sep (CHR ''/'') p)) (split_sep (CHR ''/'') q)"
proof (cases "last p = CHR ''/''")
  case True
  then obtain p' where p': "p = p' @ [CHR ''/'']" using assms(1)
    by (metis append_butlast_last_id)
  have "split_sep (CHR ''/'') p = split_sep (CHR ''/'') p' @ [[]]"
    unfolding p' using split_sep_append [of _ p' "[]"] by simp
  then show ?thesis using assms p' True by (simp add: path_join_rel split_sep_append)
next
  case False
  then show ?thesis using assms by (simp add: path_join_rel split_sep_append)
qed


lemma initial_slashes_take3: "initial_slashes s = initial_slashes (take 3 s)"
  by (simp add: initial_slashes_def starts_with_def min_def)

lemma initial_slashes_append:
  assumes "starts_with ''/'' p" "r = [] \<or> hd r \<noteq> CHR ''/'' \<or> last p \<noteq> CHR ''/''"
  shows "initial_slashes (p @ r) = initial_slashes p"
proof -
  obtain p1 where p: "p = CHR ''/'' # p1" using assms(1) by (cases p) (auto simp: starts_with_def)
  show ?thesis
  proof (cases "3 \<le> length p")
    case True
    then show ?thesis by (subst (1 2) initial_slashes_take3) simp
  next
    case False
    then consider "p1 = []" | "p1 = [CHR ''/'']" | x where "p1 = [x]" "x \<noteq> CHR ''/''"
      using p by (cases p1) (auto simp: Suc_le_eq)
    then show ?thesis using assms(2) p
      by cases (cases r; auto simp: initial_slashes_def starts_with_def)+
  qed
qed

lemma initial_slashes_join:
  assumes "py_isabs p" "\<not> starts_with ''/'' q"
  shows "initial_slashes (path_join p q) = initial_slashes p"
proof -
  have s: "starts_with ''/'' p" "p \<noteq> []" using assms(1) by (auto simp: py_isabs_def starts_with_def)
  have hq: "q = [] \<or> hd q \<noteq> CHR ''/''" using assms(2) by (cases q) (auto simp: starts_with_def)
  show ?thesis
  proof (cases "last p = CHR ''/''")
    case True
    then show ?thesis using s(2) assms(2) initial_slashes_append [OF s(1), of q] hq by (simp add: path_join_rel)
  next
    case False
    then show ?thesis using s(2) assms(2) initial_slashes_append [OF s(1), of "CHR ''/'' # q"]
      by (simp add: path_join_rel)
  qed
qed

lemma isabs_join: "py_isabs p \<Longrightarrow> py_isabs (path_join p q)"
  by (cases p) (auto simp: path_join_def py_isabs_def starts_with_def)

lemma initial_slashes_abs: "py_isabs p \<Longrightarrow> initial_slashes p \<in> {1, 2}"
  by (simp add: initial_slashes_def py_isabs_def)


subsection \<open>Rendering, \<^verbatim>\<open>dirname\<close> and \<^verbatim>\<open>join\<close> on stacks\<close>

lemma normpath_abs: "py_isabs p \<Longrightarrow> py_normpath p = render (initial_slashes p) (path_stack p)"
  using initial_slashes_abs [of p]
  by (auto simp: py_normpath_def render_def path_stack_def py_isabs_def starts_with_def Let_def)


lemma split_sep_slashes: "split_sep c (replicate n c @ s) = replicate n [] @ split_sep c s"
  by (induction n) auto


lemma foldl_norm_blank [simp]: "foldl (norm_step i) st (replicate n []) = st"
  by (induction n) auto


lemma hd_join_sep: "cs \<noteq> [] \<Longrightarrow> join_sep sep cs = hd cs @ drop (length (hd cs)) (join_sep sep cs)"
  by (induction sep cs rule: join_sep.induct) auto


lemma render_join_hd:
  assumes "list_all plain st"
  shows "join_sep ''/'' (rev st) = [] \<or> hd (join_sep ''/'' (rev st)) \<noteq> CHR ''/''"
proof (cases "rev st")
  case (Cons w ws)
  then have "plain w" using assms by (simp add: list_all_iff)
  then obtain x w' where w: "w = x # w'" "x \<noteq> CHR ''/''" by (cases w) (auto simp: plain_def)
  have "join_sep ''/'' (rev st) = w @ drop (length w) (join_sep ''/'' (rev st))"
    using hd_join_sep [of "rev st" "''/''"] Cons by simp
  then have "hd (join_sep ''/'' (rev st)) = x" using w(1) by (metis append_Cons list.sel(1))
  then show ?thesis using w(2) by simp
qed simp


lemma render_facts:
  assumes "ini \<in> {1, 2}" "list_all plain st"
  shows "py_isabs (render ini st)" "initial_slashes (render ini st) = ini" "path_stack (render ini st) = st"
proof -
  have sl: "starts_with ''/'' (replicate ini (CHR ''/''))" "initial_slashes (replicate ini (CHR ''/'')) = ini"
    using assms(1) by (auto simp: starts_with_def initial_slashes_def numeral_eq_Suc)
  then show "py_isabs (render ini st)" using assms(1) by (auto simp: py_isabs_def render_def starts_with_def)
  show ini: "initial_slashes (render ini st) = ini"
    unfolding render_def using initial_slashes_append [OF sl(1)] render_join_hd [OF assms(2)] sl(2) by auto
  have comps: "list_all (\<lambda>w. CHR ''/'' \<notin> set w) (rev st)" "list_all plain (rev st)"
    using assms(2) by (auto simp: plain_def list_all_iff)
  show "path_stack (render ini st) = st"
  proof (cases "st = []")
    case True
    then show ?thesis using ini split_sep_slashes [of "CHR ''/''" ini "[]"]
      by (simp add: path_stack_def render_def)
  next
    case False
    then have "split_sep (CHR ''/'') (join_sep ''/'' (rev st)) = rev st"
      using comps(1) by (intro split_join_sep) auto
    then show ?thesis using ini comps(2)
      by (simp add: path_stack_def render_def split_sep_slashes foldl_norm_push)
  qed
qed


lemma last_join_sep_ne:
  "cs \<noteq> [] \<Longrightarrow> last cs \<noteq> [] \<Longrightarrow> join_sep sep cs \<noteq> [] \<and> last (join_sep sep cs) = last (last cs)"
  by (induction sep cs rule: join_sep.induct) auto

lemma last_join_sep: "cs \<noteq> [] \<Longrightarrow> last cs \<noteq> [] \<Longrightarrow> last (join_sep sep cs) = last (last cs)"
  using last_join_sep_ne by blast

lemma dirname_snoc:
  assumes "CHR ''/'' \<notin> set w" "h = r @ [CHR ''/'']"
  shows "rev (dropWhile (\<lambda>c. c \<noteq> CHR ''/'') (rev (h @ w))) = h"
proof -
  have "dropWhile (\<lambda>c. c \<noteq> CHR ''/'') (rev w @ CHR ''/'' # rev r) = CHR ''/'' # rev r"
    using assms(1) by (subst dropWhile_append2) auto
  then show ?thesis using assms(2) by simp
qed

lemma dirname_render:
  assumes "ini \<in> {1, 2}" "plain w" "list_all plain st"
  shows "py_dirname (render ini (w # st)) = render ini st"
proof (cases "st = []")
  case True
  have "render ini [w] = replicate (ini - 1) (CHR ''/'') @ [CHR ''/''] @ w"
    using assms(1) by (auto simp: render_def numeral_eq_Suc)
  moreover have "CHR ''/'' \<notin> set w" using assms(2) by (simp add: plain_def)
  ultimately have "rev (dropWhile (\<lambda>c. c \<noteq> CHR ''/'') (rev (render ini [w]))) = replicate ini (CHR ''/'')"
    using dirname_snoc [of w "replicate (ini - 1) (CHR ''/'') @ [CHR ''/'']"] assms(1)
    by (auto simp: numeral_eq_Suc)
  then show ?thesis using True assms(1) by (auto simp: py_dirname_def render_def Let_def list_all_iff)
next
  case False
  let ?J = "join_sep ''/'' (rev st)"
  let ?R = "render ini st"
  have w: "CHR ''/'' \<notin> set w" using assms(2) by (simp add: plain_def)
  have r: "render ini (w # st) = (?R @ [CHR ''/'']) @ w"
    using False by (simp add: render_def join_sep_snoc)
  have head: "rev (dropWhile (\<lambda>c. c \<noteq> CHR ''/'') (rev (render ini (w # st)))) = ?R @ [CHR ''/'']"
    unfolding r using w by (rule dirname_snoc) simp
  have lst: "last (rev st) \<noteq> []" "CHR ''/'' \<notin> set (last (rev st))"
    using False assms(3) by (simp_all add: list_all_iff plain_def last_rev)
  have J: "?J \<noteq> []" "last ?J = last (last (rev st))"
    using last_join_sep_ne [of "rev st" "''/''"] False lst(1) by simp_all
  have "hd ?J \<noteq> CHR ''/''" using render_join_hd [OF assms(3)] J(1) by simp
  then have notall: "\<not> list_all (\<lambda>c. c = CHR ''/'') (?R @ [CHR ''/''])"
    using J(1) by (cases ?J) (simp_all add: render_def)
  have "last (last (rev st)) \<in> set (last (rev st))" using lst(1) by (rule last_in_set)
  then have "last ?J \<noteq> CHR ''/''" using J(2) lst(2) by auto
  then have lR: "last ?R \<noteq> CHR ''/''" using J(1) by (simp add: render_def)
  have "?R \<noteq> []" using J(1) by (simp add: render_def)
  then obtain R' c where R: "?R = R' @ [c]" by (metis append_butlast_last_id)
  then have "c \<noteq> CHR ''/''" using lR by simp
  then have "rev (dropWhile (\<lambda>c. c = CHR ''/'') (rev (?R @ [CHR ''/'']))) = ?R"
    unfolding R by simp
  then show ?thesis using head notall by (simp add: py_dirname_def Let_def)
qed


lemma path_stack_join:
  assumes "py_isabs p" "\<not> starts_with ''/'' q"
  shows "path_stack (path_join p q) = foldl (norm_step (initial_slashes p)) (path_stack p) (split_sep (CHR ''/'') q)"
proof -
  have "p \<noteq> []" using assms(1) by (auto simp: py_isabs_def starts_with_def)
  then show ?thesis using assms by (simp add: path_stack_def initial_slashes_join foldl_split_join)
qed

lemma path_stack_plain: "py_isabs p \<Longrightarrow> list_all plain (path_stack p)"
  unfolding path_stack_def using initial_slashes_abs [of p]
  by (intro foldl_norm_plain split_sep_comps) auto

lemma py_join_facts:
  "py_isabs p \<Longrightarrow> list_all (\<lambda>q. \<not> starts_with ''/'' q) qs \<Longrightarrow>
   py_isabs (py_join p qs) \<and> initial_slashes (py_join p qs) = initial_slashes p \<and>
   path_stack (py_join p qs) =
     foldl (norm_step (initial_slashes p)) (path_stack p) (concat (map (split_sep (CHR ''/'')) qs))"
proof (induction qs arbitrary: p)
  case Nil
  then show ?case by (simp add: py_join_def)
next
  case (Cons q qs)
  have "py_isabs (path_join p q)" using Cons.prems(1) by (rule isabs_join)
  moreover have "initial_slashes (path_join p q) = initial_slashes p"
    using Cons.prems by (simp add: initial_slashes_join)
  moreover have "py_join p (q # qs) = py_join (path_join p q) qs" by (simp add: py_join_def)
  ultimately show ?case using Cons.IH [of "path_join p q"] Cons.prems by (simp add: path_stack_join)
qed

lemma abspath_abs: "py_isabs p \<Longrightarrow> py_abspath cwd p = render (initial_slashes p) (path_stack p)"
  by (simp add: py_abspath_def normpath_abs)

lemma normpath_join_plain:
  assumes "py_isabs b" "list_all plain ns" "ns \<noteq> []"
  shows "py_normpath (path_join b (join_sep ''/'' ns)) = render (initial_slashes b) (rev ns @ path_stack b)"
proof -
  have comps: "list_all (\<lambda>w. CHR ''/'' \<notin> set w) ns" using assms(2) by (auto simp: list_all_iff plain_def)
  have "join_sep ''/'' ns = [] \<or> hd (join_sep ''/'' ns) \<noteq> CHR ''/''"
    using render_join_hd [of "rev ns"] assms(2) by simp
  then have rel: "\<not> starts_with ''/'' (join_sep ''/'' ns)"
    by (cases "join_sep ''/'' ns") (auto simp: starts_with_def)
  have "split_sep (CHR ''/'') (join_sep ''/'' ns) = ns" using assms(3) comps by (intro split_join_sep)
  then show ?thesis using assms rel
    by (simp add: normpath_abs isabs_join initial_slashes_join path_stack_join foldl_norm_push)
qed

lemma module_dir:
  assumes "py_isabs b" "list_all plain ns" "ns \<noteq> []" "list_all (\<lambda>q. \<not> starts_with ''/'' q) qs"
  shows "py_abspath cwd (py_join (py_dirname (py_normpath (path_join b (join_sep ''/'' ns)))) qs) =
         render (initial_slashes b)
           (foldl (norm_step (initial_slashes b)) (tl (rev ns) @ path_stack b) (concat (map (split_sep (CHR ''/'')) qs)))"
proof -
  let ?i = "initial_slashes b" and ?S = "tl (rev ns) @ path_stack b"
  obtain w ws where rv: "rev ns = w # ws" using assms(3) by (cases "rev ns") auto
  have pl: "plain w" "list_all plain ?S"
    using assms(2) rv path_stack_plain [OF assms(1)] by (auto simp: list_all_iff dest: arg_cong [where f = set])
  have i: "?i \<in> {1, 2}" using assms(1) by (rule initial_slashes_abs)
  have d: "py_dirname (py_normpath (path_join b (join_sep ''/'' ns))) = render ?i ?S"
    unfolding normpath_join_plain [OF assms(1-3)] rv using dirname_render [OF i pl(1)] pl(2) rv by simp
  show ?thesis unfolding d using render_facts [OF i pl(2)] py_join_facts [OF _ assms(4), of "render ?i ?S"]
    by (simp add: abspath_abs)
qed


lemma path_join_assoc:
  assumes "\<not> starts_with ''/'' b" "\<not> starts_with ''/'' c"
  shows "path_join a (path_join b c) = path_join (path_join a b) c"
proof (cases b)
  case Nil
  then show ?thesis using assms(2) by (auto simp: path_join_def starts_with_def)
next
  case (Cons x b')
  then have "x \<noteq> CHR ''/''" using assms(1) by (simp add: starts_with_def)
  then show ?thesis using assms Cons by (auto simp: path_join_rel starts_with_def)
qed

lemma not_abs_join: "\<not> py_isabs b \<Longrightarrow> \<not> starts_with ''/'' c \<Longrightarrow> \<not> py_isabs (path_join b c)"
  by (cases b; cases c) (auto simp: path_join_rel py_isabs_def starts_with_def)

lemma abspath_join_rel:
  assumes "py_isabs cwd" "\<not> starts_with ''/'' q"
  shows "py_abspath cwd (path_join src_dir q) =
         py_normpath (path_join (if py_isabs src_dir then src_dir else path_join cwd src_dir) q)"
proof (cases "py_isabs src_dir")
  case True
  then show ?thesis by (simp add: py_abspath_def isabs_join)
next
  case False
  then have "\<not> starts_with ''/'' src_dir" by (simp add: py_isabs_def)
  with False assms show ?thesis by (simp add: py_abspath_def not_abs_join path_join_assoc)
qed


lemma join_plain_rel: "list_all plain ns \<Longrightarrow> \<not> starts_with ''/'' (join_sep ''/'' ns)"
  using render_join_hd [of "rev ns"] by (cases "join_sep ''/'' ns") (auto simp: starts_with_def)

lemma abs_base_abs: "py_isabs cwd \<Longrightarrow> py_isabs (abs_base cwd d)"
  by (simp add: abs_base_def isabs_join)

lemma data_dir_at:
  assumes "py_isabs cwd" "s = join_sep ''/'' ns" "list_all plain ns" "ns \<noteq> []"
  shows "py_abspath cwd (path_join d s) =
         render (initial_slashes (abs_base cwd d)) (rev ns @ path_stack (abs_base cwd d))"
  using abspath_join_rel [OF assms(1) join_plain_rel [OF assms(3)], of d]
    normpath_join_plain [OF abs_base_abs [OF assms(1)] assms(3,4), of d]
  by (simp add: assms(2) abs_base_def)

lemma module_dir_at:
  assumes "py_isabs cwd" "s = join_sep ''/'' ns" "list_all plain ns" "ns \<noteq> []"
    "list_all (\<lambda>q. \<not> starts_with ''/'' q) qs"
  shows "py_abspath cwd (py_join (py_dirname (py_abspath cwd (path_join d s))) qs) =
         render (initial_slashes (abs_base cwd d))
           (foldl (norm_step (initial_slashes (abs_base cwd d))) (tl (rev ns) @ path_stack (abs_base cwd d))
              (concat (map (split_sep (CHR ''/'')) qs)))"
  using abspath_join_rel [OF assms(1) join_plain_rel [OF assms(3)], of d]
    module_dir [OF abs_base_abs [OF assms(1)] assms(3,4,5), of cwd]
  by (simp add: assms(2) abs_base_def)

lemma abspath_rel:
  assumes "py_isabs cwd" "\<not> starts_with ''/'' q"
  shows "py_abspath cwd q =
         render (initial_slashes cwd) (foldl (norm_step (initial_slashes cwd)) (path_stack cwd) (split_sep (CHR ''/'') q))"
proof -
  have "\<not> py_isabs q" using assms(2) by (simp add: py_isabs_def)
  then show ?thesis using assms
    by (simp add: py_abspath_def normpath_abs isabs_join initial_slashes_join path_stack_join)
qed

lemma below_facts:
  assumes "py_isabs d" "s = join_sep ''/'' ns" "list_all plain ns"
  shows "py_isabs (path_join d s)" "initial_slashes (path_join d s) = initial_slashes d"
    "path_stack (path_join d s) = rev ns @ path_stack d"
proof -
  have "split_sep (CHR ''/'') (join_sep ''/'' ns) = ns" if "ns \<noteq> []"
    using that assms(3) by (intro split_join_sep) (auto simp: list_all_iff plain_def)
  moreover have "split_sep (CHR ''/'') (join_sep ''/'' []) = [[]]" by simp
  ultimately have "foldl (norm_step (initial_slashes d)) (path_stack d) (split_sep (CHR ''/'') s) = rev ns @ path_stack d"
    using assms(2,3) by (cases "ns = []") (simp_all add: foldl_norm_push)
  then show "py_isabs (path_join d s)" "initial_slashes (path_join d s) = initial_slashes d"
    "path_stack (path_join d s) = rev ns @ path_stack d"
    using assms join_plain_rel [OF assms(3)] by (simp_all add: isabs_join initial_slashes_join path_stack_join)
qed

text \<open>The paths that are relative to the working directory.  The cleaning script
  writes where the ingestion and the expander read only when it is started from
  \<^verbatim>\<open>backend/data/preprocessing\<close>; started from \<^verbatim>\<open>backend\<close>, the directory the
  service must run in for \<^verbatim>\<open>api/__init__.py\<close> to find its certificate, it writes
  to \<open>d/clean_data\<close>.\<close>

lemma cleaning_output_dir:
  assumes "py_isabs d" "py_isabs c"
  shows "py_abspath (path_join d ''backend/data/preprocessing'') output_folder =
           py_abspath c (path_join d ''backend/data/clean_data'')"
    "py_abspath (path_join d ''backend'') output_folder \<noteq> py_abspath c (path_join d ''backend/data/clean_data'')"
    "py_abspath (path_join d ''backend'') firebase_certificate =
           py_abspath c (path_join d ''backend/app/utils/service-account.json'')"
proof -
  let ?i = "initial_slashes d" and ?S = "path_stack d"
  note pre = below_facts [OF assms(1), of "''backend/data/preprocessing''" "[''backend'', ''data'', ''preprocessing'']"]
  note bk = below_facts [OF assms(1), of "''backend''" "[''backend'']"]
  have "abs_base c d = d" using assms(1) by (simp add: abs_base_def)
  then have cd: "py_abspath c (path_join d ''backend/data/clean_data'') = render ?i ([''clean_data'', ''data'', ''backend''] @ ?S)"
    using data_dir_at [OF assms(2), of "''backend/data/clean_data''" "[''backend'', ''data'', ''clean_data'']" d]
    by (simp add: plain_def)
  show "py_abspath (path_join d ''backend/data/preprocessing'') output_folder =
           py_abspath c (path_join d ''backend/data/clean_data'')"
    unfolding cd using pre
    by (subst abspath_rel) (simp_all add: plain_def output_folder_def starts_with_def norm_step_def)
  have "py_abspath (path_join d ''backend'') output_folder = render ?i (''clean_data'' # ?S)"
    using bk by (subst abspath_rel) (simp_all add: plain_def output_folder_def starts_with_def norm_step_def)
  moreover have "render ?i (''clean_data'' # ?S) \<noteq> render ?i ([''clean_data'', ''data'', ''backend''] @ ?S)"
  proof
    assume "render ?i (''clean_data'' # ?S) = render ?i ([''clean_data'', ''data'', ''backend''] @ ?S)"
    then have "path_stack (render ?i (''clean_data'' # ?S)) = path_stack (render ?i ([''clean_data'', ''data'', ''backend''] @ ?S))"
      by simp
    then show False using render_facts(3) initial_slashes_abs [OF assms(1)] path_stack_plain [OF assms(1)]
      by (simp add: plain_def)
  qed
  ultimately show "py_abspath (path_join d ''backend'') output_folder \<noteq> py_abspath c (path_join d ''backend/data/clean_data'')"
    using cd by simp
  have "abs_base c d = d" using assms(1) by (simp add: abs_base_def)
  then have "py_abspath c (path_join d ''backend/app/utils/service-account.json'') =
      render ?i ([''service-account.json'', ''utils'', ''app'', ''backend''] @ ?S)"
    using data_dir_at [OF assms(2), of "''backend/app/utils/service-account.json''"
        "[''backend'', ''app'', ''utils'', ''service-account.json'']" d]
    by (simp add: plain_def)
  then show "py_abspath (path_join d ''backend'') firebase_certificate =
           py_abspath c (path_join d ''backend/app/utils/service-account.json'')"
    using bk by (subst abspath_rel) (simp_all add: plain_def firebase_certificate_def starts_with_def norm_step_def)
qed

lemma deployed_dirs:
  "py_abspath ''/'' (path_join ''/srv/fixgenie/src'' ''backend/data/vector_database'') =
     ''/srv/fixgenie/src/backend/data/vector_database''"
  "sys_path_entry ''/'' ''/srv/fixgenie/src/backend/run.py'' = ''/srv/fixgenie/src''"
  by (simp_all add: py_abspath_def py_normpath_def py_isabs_def starts_with_def path_join_def initial_slashes_def
      norm_step_def sys_path_entry_def py_dirname_def py_join_def)


subsection \<open>The modules agree on the data directories\<close>

text \<open>The guide directory of the expander is the one the ingestion reads.\<close>

lemma module_json_dirs:
  assumes "py_isabs cwd"
  shows "vg_json_dir cwd (path_join d ''backend/app/api/vectordb_generator.py'') =
           py_abspath cwd (path_join d ''backend/data/clean_data'') \<and>
         finalizer_json_dir cwd (path_join d ''backend/app/utils/finalizer.py'') =
           py_abspath cwd (path_join d ''backend/data/clean_data'')"
proof -
  note mod = module_dir_at [OF assms] and dat = data_dir_at [OF assms]
  have cd: "py_abspath cwd (path_join d ''backend/data/clean_data'') =
      render (initial_slashes (abs_base cwd d)) ([''clean_data'', ''data'', ''backend''] @ path_stack (abs_base cwd d))"
    by (subst dat [of _ "[''backend'', ''data'', ''clean_data'']"]) (simp_all add: plain_def)
  have "vg_json_dir cwd (path_join d ''backend/app/api/vectordb_generator.py'') =
      py_abspath cwd (path_join d ''backend/data/clean_data'')"
    unfolding vg_json_dir_def Let_def cd
    by (subst mod [of _ "[''backend'', ''app'', ''api'', ''vectordb_generator.py'']"])
       (simp_all add: plain_def starts_with_def norm_step_def)
  moreover have "finalizer_json_dir cwd (path_join d ''backend/app/utils/finalizer.py'') =
      py_abspath cwd (path_join d ''backend/data/clean_data'')"
    unfolding finalizer_json_dir_def Let_def cd
    by (subst mod [of _ "[''backend'', ''app'', ''utils'', ''finalizer.py'']"])
       (simp_all add: plain_def starts_with_def norm_step_def)
  ultimately show ?thesis by blast
qed

text \<open>C3. Every module that names a data directory names the same one: for any
  directory \<open>d\<close> holding \<^verbatim>\<open>backend\<close> (absolute, or relative to the process's
  working directory, which is absolute), the Chroma directory computed in
  \<^verbatim>\<open>search.py\<close> (which \<^verbatim>\<open>find_closest_match\<close> queries), in \<^verbatim>\<open>agent.py\<close> and
  in \<^verbatim>\<open>vectordb_generator.py\<close> (which the ingestion writes) is
  \<open>d/backend/data/vector_database\<close>, and the guide directory of
  \<^verbatim>\<open>finalizer.py\<close> (which \<^verbatim>\<open>extract_final_data\<close> reads) and of the ingestion is
  \<open>d/backend/data/clean_data\<close>.\<close>

theorem data_dirs_agree:
  assumes "py_isabs cwd"
  shows "search_persistent_directory cwd (path_join d ''backend/app/api/agent_tools/search.py'') =
           py_abspath cwd (path_join d ''backend/data/vector_database'') \<and>
         agent_persistent_directory cwd (path_join d ''backend/app/api/agent.py'') =
           py_abspath cwd (path_join d ''backend/data/vector_database'') \<and>
         vg_persistent_directory cwd (path_join d ''backend/app/api/vectordb_generator.py'') =
           py_abspath cwd (path_join d ''backend/data/vector_database'') \<and>
         vg_json_dir cwd (path_join d ''backend/app/api/vectordb_generator.py'') =
           py_abspath cwd (path_join d ''backend/data/clean_data'') \<and>
         finalizer_json_dir cwd (path_join d ''backend/app/utils/finalizer.py'') =
           py_abspath cwd (path_join d ''backend/data/clean_data'')"
proof -
  note mod = module_dir_at [OF assms] and dat = data_dir_at [OF assms]
  have vdb: "py_abspath cwd (path_join d ''backend/data/vector_database'') =
      render (initial_slashes (abs_base cwd d)) ([''vector_database'', ''data'', ''backend''] @ path_stack (abs_base cwd d))"
    by (subst dat [of _ "[''backend'', ''data'', ''vector_database'']"]) (simp_all add: plain_def)
  have "search_persistent_directory cwd (path_join d ''backend/app/api/agent_tools/search.py'') =
      py_abspath cwd (path_join d ''backend/data/vector_database'')"
    unfolding search_persistent_directory_def Let_def vdb
    by (subst mod [of _ "[''backend'', ''app'', ''api'', ''agent_tools'', ''search.py'']"])
       (simp_all add: plain_def starts_with_def norm_step_def)
  moreover have "agent_persistent_directory cwd (path_join d ''backend/app/api/agent.py'') =
      py_abspath cwd (path_join d ''backend/data/vector_database'')"
    unfolding agent_persistent_directory_def Let_def vdb
    by (subst mod [of _ "[''backend'', ''app'', ''api'', ''agent.py'']"])
       (simp_all add: plain_def starts_with_def norm_step_def)
  moreover have "vg_persistent_directory cwd (path_join d ''backend/app/api/vectordb_generator.py'') =
      py_abspath cwd (path_join d ''backend/data/vector_database'')"
    unfolding vg_persistent_directory_def Let_def vdb
    by (subst mod [of _ "[''backend'', ''app'', ''api'', ''vectordb_generator.py'']"])
       (simp_all add: plain_def starts_with_def norm_step_def)
  ultimately show ?thesis using module_json_dirs [OF assms] by blast
qed

theorem data_dirs_agree_witness:
  "search_persistent_directory ''/'' (path_join ''/srv/fixgenie/src'' ''backend/app/api/agent_tools/search.py'') =
     py_abspath ''/'' (path_join ''/srv/fixgenie/src'' ''backend/data/vector_database'') \<and>
   agent_persistent_directory ''/'' (path_join ''/srv/fixgenie/src'' ''backend/app/api/agent.py'') =
     py_abspath ''/'' (path_join ''/srv/fixgenie/src'' ''backend/data/vector_database'') \<and>
   vg_persistent_directory ''/'' (path_join ''/srv/fixgenie/src'' ''backend/app/api/vectordb_generator.py'') =
     py_abspath ''/'' (path_join ''/srv/fixgenie/src'' ''backend/data/vector_database'') \<and>
   vg_json_dir ''/'' (path_join ''/srv/fixgenie/src'' ''backend/app/api/vectordb_generator.py'') =
     py_abspath ''/'' (path_join ''/srv/fixgenie/src'' ''backend/data/clean_data'') \<and>
   finalizer_json_dir ''/'' (path_join ''/srv/fixgenie/src'' ''backend/app/utils/finalizer.py'') =
     py_abspath ''/'' (path_join ''/srv/fixgenie/src'' ''backend/data/clean_data'')"
  by (rule data_dirs_agree) (simp add: py_isabs_def starts_with_def)


text \<open>The guard makes the initialisation idempotent: importing the package again
  keeps the app and does not read the certificate again.\<close>

lemma firebase_init_idem: "firebase_init fs cwd apps = Inr apps' \<Longrightarrow> firebase_init fs' cwd' apps' = Inr apps'"
  by (auto simp: firebase_init_def split: if_splits sum.splits)

end
