(* ===== verification/Service.thy ===== *)
theory Service
  imports Agent Ingestion Literal_Roundtrip Paths
begin

text \<open>
  The service as one process: \<^verbatim>\<open>run.py\<close> registers the Flask-RESTful
  \<^verbatim>\<open>api\<close> on the application, and the two resources are added to it by
  \<^verbatim>\<open>api.add_resource(MainAgent, "/main_agent")\<close> (\<^verbatim>\<open>api/agent.py\<close>, line 149)
  and \<^verbatim>\<open>api.add_resource(GenerateVectorDB, "/generate_vectordb")\<close>
  (\<^verbatim>\<open>api/vectordb_generator.py\<close>, line 158).  Both handlers work on one state:
  the Firestore history, the file system, and the Chroma collection persisted in
  \<^verbatim>\<open>data/vector_database\<close>, which \<^verbatim>\<open>find_closest_match\<close> queries through
  the store of \<^verbatim>\<open>agent_tools/search.py\<close> (line 13) and
  \<^verbatim>\<open>GenerateVectorDB.get\<close> appends to (the modules name the same directory:
  \<open>Paths.data_dirs_agree\<close>).  Routing follows Flask: an unknown path is answered 404, a method the
  resource does not define 405, \<^verbatim>\<open>OPTIONS\<close> by Flask's automatic handler, and
  \<^verbatim>\<open>HEAD\<close> by the resource's \<^verbatim>\<open>get\<close> with the body dropped.  The bodies of the
  framework's own answers are not modelled.  A run of the service is a sequence of
  requests served one after the other.
\<close>

record app_state =
  st_history :: chat_store
  st_files :: fsys
  st_index :: "document list"

record http_request =
  hr_method :: pystr
  hr_path :: pystr
  hr_form :: request

text \<open>The resources and the methods their classes define: \<^verbatim>\<open>MainAgent.post\<close>
  (\<^verbatim>\<open>agent.py\<close>, lines 70 and 149) and \<^verbatim>\<open>GenerateVectorDB.get\<close>
  (\<^verbatim>\<open>vectordb_generator.py\<close>, lines 89--90 and 158).\<close>

definition routes :: "pystr \<Rightarrow> pystr list option" where
  "routes = map_of [(''/main_agent'', [''POST'']), (''/generate_vectordb'', [''GET''])]"

text \<open>Flask adds \<^verbatim>\<open>HEAD\<close> to a rule that has \<^verbatim>\<open>GET\<close>, and \<^verbatim>\<open>OPTIONS\<close> to
  every rule.\<close>

definition allowed_methods :: "pystr list \<Rightarrow> pystr list" where
  "allowed_methods ms = ms @ (if ''GET'' \<in> set ms then [''HEAD''] else []) @ [''OPTIONS'']"

definition framework_response :: "int \<Rightarrow> int \<times> pyval" where
  "framework_response code = (code, PNone)"

text \<open>The agent's vector store, the \<^verbatim>\<open>vector_db\<close> of \<^verbatim>\<open>search.py\<close>, reads the
  persisted collection.\<close>

definition agent_services :: "services \<Rightarrow> app_state \<Rightarrow> services" where
  "agent_services svc s = svc\<lparr>svc_agent := (svc_agent svc)\<lparr>vector_index := st_index s\<rparr>\<rparr>"

definition serve_main_agent :: "services \<Rightarrow> request \<Rightarrow> app_state \<Rightarrow> (int \<times> pyval) \<times> app_state" where
  "serve_main_agent svc rq s =
     (case main_agent_post (agent_services svc s) rq \<lparr>w_history = st_history s, w_files = st_files s\<rparr> of
        (resp, w') \<Rightarrow> (resp, s\<lparr>st_history := w_history w', st_files := w_files w'\<rparr>))"

definition serve_generate_vectordb :: "ingest_env \<Rightarrow> app_state \<Rightarrow> ((int \<times> pyval) \<times> app_state) option" where
  "serve_generate_vectordb env s =
     map_option (\<lambda>(resp, store). (resp, s\<lparr>st_index := store\<rparr>))
       (generate_vectordb (env\<lparr>ie_files := st_files s\<rparr>) (st_index s))"

text \<open>One request; \<open>None\<close> is a request that never returns (the ingestion's
  retry loop).\<close>

definition serve :: "services \<Rightarrow> ingest_env \<Rightarrow> http_request \<Rightarrow> app_state \<Rightarrow> ((int \<times> pyval) \<times> app_state) option" where
  "serve svc env r s =
     (case routes (hr_path r) of
        None \<Rightarrow> Some (framework_response 404, s)
      | Some ms \<Rightarrow>
          (if hr_method r \<notin> set (allowed_methods ms) then Some (framework_response 405, s)
           else if hr_method r = ''OPTIONS'' then Some (framework_response 200, s)
           else if hr_path r = ''/main_agent'' then Some (serve_main_agent svc (hr_form r) s)
           else map_option (\<lambda>(resp, s'). (if hr_method r = ''HEAD'' then (fst resp, PNone) else resp, s'))
                  (serve_generate_vectordb env s)))"

fun serve_all :: "services \<Rightarrow> ingest_env \<Rightarrow> http_request list \<Rightarrow> app_state \<Rightarrow> ((int \<times> pyval) list \<times> app_state) option" where
  "serve_all svc env [] s = Some ([], s)"
| "serve_all svc env (r # rs) s =
     (case serve svc env r s of
        None \<Rightarrow> None
      | Some (resp, s') \<Rightarrow> map_option (\<lambda>(resps, s''). (resp # resps, s'')) (serve_all svc env rs s'))"


subsection \<open>Scenario\<close>

text \<open>Scenario 1 of the spec served by the application, followed by a request to
  a path no resource is registered for.\<close>

definition lg_app_state :: app_state where
  "lg_app_state = \<lparr>st_history = w_history lg_world, st_files = w_files lg_world,
                    st_index = vector_index (svc_agent lg_services)\<rparr>"

definition lg_http_requests :: "http_request list" where
  "lg_http_requests = [\<lparr>hr_method = ''POST'', hr_path = ''/main_agent'', hr_form = lg_request\<rparr>,
                       \<lparr>hr_method = ''GET'', hr_path = ''/agent'', hr_form = lg_request\<rparr>]"


text \<open>An installation below \<^verbatim>\<open>/srv/fixgenie/src\<close> holding the LG guide, with a
  model that always answers.\<close>

definition deployed_env :: ingest_env where
  "deployed_env =
     \<lparr>ie_files = (\<lambda>p. if p = ''/srv/fixgenie/src/backend/data/clean_data/lg_wm3488hw.json'' then Some (FJson lg_guide)
                      else None),
      ie_dir_exists = True, ie_listing = [''lg_wm3488hw.json''],
      ie_dumps = (\<lambda>v. ''LG guide''), ie_llm = (\<lambda>prompt attempt. GenText ''Clean the drain pump filter.''),
      ie_json_dir = ''/srv/fixgenie/src/backend/data/clean_data'',
      ie_persist_dir = ''/srv/fixgenie/src/backend/data/vector_database''\<rparr>"

subsection \<open>Properties\<close>

lemma head_runs_ingestion:
  "serve svc env \<lparr>hr_method = ''HEAD'', hr_path = ''/generate_vectordb'', hr_form = f\<rparr> s =
     map_option (\<lambda>(resp, s'). ((fst resp, PNone), s'))
       (serve svc env \<lparr>hr_method = ''GET'', hr_path = ''/generate_vectordb'', hr_form = f\<rparr> s)"
  by (simp add: serve_def routes_def allowed_methods_def option.map_comp comp_def case_prod_unfold)

lemma serve_main_agent_append_only:
  "serve_main_agent svc rq s = (resp, s') \<Longrightarrow>
     (\<forall>u. prefix (st_history s u) (st_history s' u)) \<and> st_index s' = st_index s"
  unfolding serve_main_agent_def
  by (auto split: prod.splits dest: main_agent_post_history_prefix)

lemma serve_generate_vectordb_append_only:
  "serve_generate_vectordb env s = Some (resp, s') \<Longrightarrow>
     st_history s' = st_history s \<and> (\<exists>ds. st_index s' = st_index s @ ds)"
  unfolding serve_generate_vectordb_def
  by (auto dest: generate_vectordb_appends)

lemma serve_cases:
  assumes "serve svc env r s = Some (resp, s')"
  obtains "s' = s"
    | "serve_main_agent svc (hr_form r) s = (resp, s')"
    | resp' where "serve_generate_vectordb env s = Some (resp', s')"
  using assms unfolding serve_def
  by (auto split: option.splits if_splits)

lemma serve_append_only:
  "serve svc env r s = Some (resp, s') \<Longrightarrow>
     (\<forall>u. prefix (st_history s u) (st_history s' u)) \<and> (\<exists>ds. st_index s' = st_index s @ ds)"
  by (erule serve_cases) (auto dest: serve_main_agent_append_only serve_generate_vectordb_append_only)

text \<open>C2. The service only ever appends to what it keeps: over any sequence of
  requests to the application, whatever routes they take and whichever of them
  fail, every user's stored conversation is a prefix of the conversation after, and
  the vector index is the index before followed by the documents added.\<close>

theorem serve_all_append_only:
  "serve_all svc env rs s = Some (resps, s') \<Longrightarrow>
     (\<forall>u. prefix (st_history s u) (st_history s' u)) \<and> (\<exists>ds. st_index s' = st_index s @ ds)"
proof (induction rs arbitrary: s resps)
  case Nil
  then show ?case by simp
next
  case (Cons r rs)
  then obtain resp s1 resps' where s1: "serve svc env r s = Some (resp, s1)"
    and rest: "serve_all svc env rs s1 = Some (resps', s')"
    by (auto split: option.splits prod.splits)
  from serve_append_only [OF s1] Cons.IH [OF rest] show ?case
    by (auto intro: prefix_order.trans)
qed

lemma lg_app_services: "agent_services lg_services lg_app_state = lg_services"
  by (simp add: agent_services_def lg_app_state_def)

lemma lg_app_world: "\<lparr>w_history = st_history lg_app_state, w_files = st_files lg_app_state\<rparr> = lg_world"
  by (simp add: lg_app_state_def)

lemma lg_serve_all:
  "serve_all lg_services scenario4_env lg_http_requests lg_app_state =
     Some ([success_response ''Step 1: Unplug the washer. Step 2: Clean the drain pump filter.'', framework_response 404],
           lg_app_state\<lparr>st_history := (\<lambda>u. [])(''u1'' := [HumanMessage ''my LG washing machine shows error OE'',
                                       AIMessage ''Step 1: Unplug the washer. Step 2: Clean the drain pump filter.'']),
                        st_files := w_files lg_world\<rparr>)"
  by (simp add: lg_http_requests_def serve_def routes_def allowed_methods_def serve_main_agent_def
      lg_app_services lg_app_world lg_run)

theorem serve_all_append_only_witness:
  "\<exists>resps s'. serve_all lg_services scenario4_env lg_http_requests lg_app_state = Some (resps, s') \<and>
     prefix (st_history lg_app_state ''u1'') (st_history s' ''u1'') \<and> st_index s' = st_index lg_app_state"
  using serve_all_append_only [OF lg_serve_all] lg_serve_all by (simp add: lg_app_state_def lg_world_def)


subsection \<open>The literal protocol between the matcher and the answer\<close>

text \<open>C20. When the agent's answer is read with Python's \<^verbatim>\<open>ast.literal_eval\<close>
  and the answer is the \<^verbatim>\<open>repr\<close> of a dictionary with a \<^verbatim>\<open>filename\<close> key (the
  observation of \<^verbatim>\<open>find_closest_match\<close>, which the prompt tells the agent to
  return unchanged), \<^verbatim>\<open>MainAgent.post\<close> takes the structured path on exactly
  that dictionary: the guide it names is loaded by \<^verbatim>\<open>extract_final_data\<close> and
  restructured by the model.\<close>

theorem final_response_echo:
  assumes "svc_literal_eval svc = py_literal_eval" "repr_ok fr 200 (PDict d)" "dict_has d ''filename''"
  shows "final_response svc fs (py_repr fr (PDict d)) =
           (case extract_final_data (svc_json_dir svc) fs d of
              Inl e \<Rightarrow> Inl e
            | Inr record \<Rightarrow> restructure (svc_gemini svc) record)"
  using literal_eval_py_repr [OF assms(2)] assms(1,3) by (simp add: final_response_def sniff_output_def)

lemma lg_metadata_repr:
  "repr_ok (\<lambda>r. ''0.2'') 200 (PDict [(''filename'', PStr ''lg_wm3488hw.json''), (''title'', PStr ''LG WM3488HW OE Error''),
                                     (''similarity_score'', PFloat (1 / 5))]) \<and>
   py_repr (\<lambda>r. ''0.2'') (PDict [(''filename'', PStr ''lg_wm3488hw.json''), (''title'', PStr ''LG WM3488HW OE Error''),
                                 (''similarity_score'', PFloat (1 / 5))]) = lg_metadata_text"
proof
  show "repr_ok (\<lambda>r. ''0.2'') 200 (PDict [(''filename'', PStr ''lg_wm3488hw.json''), (''title'', PStr ''LG WM3488HW OE Error''),
                                     (''similarity_score'', PFloat (1 / 5))])"
    using float_text_decimal by simp
  show "py_repr (\<lambda>r. ''0.2'') (PDict [(''filename'', PStr ''lg_wm3488hw.json''), (''title'', PStr ''LG WM3488HW OE Error''),
                                 (''similarity_score'', PFloat (1 / 5))]) = lg_metadata_text"
    by (simp add: lg_metadata_text_def str_repr_plain squote_def dquote_def bslash_def)
qed

theorem final_response_echo_witness:
  "final_response (lg_services\<lparr>svc_literal_eval := py_literal_eval\<rparr>) (w_files lg_world) lg_metadata_text =
     Inr ''Step 1: Unplug the washer. Step 2: Clean the drain pump filter.''"
proof -
  let ?svc = "lg_services\<lparr>svc_literal_eval := py_literal_eval\<rparr>"
  let ?d = "[(''filename'', PStr ''lg_wm3488hw.json''), (''title'', PStr ''LG WM3488HW OE Error''),
             (''similarity_score'', PFloat (1 / 5))]"
  have "final_response ?svc (w_files lg_world) (py_repr (\<lambda>r. ''0.2'') (PDict ?d)) =
      (case extract_final_data (svc_json_dir ?svc) (w_files lg_world) ?d of
         Inl e \<Rightarrow> Inl e
       | Inr record \<Rightarrow> restructure (svc_gemini ?svc) record)"
    by (rule final_response_echo) (simp_all add: lg_metadata_repr float_text_decimal dict_has_map_of)
  then show ?thesis unfolding lg_metadata_repr [THEN conjunct2]
    by (simp add: lg_services_def lg_world_def extract_final_data_def final_fields_def final_title_def
        set_if_truthy_def restructure_def clean_text_def model_simps lg_record_def)
qed

text \<open>C29. The sniffing step of \<^verbatim>\<open>MainAgent.post\<close> (lines 126--129) with
  Python's \<^verbatim>\<open>ast.literal_eval\<close> recovers every value a tool returns when the
  agent echoes its \<^verbatim>\<open>repr\<close>: floats printed as decimal literals, dictionaries
  with distinct keys, at most 200 levels of nesting.\<close>

theorem sniff_output_repr:
  "repr_ok fr 200 v \<Longrightarrow> sniff_output py_literal_eval (py_repr fr v) = Inr v"
  by (simp add: sniff_output_def literal_eval_py_repr)

theorem sniff_output_repr_witness:
  "sniff_output py_literal_eval lg_metadata_text =
     Inr (PDict [(''filename'', PStr ''lg_wm3488hw.json''), (''title'', PStr ''LG WM3488HW OE Error''),
                 (''similarity_score'', PFloat (1 / 5))])"
  using sniff_output_repr [OF lg_metadata_repr [THEN conjunct1]] lg_metadata_repr by simp

text \<open>C30. The nesting bound at the sniffing step: an answer of \<open>k + 1\<close> nested
  empty lists is read as that value when \<open>k < 200\<close>; beyond, \<^verbatim>\<open>literal_eval\<close>
  raises \<^verbatim>\<open>SyntaxError\<close>, which line 128 catches, and the answer is kept as
  text.\<close>

theorem sniff_output_depth:
  "sniff_output py_literal_eval (replicate (Suc k) (CHR ''['') @ replicate (Suc k) (CHR '']'')) =
     (if k < 200 then Inr (nest k) else Inr (PStr (replicate (Suc k) (CHR ''['') @ replicate (Suc k) (CHR '']''))))"
  by (simp add: sniff_output_def literal_eval_depth del: replicate_Suc)

text \<open>The \<^verbatim>\<open>literal_eval\<close> of the services of scenario 1 agrees with Python's on
  the answer the agent gives there.\<close>

lemma lg_literal_eval_faithful:
  "svc_literal_eval lg_services lg_metadata_text = py_literal_eval lg_metadata_text"
  using literal_eval_py_repr [OF lg_metadata_repr [THEN conjunct1]] lg_metadata_repr
  by (simp add: lg_services_def)


text \<open>Of the exceptions of \<^verbatim>\<open>literal_eval\<close> only \<^verbatim>\<open>ValueError\<close> and
  \<^verbatim>\<open>SyntaxError\<close> are caught (\<^verbatim>\<open>agent.py\<close>, line 128): an answer that is a
  dictionary display with an unhashable key raises \<^verbatim>\<open>TypeError\<close> out of the
  final step, and the request fails.\<close>

lemma final_response_unhashable_key:
  "final_response (svc\<lparr>svc_literal_eval := py_literal_eval\<rparr>) fs ''{[]: 1}'' = Inl TypeError"
  using literal_eval_unhashable by (simp add: final_response_def sniff_output_def)


subsection \<open>Ingested guides are the ones the expander loads\<close>

lemma basename_join:
  assumes "CHR ''/'' \<notin> set f"
  shows "py_basename (path_join dir f) = f"
proof -
  have all: "takeWhile (\<lambda>c. c \<noteq> CHR ''/'') (rev f) = rev f" using assms by (auto simp: takeWhile_eq_all_conv)
  have sep: "py_basename (u @ CHR ''/'' # f) = f" for u
    using assms by (simp add: py_basename_def) (subst takeWhile_append2, auto)
  have "\<not> starts_with ''/'' f" using assms by (cases f) (auto simp: starts_with_def)
  then show ?thesis
  proof (cases dir rule: rev_cases)
    case Nil
    then show ?thesis using \<open>\<not> starts_with ''/'' f\<close> by (simp add: path_join_rel py_basename_def all)
  next
    case (snoc ys y)
    then show ?thesis using \<open>\<not> starts_with ''/'' f\<close> sep [of ys] sep [of dir]
      by (cases "y = CHR ''/''") (simp_all add: path_join_rel)
  qed
qed

text \<open>C28. Ingestion and expansion agree on the guides: when both modules compute
  their directories in one installation, every document a successful ingestion
  stores names a file of the listing that it read, and
  \<^verbatim>\<open>extract_final_data\<close> on that document's metadata returns the fields of
  exactly that guide.\<close>

theorem indexed_guides_expand:
  assumes run: "generate_vectordb env store = Some ((200, r), store')"
    and cwd: "py_isabs cwd"
    and dirs: "ie_json_dir env = vg_json_dir cwd (path_join d ''backend/app/api/vectordb_generator.py'')"
      "svc_json_dir svc = finalizer_json_dir cwd (path_join d ''backend/app/utils/finalizer.py'')"
    and names: "list_all (\<lambda>f. CHR ''/'' \<notin> set f) (ie_listing env)"
  shows "list_all (\<lambda>doc. \<exists>f data. f \<in> set (ie_listing env) \<and>
            dict_get (doc_metadata doc) ''filename'' PNone = PStr f \<and>
            read_json (ie_files env) (path_join (ie_json_dir env) f) = Inr data \<and>
            extract_final_data (svc_json_dir svc) (ie_files env) (doc_metadata doc) = final_fields data)
           (drop (length store) store')"
proof -
  let ?json = "filter (\<lambda>f. py_endswith f ''.json'') (ie_listing env)"
  obtain docs where i: "ingest_files env ?json [] = Some (Inr docs)" and st: "store' = store @ docs"
    using run by (rule generate_vectordb_200E)
  have m: "map (\<lambda>doc. dict_get (doc_metadata doc) ''filename'' PNone) docs =
      map (\<lambda>f. PStr (py_basename (path_join (ie_json_dir env) f)))
        (filter (\<lambda>f. \<not> isl (read_json (ie_files env) (path_join (ie_json_dir env) f))) ?json)"
    using ingest_files_success [OF i] by simp
  have same: "svc_json_dir svc = ie_json_dir env" using dirs module_json_dirs [OF cwd, of d] by simp
  have "\<exists>f data. f \<in> set (ie_listing env) \<and> dict_get (doc_metadata doc) ''filename'' PNone = PStr f \<and>
          read_json (ie_files env) (path_join (ie_json_dir env) f) = Inr data \<and>
          extract_final_data (svc_json_dir svc) (ie_files env) (doc_metadata doc) = final_fields data"
    if doc: "doc \<in> set docs" for doc
  proof -
    have "dict_get (doc_metadata doc) ''filename'' PNone \<in> set (map (\<lambda>doc. dict_get (doc_metadata doc) ''filename'' PNone) docs)"
      using doc by simp
    then obtain f where f: "f \<in> set (ie_listing env)" "py_endswith f ''.json''"
        "\<not> isl (read_json (ie_files env) (path_join (ie_json_dir env) f))"
        "dict_get (doc_metadata doc) ''filename'' PNone = PStr (py_basename (path_join (ie_json_dir env) f))"
      unfolding m by auto
    obtain data where data: "read_json (ie_files env) (path_join (ie_json_dir env) f) = Inr data"
      using f(3) by (cases "read_json (ie_files env) (path_join (ie_json_dir env) f)") auto
    have "CHR ''/'' \<notin> set f" using names f(1) by (simp add: list_all_iff)
    then have fn: "dict_get (doc_metadata doc) ''filename'' PNone = PStr f" using f(4) by (simp add: basename_join)
    have "f \<noteq> []" using f(2) by (auto simp: py_endswith_def)
    then have "extract_final_data (svc_json_dir svc) (ie_files env) (doc_metadata doc) = final_fields data"
      using fn data same by (simp add: extract_final_data_def Let_def)
    then show ?thesis using f(1) fn data by blast
  qed
  then show ?thesis using st by (simp add: list_all_iff)
qed

lemma nat_str_1: "nat_str (Suc 0) = ''1''"
  by code_simp

lemma deployed_run:
  "generate_vectordb deployed_env [] =
     Some ((200, PDict [(''message'', PStr ''Vector DB created successfully with 1 entries''),
                        (''persist_dir'', PStr ''/srv/fixgenie/src/backend/data/vector_database''), (''files_added'', PInt 1)]),
           [\<lparr>page_content = ''Clean the drain pump filter.'',
              doc_metadata = [(''filename'', PStr ''lg_wm3488hw.json''), (''title'', PStr ''LG WM3488HW OE Error'')]\<rparr>])"
proof -
  have s: "generate_gemini_summary (ie_llm deployed_env) (ie_dumps deployed_env lg_guide) = Some ''Clean the drain pump filter.''"
    by (simp add: generate_gemini_summary_def deployed_env_def summary_loop.simps clean_text_def model_simps)
  have t: "extract_title lg_guide = Inr ''LG WM3488HW OE Error''"
    by (simp add: extract_title_def title_from_metadata_def lg_guide_def model_simps)
  have env: "ie_dir_exists deployed_env" "ie_json_dir deployed_env = ''/srv/fixgenie/src/backend/data/clean_data''"
    "ie_persist_dir deployed_env = ''/srv/fixgenie/src/backend/data/vector_database''"
    "ie_listing deployed_env = [''lg_wm3488hw.json'']"
    "ie_files deployed_env = (\<lambda>p. if p = ''/srv/fixgenie/src/backend/data/clean_data/lg_wm3488hw.json''
                                    then Some (FJson lg_guide) else None)"
    by (simp_all add: deployed_env_def)
  note n1 = nat_str_1
  show ?thesis
    by (simp add: generate_vectordb_def s t env py_endswith_def Let_def model_simps py_basename_def
        del: ingest_files.simps(2)) (simp add: Let_def model_simps py_basename_def env s t n1 del: nat_str.simps)
qed

theorem indexed_guides_expand_witness:
  "list_all (\<lambda>doc. \<exists>f data. f \<in> set (ie_listing deployed_env) \<and>
            dict_get (doc_metadata doc) ''filename'' PNone = PStr f \<and>
            read_json (ie_files deployed_env) (path_join (ie_json_dir deployed_env) f) = Inr data \<and>
            extract_final_data (svc_json_dir (lg_services\<lparr>svc_json_dir := ''/srv/fixgenie/src/backend/data/clean_data''\<rparr>))
              (ie_files deployed_env) (doc_metadata doc) = final_fields data)
     [\<lparr>page_content = ''Clean the drain pump filter.'',
       doc_metadata = [(''filename'', PStr ''lg_wm3488hw.json''), (''title'', PStr ''LG WM3488HW OE Error'')]\<rparr>]"
proof -
  let ?svc = "lg_services\<lparr>svc_json_dir := ''/srv/fixgenie/src/backend/data/clean_data''\<rparr>"
  have dirs: "ie_json_dir deployed_env = vg_json_dir ''/'' (path_join ''/srv/fixgenie/src'' ''backend/app/api/vectordb_generator.py'')"
    "svc_json_dir ?svc = finalizer_json_dir ''/'' (path_join ''/srv/fixgenie/src'' ''backend/app/utils/finalizer.py'')"
    by (simp_all add: deployed_env_def vg_json_dir_def finalizer_json_dir_def py_abspath_def py_normpath_def
        py_isabs_def starts_with_def path_join_def initial_slashes_def norm_step_def py_dirname_def py_join_def)
  have names: "list_all (\<lambda>f. CHR ''/'' \<notin> set f) (ie_listing deployed_env)" by (simp add: deployed_env_def)
  have cwd: "py_isabs ''/''" by (simp add: py_isabs_def starts_with_def)
  have "list_all (\<lambda>doc. \<exists>f data. f \<in> set (ie_listing deployed_env) \<and>
            dict_get (doc_metadata doc) ''filename'' PNone = PStr f \<and>
            read_json (ie_files deployed_env) (path_join (ie_json_dir deployed_env) f) = Inr data \<and>
            extract_final_data (svc_json_dir ?svc) (ie_files deployed_env) (doc_metadata doc) = final_fields data)
     (drop (length ([] :: document list))
       [\<lparr>page_content = ''Clean the drain pump filter.'',
         doc_metadata = [(''filename'', PStr ''lg_wm3488hw.json''), (''title'', PStr ''LG WM3488HW OE Error'')]\<rparr>])"
    by (rule indexed_guides_expand [OF deployed_run cwd dirs names])
  then show ?thesis by (simp only: list.size(3) drop_0)
qed

end
