(* ===== verification/Spec2Isabelle.thy ===== *)
theory Spec2Isabelle
  imports Agent VideoRace Ingestion Redundant Prompt Service Paths
begin

text \<open>
  Verification development of the FixGenie repair-assistant backend
  (\<^verbatim>\<open>src/backend\<close>), a Flask service that answers a repair question, with
  optional image, audio and video uploads, through a LangChain ReAct agent over a
  Chroma index of repair guides, and an offline pipeline that builds that index.

  \<^bold>\<open>Parts and how they interact.\<close>  A request to \<^verbatim>\<open>/main_agent\<close>
  (\<^verbatim>\<open>api/agent.py\<close>, \<^verbatim>\<open>MainAgent.post\<close>) base64-encodes each upload, has
  it described by a modality describer (\<^verbatim>\<open>api/agent_tools/*_description.py\<close>),
  logs the query in the user's Firestore history, runs the agent executor with the
  tools \<^verbatim>\<open>find_closest_match\<close> (\<^verbatim>\<open>search.py\<close>) and
  \<^verbatim>\<open>get_chat_history\<close> (\<^verbatim>\<open>history_retrieval.py\<close>), sniffs the answer
  with \<^verbatim>\<open>ast.literal_eval\<close>, expands a matched guide with
  \<^verbatim>\<open>extract_final_data\<close> (\<^verbatim>\<open>utils/finalizer.py\<close>), has it restructured by
  the model, cleans text with \<^verbatim>\<open>clean_text\<close>, and logs and returns the answer.
  Offline, \<^verbatim>\<open>data/preprocessing/redundant.py\<close> cleans the raw guides and
  \<^verbatim>\<open>/generate_vectordb\<close> (\<^verbatim>\<open>api/vectordb_generator.py\<close>) summarises each
  clean guide with the model and stores the summaries in the index.

  \<^bold>\<open>Theories.\<close>
  \<^item> \<open>Prelude\<close>: Python values (\<open>pyval\<close>, dictionaries as association lists
    with \<open>dict_get\<close>, \<open>dict_set\<close>), exceptions as \<open>exc + 'a\<close>, model
    responses (\<open>gen_response\<close>), the file system as a map from paths to
    contents, \<open>read_json\<close>, \<open>path_join\<close> (posixpath), \<open>str.strip\<close>, and the
    shared lemmas on them.
  \<^item> \<open>TextNormalizer\<close>: \<^verbatim>\<open>clean_text\<close> (four identical copies in the
    describers and the ingestion module) as five passes of a faithful model of a
    lazy, newline-bounded \<^verbatim>\<open>re.sub\<close> (\<open>re_sub_group\<close>) and \<open>py_strip\<close>.
    Lemmas: idempotence (C1), identity on plain text, deletion only
    (\<open>clean_text_subseq\<close>).
  \<^item> \<open>Matcher\<close>: \<^verbatim>\<open>find_closest_match\<close> over the store query (the \<open>k\<close>
    nearest documents for an arbitrary distance, from the spec) and its contract
    \<open>match_spec\<close>; refinement theorem C4.
  \<^item> \<open>Finalizer\<close>: \<^verbatim>\<open>extract_final_data\<close>, every branch; C5--C8, including
    the exceptions raised outside its \<^verbatim>\<open>try\<close> and the absolute-path read.
  \<^item> \<open>Base64\<close>: \<^verbatim>\<open>b64encode\<close>/\<^verbatim>\<open>b64decode\<close> on canonical input (library
    semantics, after RFC 4648), with the lemmas the agent's claims use: the round
    trip \<open>b64_roundtrip\<close> and the length and character bounds
    \<open>b64encode_bounds\<close>.
  \<^item> \<open>Describers\<close>: \<^verbatim>\<open>describe_image\<close> (OCR, vision, few-shot chat),
    \<^verbatim>\<open>describe_audio\<close>, \<^verbatim>\<open>describe_video\<close> with the statements outside its
    \<^verbatim>\<open>try\<close>: the write of the temporary file (which may fail on opening or on
    writing) and the model set-up (which may raise); C10--C13.  C12 states exactly
    when \<^verbatim>\<open>describe_video\<close> raises, C13 that a normal return leaves no
    temporary file, and \<open>describe_video_setup_leaks\<close> that a failing set-up leaves
    it behind.
  \<^item> \<open>VideoRace\<close>: concurrent \<^verbatim>\<open>describe_video\<close> calls as an inductive step
    relation over the shared path, an ownership invariant by rule induction, an
    executable scheduler proved equal to the relation; C14 (the file is gone once
    all calls finished), C15 (the \<^verbatim>\<open>os.remove\<close> race).
  \<^item> \<open>History\<close>: the Firestore log (spec-modelled) and
    \<^verbatim>\<open>get_chat_history\<close>; C16.
  \<^item> \<open>Agent\<close>: the executor loop and \<^verbatim>\<open>MainAgent.post\<close> as a function of
    services, request and world (history and files); C9 and C35 (the upload
    encoding \<^verbatim>\<open>convert_to_base64\<close> decodes back to the upload and has the
    length and alphabet of base64), C17, C18, C19 and C33.  The spec's end-to-end
    scenarios 1 and 3 are run as the lemmas \<open>lg_scenario\<close>,
    \<open>main_agent_post_success\<close> and \<open>main_agent_post_free_text\<close>.
  \<^item> \<open>Ingestion\<close>: \<^verbatim>\<open>extract_title\<close>, the retry loop
    \<^verbatim>\<open>generate_gemini_summary\<close>, \<^verbatim>\<open>GenerateVectorDB.get\<close>; C22--C27, the
    spec's scenario 4 run as the lemma \<open>scenario4\<close>, and \<open>scenario4_rerun_duplicates\<close>: a second run stores every
    summary again.
  \<^item> \<open>Redundant\<close>: \<^verbatim>\<open>clean_json_file\<close> and \<^verbatim>\<open>process_json_folder\<close>;
    C31, C32, and idempotence of the cleaning (\<open>clean_record_idem\<close>).
  \<^item> \<open>Literal\<close> and \<open>Literal_Roundtrip\<close>: the text protocol between the
    tools and \<^verbatim>\<open>MainAgent.post\<close>.  The matcher's dictionary reaches the agent as
    its \<^verbatim>\<open>str\<close>, CPython's \<^verbatim>\<open>repr\<close> (\<open>py_repr\<close>, with \<open>str_repr\<close>
    following \<^verbatim>\<open>unicode_repr\<close>), and the answer is read back by
    \<^verbatim>\<open>ast.literal_eval\<close> (\<open>py_literal_eval\<close>: \<open>parse_lit\<close> for
    \<^verbatim>\<open>ast.parse\<close> with the tokenizer's limit of 200 nested brackets,
    \<open>lit_value\<close> for \<^verbatim>\<open>_convert\<close>).  Both are library semantics, written
    from the Python reference and CPython and checked against CPython 3.11 on
    sample texts.  The parser is a mutual \<open>function\<close> that terminates by the length
    of the remaining text.  C29: \<^verbatim>\<open>literal_eval\<close> reads back the
    \<^verbatim>\<open>repr\<close> of every value with decimal float text, distinct keys and at most
    200 levels of nesting (\<open>repr_ok\<close>), proved through \<open>repr_parse\<close> for a
    \<^verbatim>\<open>repr\<close> followed by any text that may end a literal; C30: exactly 200
    levels are accepted.
  \<^item> \<open>Prompt\<close>: the three system templates of \<^verbatim>\<open>utils/strings.py\<close>
    verbatim, the human message and \<^verbatim>\<open>create_react_agent\<close>'s variable check
    of \<^verbatim>\<open>agent.py\<close> (lines 44--52), and formatting with the agent input;
    templates are parsed as \<^verbatim>\<open>string.Formatter.parse\<close> does.  Parsing is
    compositional (\<open>parse_fstring_append\<close>), so a template is checked line by
    line.  C34: the prompt is well formed and formats the agent input without
    \<^verbatim>\<open>KeyError\<close>; \<open>title_rule_only_in_unused_templates\<close> shows that the
    title check of spec 4.3 is only in the unused templates.
  \<^item> \<open>Service\<close>: the application of \<^verbatim>\<open>run.py\<close> with the routes of
    \<^verbatim>\<open>api.add_resource\<close> (\<^verbatim>\<open>agent.py\<close> line 149,
    \<^verbatim>\<open>vectordb_generator.py\<close> line 158) and Flask's method dispatch, over one
    state \<open>app_state\<close> of history, files and the persisted index that the
    agent's store reads and the ingestion appends to; \<open>serve_all\<close> serves a
    sequence of requests.  C2: history and index only grow by appending, over any
    run; \<open>head_runs_ingestion\<close>: a \<^verbatim>\<open>HEAD\<close> request runs the ingestion.
    C28 composes the ingestion, \<open>Paths\<close> and the expander: in one installation
    every document a successful ingestion stores leads \<^verbatim>\<open>extract_final_data\<close>
    back to the very guide that was summarised (\<open>deployed_env\<close> is a
    one-guide installation below \<^verbatim>\<open>/srv/fixgenie/src\<close> for its witness).
    C20 composes the agent with \<open>Literal\<close>: when the answer is the echoed
    \<^verbatim>\<open>repr\<close> of a dictionary naming a guide, the structured path runs on that
    very dictionary.  \<open>lg_literal_eval_faithful\<close> shows that the
    \<^verbatim>\<open>literal_eval\<close> of scenario 1 agrees with \<open>py_literal_eval\<close>, and
    \<open>final_response_unhashable_key\<close> that a \<^verbatim>\<open>TypeError\<close> of
    \<^verbatim>\<open>literal_eval\<close> escapes the sniffing step.
  \<^item> \<open>Paths\<close>: the module-level configuration.  \<^verbatim>\<open>posixpath\<close>'s
    \<^verbatim>\<open>join\<close>, \<^verbatim>\<open>normpath\<close> (a fold of \<open>norm_step\<close> over the components),
    \<^verbatim>\<open>abspath\<close> and \<^verbatim>\<open>dirname\<close> (library semantics, after CPython), the
    directories each module computes from its \<^verbatim>\<open>__file__\<close>
    (\<^verbatim>\<open>agent.py\<close> 33--34, \<^verbatim>\<open>search.py\<close> 8--9,
    \<^verbatim>\<open>vectordb_generator.py\<close> 21--23, \<^verbatim>\<open>finalizer.py\<close> 4--5), the
    \<^verbatim>\<open>sys.path\<close> entry of \<^verbatim>\<open>run.py\<close>, the working-directory-relative paths
    of \<^verbatim>\<open>redundant.py\<close> and \<^verbatim>\<open>api/__init__.py\<close>, and the guarded Firebase
    initialisation.  Normalised absolute paths are reasoned about as stacks of
    names (\<open>render\<close>, \<open>path_stack\<close>).  C3: for any installation directory
    the index \<^verbatim>\<open>find_closest_match\<close> queries is the one ingestion writes, and
    the guides \<^verbatim>\<open>extract_final_data\<close> reads are the ones ingestion indexed.
    This is the fact behind the single \<open>app_state\<close> of \<open>Service\<close>.
    \<open>cleaning_output_dir\<close>: the cleaning script writes there only when
    started from \<^verbatim>\<open>backend/data/preprocessing\<close>.
  \<^item> This theory: C21, which spans the normaliser and the orchestrator.

  \<^bold>\<open>Effects and errors.\<close>  Each exception the code can raise on a modelled
  path is an \<open>Inl\<close> value of \<open>exc\<close>; \<^verbatim>\<open>MainAgent.post\<close> maps any of them to
  the generic 500 answer and keeps the effects made before (the logged query, the
  file-system changes).  Model calls, OCR, \<^verbatim>\<open>json.dumps\<close> and the
  embedding distance are parameters about which nothing is assumed, and so is
  \<^verbatim>\<open>ast.literal_eval\<close> in \<open>Agent\<close>; \<open>Service\<close> instantiates it with
  \<open>py_literal_eval\<close>; the planner stands for the ReAct language model and output
  parser.

  \<^bold>\<open>Bounds and termination.\<close>  The executor is a structural loop on the
  iteration budget, instantiated with LangChain's default \<^verbatim>\<open>max_iterations\<close>
  = 15, the value in force since \<^verbatim>\<open>agent.py\<close> sets none; C17 shows it always
  stops within that budget.  The summary generator's \<^verbatim>\<open>while True\<close> loop is a
  \<open>partial_function (option)\<close>; C22 and C24 state exactly when it and the
  ingestion loop return and C27 that they may not.  No fuel is used elsewhere: the
  regex passes terminate by a length measure, the other loops are structural.

  \<^bold>\<open>Not modelled.\<close>  What the model makes of the prompt text (the
  templates are modelled as strings and format strings only); the threads of the
  development server (runs are sequences of requests; the one interleaving
  modelled is \<^verbatim>\<open>describe_video\<close>'s, in \<open>VideoRace\<close>); the bodies of
  Flask's own 404, 405 and \<^verbatim>\<open>OPTIONS\<close> answers and CORS headers; Flask, CORS and logging set-up (\<^verbatim>\<open>run.py\<close>);
  the contents of a partly written temporary video (a failed write leaves an
  empty file); symbolic links in paths (\<^verbatim>\<open>abspath\<close> is lexical, the operating system is not); Chroma's embedding and persistence beyond appending
  documents; logging and \<^verbatim>\<open>time.sleep\<close>; exceptions of the tools themselves
  during the agent run (the store and Firestore are taken to answer); base64
  decoding of non-canonical text (the program only decodes its own encodings);
  Unicode beyond the character type of HOL; floats, taken as reals, whose
  printed text is a parameter of \<open>py_repr\<close> (the shortest round-trip digits of a
  double are not modelled); complex, bytes, set and tuple displays in
  \<^verbatim>\<open>literal_eval\<close>, which no tool returns; string escapes \<^verbatim>\<open>\N\<close>,
  \<^verbatim>\<open>\u\<close>, \<^verbatim>\<open>\U\<close>, which CPython decodes and the model
  refuses with \<^verbatim>\<open>ValueError\<close> (a tool's \<^verbatim>\<open>repr\<close> never produces
  them on the characters of HOL).  The star re-exports of
  \<^verbatim>\<open>agent_tools/__init__.py\<close> (the four copies of \<^verbatim>\<open>clean_text\<close> are
  identical, so which one a name resolves to does not matter) are configuration
  with no logic the theorems could depend on.
\<close>

text \<open>C21. Every answer the service returns with status 200 is already in the
  normal form of \<^verbatim>\<open>clean_text\<close>: whichever path produced it (the restructured
  guide, the agent's free text or a placeholder), normalising it again changes
  nothing.\<close>

theorem answer_normalised:
  "main_agent_post svc rq w = (success_response a, w') \<Longrightarrow> clean_text a = a"
proof -
  assume "main_agent_post svc rq w = (success_response a, w')"
  then consider (clean) t where "a = clean_text t" | (none) "a = ''No response from AI.''"
    | (fail) "a = ''Could not generate description.''"
    using main_agent_post_success_answer by blast
  then show "clean_text a = a"
  proof cases
    case clean
    then show ?thesis using clean_normal_fix [OF clean_text_normal] by simp
  qed (simp_all add: clean_text_def model_simps)
qed

theorem answer_normalised_witness:
  "clean_text ''Step 1: Unplug the washer. Step 2: Clean the drain pump filter.'' =
     ''Step 1: Unplug the washer. Step 2: Clean the drain pump filter.''"
  using answer_normalised [OF lg_run] .

end
